theory Spec2Isabelle
  imports Complex_Main "HOL-Library.Word" "HOL-Library.Product_Lexorder" "HOL-Library.Multiset"
    "HOL-Library.Log_Nat"
begin

section \<open>QuizMaster API: attempt lifecycle, scoring and ranking\<close>

text \<open>
  A shallow embedding of the Go handlers \<^verbatim>\<open>StartAttempt\<close>, \<^verbatim>\<open>SubmitAnswer\<close>,
  \<^verbatim>\<open>CompleteAttempt\<close> (handlers/user_handler.go), of the leaderboard handlers
  \<^verbatim>\<open>GetQuizLeaderboard\<close>, \<^verbatim>\<open>GetMyRank\<close>, \<^verbatim>\<open>GetGlobalLeaderboard\<close> and of
  \<^verbatim>\<open>ScoringService.CalculateScore\<close> (services).

  Conventions of the embedding:
  \<^item> Go \<^verbatim>\<open>int\<close> is \<^typ>\<open>int\<close>; no arithmetic on it in the modelled code can overflow
    except the rune conversion, which is modelled on 32-bit words;
  \<^item> a Go \<^verbatim>\<open>float64\<close> is the \<^typ>\<open>real\<close> number it denotes. In \<open>CalculateScore\<close>
    every conversion and every arithmetic operation is followed by the rounding \<open>f64\<close>
    of IEEE 754 binary64 defined below. The sums and quotients that the handlers and the
    store compute on scores (the maximum score, the \<^verbatim>\<open>$inc\<close> of the total score, the
    percentages and averages of the leaderboards) are taken exactly;
  \<^item> a MongoDB collection is the list of its documents in stored order;
  \<^item> a state changes by one whole handler call at a time; a call's reads and its write are
    not interleaved with those of another call.
\<close>

subsection \<open>Rounding to binary64\<close>

text \<open>
  The nearest integer with ties to the even one, the binary exponent of a real and the
  rounding of a real to the nearest binary64 number: 53 significant bits, the smallest
  exponent -1022 (below it the spacing stays \<open>2 powi (- 1074)\<close>), ties to the even
  significand. Magnitudes of \<open>2 ^ 1024\<close> and above, where binary64 has infinities, are not
  reached by the modelled code on 64-bit integers.
\<close>

definition round_half_even :: "real \<Rightarrow> int" where
  "round_half_even q =
     (let f = \<lfloor>q\<rfloor>; d = q - of_int f
      in if d < 1 / 2 then f else if 1 / 2 < d then f + 1 else if even f then f else f + 1)"

definition f64_exponent :: "real \<Rightarrow> int" where
  "f64_exponent x = bitlen \<lfloor>\<bar>x\<bar> * 2 ^ 1074\<rfloor> - 1075"

definition f64 :: "real \<Rightarrow> real" where
  "f64 x =
     (let u = 2 powi (max (f64_exponent x) (- 1022) - 52)
      in of_int (round_half_even (x / u)) * u)"

subsection \<open>Scoring service\<close>

text \<open>\<^verbatim>\<open>math.Round\<close>: the nearest integer, halves away from zero.\<close>

definition go_round :: "real \<Rightarrow> real" where
  "go_round x = (if x < 0 then - of_int \<lfloor>- x + 1 / 2\<rfloor> else of_int \<lfloor>x + 1 / 2\<rfloor>)"

text \<open>
  \<^verbatim>\<open>CalculateScore\<close>. The conversions \<^verbatim>\<open>float64(timeToAnswer-5)\<close> and
  \<^verbatim>\<open>float64(basePoints)\<close>, the constant \<^verbatim>\<open>0.3\<close> and each division, product and
  difference round to binary64; the constants 1.0, 5.0, 0.5 and 100 are binary64 numbers.
  Each operation rounds on its own (no fused multiply-add, as the Go compiler emits for
  amd64).
\<close>

definition CalculateScore :: "int \<Rightarrow> int \<Rightarrow> bool \<Rightarrow> real" where
  "CalculateScore basePoints timeToAnswer isCorrect =
     (if \<not> isCorrect then 0
      else
        let multiplier =
              (if timeToAnswer \<le> 5 then 1.0
               else if timeToAnswer \<le> 10
                 then f64 (1.0 - f64 (f64 (f64 (of_int (timeToAnswer - 5)) / 5.0) * f64 0.3))
               else 0.5);
            score = f64 (f64 (of_int basePoints) * multiplier)
        in f64 (go_round (f64 (score * 100)) / 100))"

subsection \<open>Data model (models/models.go)\<close>

text \<open>
  A \<^verbatim>\<open>primitive.ObjectID\<close> is only ever compared for equality; a \<^verbatim>\<open>time.Time\<close> is a
  count of milliseconds, the resolution of a stored BSON datetime. A value of type
  \<^verbatim>\<open>interface{}\<close> carries its dynamic type; equality of two such values is equality of
  type and value, which is equality of the datatype below.
\<close>

type_synonym ObjectID = nat
type_synonym Time = int

datatype any =
    AnyNil
  | AnyString string
  | AnyBool bool
  | AnyInt int
  | AnyInt32 int
  | AnyInt64 int
  | AnyFloat64 real

definition QuestionTypeTrueFalse :: string where
  "QuestionTypeTrueFalse = ''true_false''"

definition QuestionTypeMultipleChoice :: string where
  "QuestionTypeMultipleChoice = ''multiple_choice''"

definition StatusPending :: string where
  "StatusPending = ''pending''"

definition StatusApproved :: string where
  "StatusApproved = ''approved''"

definition StatusRejected :: string where
  "StatusRejected = ''rejected''"

record Question =
  Question_ID :: ObjectID
  QuestionText :: string
  Question_Type :: string
  Options :: "string list"
  CorrectAnswer :: any
  TimeLimit :: int
  Points :: int
  Order :: int

text \<open>
  Of a quiz the handlers read the identifier, the course reference, the status and the
  questions; its descriptive fields (title, category, creator, timestamps) are left out.
\<close>

record Quiz =
  Quiz_ID :: ObjectID
  CourseID :: string
  Status :: string
  Questions :: "Question list"

record Answer =
  QuestionID :: ObjectID
  StudentAnswer :: any
  IsCorrect :: bool
  TimeToAnswer :: int
  PointsEarned :: real
  AnsweredAt :: Time

record QuizAttempt =
  Attempt_ID :: ObjectID
  QuizID :: ObjectID
  StudentID :: ObjectID
  Answers :: "Answer list"
  TotalScore :: real
  MaxScore :: real
  StartedAt :: Time
  CompletedAt :: "Time option"
  TimeTaken :: int

record User =
  User_ID :: ObjectID
  FirstName :: string
  LastName :: string

record LeaderboardEntry =
  Rank :: int
  Entry_StudentID :: ObjectID
  StudentName :: string
  Score :: real
  Entry_MaxScore :: real
  Percentage :: real
  Entry_TimeTaken :: int
  Entry_CompletedAt :: Time

subsection \<open>The store\<close>

record DB =
  attemptCollection :: "QuizAttempt list"
  quizCollection :: "Quiz list"
  userCollection :: "User list"

text \<open>
  \<^verbatim>\<open>InsertOne\<close> appends a document unless its \<^verbatim>\<open>_id\<close> is taken (the unique index on
  \<^verbatim>\<open>_id\<close>); \<^verbatim>\<open>FindOne\<close> is \<^const>\<open>find\<close>; \<^verbatim>\<open>UpdateOne\<close> changes the first document
  that matches the filter.
\<close>

definition InsertOne :: "QuizAttempt \<Rightarrow> QuizAttempt list \<Rightarrow> QuizAttempt list option" where
  "InsertOne doc coll =
     (if Attempt_ID doc \<in> set (map Attempt_ID coll) then None else Some (coll @ [doc]))"

fun UpdateOne :: "('a \<Rightarrow> bool) \<Rightarrow> ('a \<Rightarrow> 'a) \<Rightarrow> 'a list \<Rightarrow> 'a list" where
  "UpdateOne P f [] = []"
| "UpdateOne P f (x # xs) = (if P x then f x # xs else x # UpdateOne P f xs)"

subsection \<open>Replies\<close>

datatype HTTPStatus =
    StatusBadRequest
  | StatusForbidden
  | StatusNotFound
  | StatusConflict
  | StatusInternalServerError

text \<open>
  A failed request answers with a status and an error message. \<open>BindFailure\<close> is the
  400 reply of \<^verbatim>\<open>ShouldBindJSON\<close>, whose message is the validator's.
\<close>

datatype Failure = BindFailure | Failure HTTPStatus string

subsection \<open>Starting an attempt (handlers/user_handler.go)\<close>

text \<open>
  The handler's inputs after request parsing: the authenticated student, the quiz
  identifier, the external course service (\<open>None\<close> is an error of the call), the fresh
  identifier drawn by \<^verbatim>\<open>primitive.NewObjectID\<close> and the current time.

  The lookup of an ongoing attempt is followed by \<^verbatim>\<open>if err == nil\<close>: the conflict reply
  is given when the store answers with a document. \<open>lookupError\<close> tells that the call
  ended in an error other than the absence of a document (a timeout, a lost connection, a
  document that does not decode); the handler then goes on as if there were no ongoing
  attempt. An error of one of the other store calls ends the request with an error reply
  before any write and is not modelled.
\<close>

definition StartAttempt ::
  "DB \<Rightarrow> ObjectID \<Rightarrow> ObjectID \<Rightarrow> (ObjectID \<Rightarrow> string \<Rightarrow> bool option) \<Rightarrow> bool \<Rightarrow> ObjectID
     \<Rightarrow> Time \<Rightarrow> (Failure + QuizAttempt \<times> Quiz) \<times> DB" where
  "StartAttempt db studentID quizID CheckCourseCompletion lookupError newID now =
     (case find (\<lambda>q. Quiz_ID q = quizID) (quizCollection db) of
        None \<Rightarrow> (Inl (Failure StatusNotFound ''Quiz not found''), db)
      | Some quiz \<Rightarrow>
          if Status quiz \<noteq> StatusApproved
            then (Inl (Failure StatusForbidden ''Quiz is not available for attempts''), db)
          else
            (case CheckCourseCompletion studentID (CourseID quiz) of
               None \<Rightarrow>
                 (Inl (Failure StatusInternalServerError ''Failed to verify course completion''), db)
             | Some completed \<Rightarrow>
                 if \<not> completed
                   then (Inl (Failure StatusForbidden
                           ''You must complete the required course before attempting this quiz''), db)
                 else if \<not> lookupError \<and>
                         find (\<lambda>a. QuizID a = quizID \<and> StudentID a = studentID \<and> CompletedAt a = None)
                           (attemptCollection db) \<noteq> None
                   then (Inl (Failure StatusConflict
                           ''You already have an ongoing attempt for this quiz''), db)
                 else
                   let maxScore = foldl (\<lambda>m q. m + of_int (Points q)) 0.0 (Questions quiz);
                       attempt = \<lparr>Attempt_ID = newID, QuizID = quizID, StudentID = studentID,
                                  Answers = [], TotalScore = 0, MaxScore = maxScore,
                                  StartedAt = now, CompletedAt = None, TimeTaken = 0\<rparr>
                   in (case InsertOne attempt (attemptCollection db) of
                         None \<Rightarrow>
                           (Inl (Failure StatusInternalServerError ''Failed to start quiz attempt''), db)
                       | Some coll \<Rightarrow>
                           let quizForAttempt =
                                 quiz\<lparr>Questions := map (\<lambda>q. q\<lparr>CorrectAnswer := AnyNil\<rparr>) (Questions quiz)\<rparr>
                           in (Inr (attempt, quizForAttempt), db\<lparr>attemptCollection := coll\<rparr>))))"

subsection \<open>Submitting an answer\<close>

text \<open>
  The request after \<^verbatim>\<open>ShouldBindJSON\<close> and \<^verbatim>\<open>ObjectIDFromHex\<close>. Both \<^verbatim>\<open>Answer\<close> and
  \<^verbatim>\<open>TimeToAnswer\<close> are bound as \<^verbatim>\<open>required\<close>, which refuses the zero value of the
  field's type: the empty string and 0.
\<close>

record SubmitAnswerRequest =
  req_AttemptID :: ObjectID
  req_QuestionID :: ObjectID
  req_Answer :: string
  req_TimeToAnswer :: int

text \<open>
  The conversion \<^verbatim>\<open>rune(n)\<close> of a Go \<^verbatim>\<open>int\<close> keeps the low 32 bits as a signed number;
  \<^verbatim>\<open>string(r)\<close> of a rune is the UTF-8 encoding of the code point, and of U+FFFD when
  \<open>r\<close> is not a Unicode scalar value. \<^verbatim>\<open>int(x)\<close> of a \<^verbatim>\<open>float64\<close> drops the fraction.
\<close>

definition rune :: "int \<Rightarrow> int" where
  "rune n = sint (word_of_int n :: 32 word)"

definition string_of_rune :: "int \<Rightarrow> string" where
  "string_of_rune r =
     (if r < 0 \<or> 0x10FFFF < r \<or> (0xD800 \<le> r \<and> r \<le> 0xDFFF)
        then [char_of (0xEF::int), char_of (0xBF::int), char_of (0xBD::int)]
      else if r < 0x80 then [char_of r]
      else if r < 0x800 then [char_of (0xC0 + r div 64), char_of (0x80 + r mod 64)]
      else if r < 0x10000
        then [char_of (0xE0 + r div 4096), char_of (0x80 + (r div 64) mod 64),
              char_of (0x80 + r mod 64)]
      else [char_of (0xF0 + r div 262144), char_of (0x80 + (r div 4096) mod 64),
            char_of (0x80 + (r div 64) mod 64), char_of (0x80 + r mod 64)])"

definition go_int :: "real \<Rightarrow> int" where
  "go_int x = (if x < 0 then \<lceil>x\<rceil> else \<lfloor>x\<rfloor>)"

text \<open>The type switch on \<^verbatim>\<open>question.CorrectAnswer\<close>; \<^verbatim>\<open>'0'\<close> is 48.\<close>

definition correctAnswerStr :: "any \<Rightarrow> string" where
  "correctAnswerStr v =
     (case v of
        AnyString s \<Rightarrow> s
      | AnyBool b \<Rightarrow> (if b then ''true'' else ''false'')
      | AnyInt n \<Rightarrow> string_of_rune (rune (n + 48))
      | AnyFloat64 x \<Rightarrow> string_of_rune (rune (go_int x + 48))
      | _ \<Rightarrow> [])"

datatype SubmitAnswerReply = SubmitAnswerReply (is_correct: bool) (points_earned: real)

definition SubmitAnswer ::
  "DB \<Rightarrow> ObjectID \<Rightarrow> SubmitAnswerRequest \<Rightarrow> Time \<Rightarrow> (Failure + SubmitAnswerReply) \<times> DB" where
  "SubmitAnswer db studentID req now =
     (if req_Answer req = [] \<or> req_TimeToAnswer req = 0 then (Inl BindFailure, db)
      else
        case find (\<lambda>a. Attempt_ID a = req_AttemptID req \<and> StudentID a = studentID)
               (attemptCollection db) of
          None \<Rightarrow> (Inl (Failure StatusNotFound ''Attempt not found''), db)
        | Some attempt \<Rightarrow>
            if CompletedAt attempt \<noteq> None
              then (Inl (Failure StatusBadRequest ''This attempt is already completed''), db)
            else
              (case find (\<lambda>q. Quiz_ID q = QuizID attempt) (quizCollection db) of
                 None \<Rightarrow> (Inl (Failure StatusNotFound ''Quiz not found''), db)
               | Some quiz \<Rightarrow>
                   (case find (\<lambda>q. Question_ID q = req_QuestionID req) (Questions quiz) of
                      None \<Rightarrow> (Inl (Failure StatusNotFound ''Question not found in quiz''), db)
                    | Some question \<Rightarrow>
                        if find (\<lambda>ans. QuestionID ans = req_QuestionID req) (Answers attempt) \<noteq> None
                          then (Inl (Failure StatusBadRequest
                                  ''Answer already submitted for this question''), db)
                        else if req_TimeToAnswer req > TimeLimit question
                          then (Inl (Failure StatusBadRequest ''Time limit exceeded''), db)
                        else
                          let isCorrect = (req_Answer req = correctAnswerStr (CorrectAnswer question));
                              pointsEarned =
                                CalculateScore (Points question) (req_TimeToAnswer req) isCorrect;
                              answer = \<lparr>QuestionID = req_QuestionID req,
                                        StudentAnswer = AnyString (req_Answer req),
                                        IsCorrect = isCorrect,
                                        TimeToAnswer = req_TimeToAnswer req,
                                        PointsEarned = pointsEarned,
                                        AnsweredAt = now\<rparr>
                          in (Inr (SubmitAnswerReply isCorrect pointsEarned),
                              db\<lparr>attemptCollection :=
                                   UpdateOne (\<lambda>a. Attempt_ID a = req_AttemptID req)
                                     (\<lambda>a. a\<lparr>Answers := Answers a @ [answer],
                                             TotalScore := TotalScore a + pointsEarned\<rparr>)
                                     (attemptCollection db)\<rparr>))))"

subsection \<open>Completing an attempt\<close>

text \<open>
  \<^verbatim>\<open>int(now.Sub(attempt.StartedAt).Seconds())\<close>: the elapsed milliseconds as seconds,
  fraction dropped.
\<close>

definition CompleteAttempt ::
  "DB \<Rightarrow> ObjectID \<Rightarrow> ObjectID \<Rightarrow> Time \<Rightarrow> (Failure + QuizAttempt) \<times> DB" where
  "CompleteAttempt db studentID objectID now =
     (case find (\<lambda>a. Attempt_ID a = objectID \<and> StudentID a = studentID) (attemptCollection db) of
        None \<Rightarrow> (Inl (Failure StatusNotFound ''Attempt not found''), db)
      | Some attempt \<Rightarrow>
          if CompletedAt attempt \<noteq> None
            then (Inl (Failure StatusBadRequest ''Attempt already completed''), db)
          else
            let timeTaken = go_int (of_int (now - StartedAt attempt) / 1000);
                db' = db\<lparr>attemptCollection :=
                           UpdateOne (\<lambda>a. Attempt_ID a = objectID)
                             (\<lambda>a. a\<lparr>CompletedAt := Some now, TimeTaken := timeTaken\<rparr>)
                             (attemptCollection db)\<rparr>
            in (case find (\<lambda>a. Attempt_ID a = objectID) (attemptCollection db') of
                  None \<Rightarrow> (Inl (Failure StatusInternalServerError ''Failed to retrieve attempt''), db')
                | Some updated \<Rightarrow> (Inr updated, db')))"

subsection \<open>States reachable through the three operations\<close>

text \<open>
  From an empty attempt collection, over fixed quiz and user collections, any sequence of
  requests to the three handlers, each with arbitrary inputs and each handled as a whole
  before the next one starts. Requests whose reads and writes overlap in time are outside
  this relation.
\<close>

inductive reachable :: "Quiz list \<Rightarrow> User list \<Rightarrow> DB \<Rightarrow> bool"
  for qs :: "Quiz list" and us :: "User list" where
  reachable_init:
    "reachable qs us \<lparr>attemptCollection = [], quizCollection = qs, userCollection = us\<rparr>"
| reachable_start:
    "reachable qs us db \<Longrightarrow>
       reachable qs us
         (snd (StartAttempt db studentID quizID CheckCourseCompletion lookupError newID now))"
| reachable_submit:
    "reachable qs us db \<Longrightarrow> reachable qs us (snd (SubmitAnswer db studentID req now))"
| reachable_complete:
    "reachable qs us db \<Longrightarrow> reachable qs us (snd (CompleteAttempt db studentID objectID now))"

text \<open>
  The same sequences of requests, when no lookup of an ongoing attempt ends in an error.
\<close>

inductive reachable_no_lookup_error :: "Quiz list \<Rightarrow> User list \<Rightarrow> DB \<Rightarrow> bool"
  for qs :: "Quiz list" and us :: "User list" where
  no_lookup_error_init:
    "reachable_no_lookup_error qs us
       \<lparr>attemptCollection = [], quizCollection = qs, userCollection = us\<rparr>"
| no_lookup_error_start:
    "reachable_no_lookup_error qs us db \<Longrightarrow>
       reachable_no_lookup_error qs us
         (snd (StartAttempt db studentID quizID CheckCourseCompletion False newID now))"
| no_lookup_error_submit:
    "reachable_no_lookup_error qs us db \<Longrightarrow>
       reachable_no_lookup_error qs us (snd (SubmitAnswer db studentID req now))"
| no_lookup_error_complete:
    "reachable_no_lookup_error qs us db \<Longrightarrow>
       reachable_no_lookup_error qs us (snd (CompleteAttempt db studentID objectID now))"

subsection \<open>Quiz leaderboard (leaderboard handler)\<close>

text \<open>
  \<^verbatim>\<open>Find\<close> with the sort document \<^verbatim>\<open>{total_score: -1, time_taken: 1}\<close>: descending
  score, then ascending time. The sort has no further key; documents equal on both keys
  come back in their stored order.
\<close>

definition sort_by_score_time :: "QuizAttempt list \<Rightarrow> QuizAttempt list" where
  "sort_by_score_time = sort_key (\<lambda>a. (- TotalScore a, TimeTaken a))"

text \<open>
  The loop over the sorted attempts. An attempt whose student has no user document is
  skipped without consuming a rank. \<open>None\<close> is the nil dereference of
  \<^verbatim>\<open>*attempt.CompletedAt\<close>.
\<close>

fun build_leaderboard :: "User list \<Rightarrow> int \<Rightarrow> QuizAttempt list \<Rightarrow> LeaderboardEntry list option" where
  "build_leaderboard us rank [] = Some []"
| "build_leaderboard us rank (attempt # rest) =
     (case find (\<lambda>u. User_ID u = StudentID attempt) us of
        None \<Rightarrow> build_leaderboard us rank rest
      | Some user \<Rightarrow>
          (case CompletedAt attempt of
             None \<Rightarrow> None
           | Some completedAt \<Rightarrow>
               let percentage =
                     (if MaxScore attempt > 0
                        then (TotalScore attempt / MaxScore attempt) * 100 else 0.0);
                   entry = \<lparr>Rank = rank,
                            Entry_StudentID = StudentID attempt,
                            StudentName = FirstName user @ '' '' @ LastName user,
                            Score = TotalScore attempt,
                            Entry_MaxScore = MaxScore attempt,
                            Percentage = percentage,
                            Entry_TimeTaken = TimeTaken attempt,
                            Entry_CompletedAt = completedAt\<rparr>
               in map_option ((#) entry) (build_leaderboard us (rank + 1) rest)))"

datatype QuizLeaderboardReply =
  QuizLeaderboardReply (total_count: int) (leaderboard: "LeaderboardEntry list")

definition GetQuizLeaderboard :: "DB \<Rightarrow> ObjectID \<Rightarrow> QuizLeaderboardReply option" where
  "GetQuizLeaderboard db objectID =
     (let attempts = sort_by_score_time
                       (filter (\<lambda>a. QuizID a = objectID \<and> CompletedAt a \<noteq> None)
                          (attemptCollection db))
      in map_option (\<lambda>lb. QuizLeaderboardReply (int (length lb)) lb)
           (build_leaderboard (userCollection db) 1 attempts))"

subsection \<open>Rank of one student\<close>

record MyRankReply =
  reply_rank :: int
  reply_total_participants :: int
  reply_score :: real
  reply_max_score :: real
  reply_percentage :: real
  reply_time_taken :: int

definition GetMyRank :: "DB \<Rightarrow> ObjectID \<Rightarrow> ObjectID \<Rightarrow> Failure + MyRankReply" where
  "GetMyRank db studentID objectID =
     (case sort_by_score_time
             (filter (\<lambda>a. QuizID a = objectID \<and> StudentID a = studentID \<and> CompletedAt a \<noteq> None)
                (attemptCollection db)) of
        [] \<Rightarrow> Inl (Failure StatusNotFound ''No completed attempts found'')
      | userAttempt # _ \<Rightarrow>
          let betterCount =
                length (filter (\<lambda>a. QuizID a = objectID \<and> CompletedAt a \<noteq> None \<and>
                                     (TotalScore a > TotalScore userAttempt \<or>
                                      (TotalScore a = TotalScore userAttempt \<and>
                                       TimeTaken a < TimeTaken userAttempt)))
                          (attemptCollection db));
              totalCount =
                length (filter (\<lambda>a. QuizID a = objectID \<and> CompletedAt a \<noteq> None)
                          (attemptCollection db));
              percentage =
                (if MaxScore userAttempt > 0
                   then (TotalScore userAttempt / MaxScore userAttempt) * 100 else 0.0)
          in Inr \<lparr>reply_rank = int betterCount + 1,
                  reply_total_participants = int totalCount,
                  reply_score = TotalScore userAttempt,
                  reply_max_score = MaxScore userAttempt,
                  reply_percentage = percentage,
                  reply_time_taken = TimeTaken userAttempt\<rparr>)"

subsection \<open>Global leaderboard\<close>

text \<open>
  The stages of the aggregation pipeline run in the MongoDB server, whose code is not
  part of this repository. The operator \<^verbatim>\<open>$divide\<close> is a parameter of the model:
  \<open>divide_op x y\<close> is the operator's value for the dividend \<open>x\<close> and the divisor \<open>y\<close>, and
  \<open>None\<close> when the operator raises an error, which fails the whole pipeline. The example
  \<open>mongo_divide\<close> of the operator has the quotient as its value for a divisor other than
  zero and raises an error for the divisor zero.
\<close>

definition mongo_divide :: "real \<Rightarrow> real \<Rightarrow> real option" where
  "mongo_divide x y = (if y = 0 then None else Some (x / y))"

record GlobalEntry =
  Group_StudentID :: ObjectID
  AvgScore :: real
  TotalAttempts :: int
  Group_TotalScore :: real

text \<open>
  The \<^verbatim>\<open>$group\<close> stage on \<^verbatim>\<open>student_id\<close>, one group for each student of the matched
  documents: the average (\<^verbatim>\<open>$avg\<close>) over the student's attempts of the product by 100
  (\<^verbatim>\<open>$multiply\<close>) of the \<^verbatim>\<open>$divide\<close> of total score by maximum score, the number of
  attempts and the sum of their total scores. The \<^verbatim>\<open>$match\<close> stage keeps the completed
  attempts, \<^verbatim>\<open>$sort\<close> orders the groups by average, highest first, and \<^verbatim>\<open>$limit\<close> keeps
  the first 50.
\<close>

definition group_by_student ::
  "(real \<Rightarrow> real \<Rightarrow> real option) \<Rightarrow> QuizAttempt list \<Rightarrow> GlobalEntry list option" where
  "group_by_student divide_op docs =
     those (map (\<lambda>sid.
                   let mine = filter (\<lambda>a. StudentID a = sid) docs
                   in map_option
                        (\<lambda>ps. \<lparr>Group_StudentID = sid,
                                AvgScore = sum_list ps / of_nat (length ps),
                                TotalAttempts = int (length mine),
                                Group_TotalScore = sum_list (map TotalScore mine)\<rparr>)
                        (those (map (\<lambda>a. map_option (\<lambda>d. d * 100)
                                            (divide_op (TotalScore a) (MaxScore a))) mine)))
                (remdups (map StudentID docs)))"

definition aggregate_pipeline ::
  "(real \<Rightarrow> real \<Rightarrow> real option) \<Rightarrow> QuizAttempt list \<Rightarrow> GlobalEntry list option" where
  "aggregate_pipeline divide_op coll =
     map_option (\<lambda>groups. take 50 (sort_key (\<lambda>g. - AvgScore g) groups))
       (group_by_student divide_op (filter (\<lambda>a. CompletedAt a \<noteq> None) coll))"

record GlobalLeaderboardEntry =
  Global_Rank :: int
  Global_StudentID :: ObjectID
  Global_StudentName :: string
  Global_AvgScore :: real
  Global_TotalAttempts :: int
  Global_TotalScore :: real

fun enrich_global :: "User list \<Rightarrow> int \<Rightarrow> GlobalEntry list \<Rightarrow> GlobalLeaderboardEntry list" where
  "enrich_global us rank [] = []"
| "enrich_global us rank (result # rest) =
     (case find (\<lambda>u. User_ID u = Group_StudentID result) us of
        None \<Rightarrow> enrich_global us rank rest
      | Some user \<Rightarrow>
          \<lparr>Global_Rank = rank,
           Global_StudentID = Group_StudentID result,
           Global_StudentName = FirstName user @ '' '' @ LastName user,
           Global_AvgScore = AvgScore result,
           Global_TotalAttempts = TotalAttempts result,
           Global_TotalScore = Group_TotalScore result\<rparr>
          # enrich_global us (rank + 1) rest)"

definition GetGlobalLeaderboard ::
  "(real \<Rightarrow> real \<Rightarrow> real option) \<Rightarrow> DB \<Rightarrow> Failure + GlobalLeaderboardEntry list" where
  "GetGlobalLeaderboard divide_op db =
     (case aggregate_pipeline divide_op (attemptCollection db) of
        None \<Rightarrow> Inl (Failure StatusInternalServerError ''Failed to generate leaderboard'')
      | Some results \<Rightarrow> Inr (enrich_global (userCollection db) 1 results))"

subsection \<open>Invariants of the store\<close>

text \<open>
  An attempt is consistent with the quiz collection when its quiz exists, its maximum score
  is the sum of the quiz's points, it holds at most one answer per question, its total
  score is the sum of the points its answers earned, and each answer earned what
  \<open>CalculateScore\<close> gives for a question of the quiz. The store is consistent when
  attempt identifiers are distinct and every attempt is consistent.
\<close>

definition attempt_ok :: "Quiz list \<Rightarrow> QuizAttempt \<Rightarrow> bool" where
  "attempt_ok qs a \<longleftrightarrow>
     (case find (\<lambda>q. Quiz_ID q = QuizID a) qs of
        None \<Rightarrow> False
      | Some quiz \<Rightarrow>
          MaxScore a = (\<Sum>q\<leftarrow>Questions quiz. real_of_int (Points q)) \<and>
          distinct (map QuestionID (Answers a)) \<and>
          TotalScore a = (\<Sum>ans\<leftarrow>Answers a. PointsEarned ans) \<and>
          (\<forall>ans\<in>set (Answers a).
             case find (\<lambda>q. Question_ID q = QuestionID ans) (Questions quiz) of
               None \<Rightarrow> False
             | Some q \<Rightarrow> PointsEarned ans = CalculateScore (Points q) (TimeToAnswer ans) (IsCorrect ans)))"

definition db_ok :: "Quiz list \<Rightarrow> User list \<Rightarrow> DB \<Rightarrow> bool" where
  "db_ok qs us db \<longleftrightarrow>
     quizCollection db = qs \<and> userCollection db = us \<and>
     distinct (map Attempt_ID (attemptCollection db)) \<and>
     (\<forall>a\<in>set (attemptCollection db). attempt_ok qs a)"

subsection \<open>Notions of the specification\<close>

text \<open>
  Exact-typed equality of a submitted value and a correct answer: the two values have the
  same dynamic type and the same value, as \<^verbatim>\<open>==\<close> on two \<^verbatim>\<open>interface{}\<close> values.
\<close>

definition exact_typed_equal :: "any \<Rightarrow> any \<Rightarrow> bool" where
  "exact_typed_equal submitted correct \<longleftrightarrow> submitted = correct"

text \<open>
  The ordering of the ranking engine on attempts: \<open>outranks a b\<close> when \<open>a\<close> has the higher
  total score, or the same total score and the lower time taken. On leaderboard entries,
  \<open>precedes_score_time\<close> is the order by score descending, then time taken ascending;
  \<open>precedes_spec\<close> adds the third key of the specification, the completion timestamp
  ascending.
\<close>

definition outranks :: "QuizAttempt \<Rightarrow> QuizAttempt \<Rightarrow> bool" where
  "outranks a b \<longleftrightarrow>
     TotalScore a > TotalScore b \<or> (TotalScore a = TotalScore b \<and> TimeTaken a < TimeTaken b)"

definition precedes_score_time :: "LeaderboardEntry \<Rightarrow> LeaderboardEntry \<Rightarrow> bool" where
  "precedes_score_time e1 e2 \<longleftrightarrow>
     Score e1 > Score e2 \<or> (Score e1 = Score e2 \<and> Entry_TimeTaken e1 \<le> Entry_TimeTaken e2)"

definition precedes_spec :: "LeaderboardEntry \<Rightarrow> LeaderboardEntry \<Rightarrow> bool" where
  "precedes_spec e1 e2 \<longleftrightarrow>
     Score e1 > Score e2 \<or>
     (Score e1 = Score e2 \<and>
        (Entry_TimeTaken e1 < Entry_TimeTaken e2 \<or>
         (Entry_TimeTaken e1 = Entry_TimeTaken e2 \<and> Entry_CompletedAt e1 \<le> Entry_CompletedAt e2)))"

text \<open>
  What a leaderboard entry shows of an attempt, read off the attempt and off the entry, and
  whether the student of an attempt has a user document.
\<close>

definition known_student :: "User list \<Rightarrow> QuizAttempt \<Rightarrow> bool" where
  "known_student us a \<longleftrightarrow> find (\<lambda>u. User_ID u = StudentID a) us \<noteq> None"

definition attempt_row :: "QuizAttempt \<Rightarrow> ObjectID \<times> real \<times> real \<times> real \<times> int \<times> Time option" where
  "attempt_row a =
     (StudentID a, TotalScore a, MaxScore a,
      (if MaxScore a > 0 then (TotalScore a / MaxScore a) * 100 else 0),
      TimeTaken a, CompletedAt a)"

definition entry_row :: "LeaderboardEntry \<Rightarrow> ObjectID \<times> real \<times> real \<times> real \<times> int \<times> Time option" where
  "entry_row e =
     (Entry_StudentID e, Score e, Entry_MaxScore e, Percentage e, Entry_TimeTaken e,
      Some (Entry_CompletedAt e))"


text \<open>
  What an entry of the global leaderboard shows, read off a group of the aggregation and off
  the entry; the name is that of the student's user document, when there is one.
\<close>

definition student_name :: "User list \<Rightarrow> ObjectID \<Rightarrow> string option" where
  "student_name us sid =
     map_option (\<lambda>u. FirstName u @ '' '' @ LastName u) (find (\<lambda>u. User_ID u = sid) us)"

definition group_row :: "User list \<Rightarrow> GlobalEntry \<Rightarrow> ObjectID \<times> string option \<times> real \<times> int \<times> real" where
  "group_row us g =
     (Group_StudentID g, student_name us (Group_StudentID g), AvgScore g, TotalAttempts g,
      Group_TotalScore g)"

definition global_row :: "GlobalLeaderboardEntry \<Rightarrow> ObjectID \<times> string option \<times> real \<times> int \<times> real" where
  "global_row e =
     (Global_StudentID e, Some (Global_StudentName e), Global_AvgScore e, Global_TotalAttempts e,
      Global_TotalScore e)"

subsection \<open>A worked scenario\<close>

text \<open>
  One approved quiz of three questions worth 10, 20 and 30 points. Student 7 starts an
  attempt at time 1000, answers the first question in 5 seconds and the second in 12,
  and completes the attempt at time 12900, leaving the third question unanswered.
\<close>

definition ex_quiz :: Quiz where
  "ex_quiz = \<lparr>Quiz_ID = 5, CourseID = ''MATH101'', Status = StatusApproved,
     Questions =
       [\<lparr>Question_ID = 11, QuestionText = ''Is Go a compiled language?'',
          Question_Type = QuestionTypeTrueFalse, Options = [],
          CorrectAnswer = AnyBool True, TimeLimit = 15, Points = 10, Order = 1\<rparr>,
        \<lparr>Question_ID = 12, QuestionText = ''Which keyword declares a variable?'',
          Question_Type = QuestionTypeMultipleChoice, Options = [''let'', ''var''],
          CorrectAnswer = AnyFloat64 1, TimeLimit = 15, Points = 20, Order = 2\<rparr>,
        \<lparr>Question_ID = 13, QuestionText = ''Which one is a loop?'',
          Question_Type = QuestionTypeMultipleChoice, Options = [''if'', ''go'', ''for''],
          CorrectAnswer = AnyString ''2'', TimeLimit = 15, Points = 30, Order = 3\<rparr>]\<rparr>"

definition ex_users :: "User list" where
  "ex_users = [\<lparr>User_ID = 7, FirstName = ''Ada'', LastName = ''Byron''\<rparr>,
               \<lparr>User_ID = 8, FirstName = ''Alan'', LastName = ''Turing''\<rparr>]"

definition ex_db0 :: DB where
  "ex_db0 = \<lparr>attemptCollection = [], quizCollection = [ex_quiz], userCollection = ex_users\<rparr>"

definition ex_answer :: "ObjectID \<Rightarrow> ObjectID \<Rightarrow> string \<Rightarrow> int \<Rightarrow> SubmitAnswerRequest" where
  "ex_answer attemptID questionID answer timeToAnswer =
     \<lparr>req_AttemptID = attemptID, req_QuestionID = questionID, req_Answer = answer,
      req_TimeToAnswer = timeToAnswer\<rparr>"

definition ex_db1 :: DB where
  "ex_db1 = snd (StartAttempt ex_db0 7 5 (\<lambda>_ _. Some True) False 100 1000)"

definition ex_db2 :: DB where
  "ex_db2 = snd (SubmitAnswer ex_db1 7 (ex_answer 100 11 ''true'' 5) 2000)"

definition ex_db3 :: DB where
  "ex_db3 = snd (SubmitAnswer ex_db2 7 (ex_answer 100 12 ''1'' 12) 3000)"

definition ex_db4 :: DB where
  "ex_db4 = snd (CompleteAttempt ex_db3 7 100 12900)"

definition ex_attempt1 :: QuizAttempt where
  "ex_attempt1 = \<lparr>Attempt_ID = 100, QuizID = 5, StudentID = 7, Answers = [],
                   TotalScore = 0, MaxScore = 60, StartedAt = 1000, CompletedAt = None,
                   TimeTaken = 0\<rparr>"

definition ex_answer1 :: Answer where
  "ex_answer1 = \<lparr>QuestionID = 11, StudentAnswer = AnyString ''true'', IsCorrect = True,
                  TimeToAnswer = 5, PointsEarned = 10, AnsweredAt = 2000\<rparr>"

definition ex_answer2 :: Answer where
  "ex_answer2 = \<lparr>QuestionID = 12, StudentAnswer = AnyString ''1'', IsCorrect = True,
                  TimeToAnswer = 12, PointsEarned = 10, AnsweredAt = 3000\<rparr>"

definition ex_attempt3 :: QuizAttempt where
  "ex_attempt3 = ex_attempt1\<lparr>Answers := [ex_answer1, ex_answer2], TotalScore := 20\<rparr>"

text \<open>
  Student 8 then starts an attempt at time 1000 as well, gives the same two answers
  and completes at time 12000: the same total score and the same time taken in whole
  seconds as student 7, with the earlier completion timestamp.
\<close>

definition ex_db5 :: DB where
  "ex_db5 = snd (StartAttempt ex_db4 8 5 (\<lambda>_ _. Some True) False 101 1000)"

definition ex_db6 :: DB where
  "ex_db6 = snd (SubmitAnswer ex_db5 8 (ex_answer 101 11 ''true'' 5) 2000)"

definition ex_db7 :: DB where
  "ex_db7 = snd (SubmitAnswer ex_db6 8 (ex_answer 101 12 ''1'' 12) 3000)"

definition ex_db8 :: DB where
  "ex_db8 = snd (CompleteAttempt ex_db7 8 101 12000)"

definition ex_attempt7 :: QuizAttempt where
  "ex_attempt7 = ex_attempt3\<lparr>CompletedAt := Some 12900, TimeTaken := 11\<rparr>"

definition ex_attempt8 :: QuizAttempt where
  "ex_attempt8 = ex_attempt3\<lparr>Attempt_ID := 101, StudentID := 8, CompletedAt := Some 12000,
                              TimeTaken := 11\<rparr>"

definition ex_entry7 :: LeaderboardEntry where
  "ex_entry7 = \<lparr>Rank = 1, Entry_StudentID = 7, StudentName = ''Ada Byron'', Score = 20,
                 Entry_MaxScore = 60, Percentage = 20 / 60 * 100, Entry_TimeTaken = 11,
                 Entry_CompletedAt = 12900\<rparr>"

definition ex_entry8 :: LeaderboardEntry where
  "ex_entry8 = \<lparr>Rank = 2, Entry_StudentID = 8, StudentName = ''Alan Turing'', Score = 20,
                 Entry_MaxScore = 60, Percentage = 20 / 60 * 100, Entry_TimeTaken = 11,
                 Entry_CompletedAt = 12000\<rparr>"

definition ex_rank8 :: MyRankReply where
  "ex_rank8 = \<lparr>reply_rank = 1, reply_total_participants = 2, reply_score = 20,
                reply_max_score = 60, reply_percentage = 20 / 60 * 100, reply_time_taken = 11\<rparr>"

text \<open>
  A store holding one completed attempt whose maximum score is 0: an attempt at a quiz
  without questions.
\<close>

definition ex_zero_attempt :: QuizAttempt where
  "ex_zero_attempt = \<lparr>Attempt_ID = 200, QuizID = 6, StudentID = 7, Answers = [],
                       TotalScore = 0, MaxScore = 0, StartedAt = 1000, CompletedAt = Some 4000,
                       TimeTaken = 3\<rparr>"

definition ex_zero_db :: DB where
  "ex_zero_db = \<lparr>attemptCollection = [ex_zero_attempt],
                  quizCollection = [\<lparr>Quiz_ID = 6, CourseID = ''MATH101'', Status = StatusApproved,
                                     Questions = []\<rparr>],
                  userCollection = ex_users\<rparr>"

text \<open>
  A second request of student 7 to start quiz 5 while attempt 100 is in progress, when the
  lookup of the ongoing attempt ends in an error.
\<close>

definition ex_db1_twice :: DB where
  "ex_db1_twice = snd (StartAttempt ex_db1 7 5 (\<lambda>_ _. Some True) True 101 5000)"

text \<open>
  An approved quiz of one question worth 360287970189643 points (a number between \<open>2 ^ 48\<close>
  and \<open>2 ^ 49\<close>). Student 7 starts an attempt and answers the question correctly in 3
  seconds.
\<close>

definition ex_big_quiz :: Quiz where
  "ex_big_quiz = \<lparr>Quiz_ID = 9, CourseID = ''MATH101'', Status = StatusApproved,
     Questions =
       [\<lparr>Question_ID = 91, QuestionText = ''Is every list finite?'',
          Question_Type = QuestionTypeTrueFalse, Options = [],
          CorrectAnswer = AnyBool True, TimeLimit = 15, Points = 360287970189643, Order = 1\<rparr>]\<rparr>"

definition ex_big_db0 :: DB where
  "ex_big_db0 = \<lparr>attemptCollection = [], quizCollection = [ex_big_quiz], userCollection = ex_users\<rparr>"

definition ex_big_db1 :: DB where
  "ex_big_db1 = snd (StartAttempt ex_big_db0 7 9 (\<lambda>_ _. Some True) False 300 1000)"

definition ex_big_db2 :: DB where
  "ex_big_db2 = snd (SubmitAnswer ex_big_db1 7 (ex_answer 300 91 ''true'' 3) 2000)"

text \<open>
  A store with completed attempts at quizzes of different maximum scores: student 7 scored
  30 of 60 and 10 of 10, student 8 scored 9 of 10 and has a further attempt in progress.
\<close>

definition ex_two_db :: DB where
  "ex_two_db = \<lparr>attemptCollection =
                   [\<lparr>Attempt_ID = 400, QuizID = 5, StudentID = 7, Answers = [], TotalScore = 30,
                     MaxScore = 60, StartedAt = 1000, CompletedAt = Some 9000, TimeTaken = 8\<rparr>,
                    \<lparr>Attempt_ID = 401, QuizID = 6, StudentID = 7, Answers = [], TotalScore = 10,
                     MaxScore = 10, StartedAt = 10000, CompletedAt = Some 15000, TimeTaken = 5\<rparr>,
                    \<lparr>Attempt_ID = 402, QuizID = 6, StudentID = 8, Answers = [], TotalScore = 9,
                     MaxScore = 10, StartedAt = 10000, CompletedAt = Some 15000, TimeTaken = 5\<rparr>,
                    \<lparr>Attempt_ID = 403, QuizID = 5, StudentID = 8, Answers = [], TotalScore = 0,
                     MaxScore = 60, StartedAt = 20000, CompletedAt = None, TimeTaken = 0\<rparr>],
                 quizCollection = [], userCollection = ex_users\<rparr>"


subsection \<open>Properties of the rounding to binary64\<close>

lemma round_half_even_error: "\<bar>of_int (round_half_even q) - q\<bar> \<le> 1 / 2"
  unfolding round_half_even_def Let_def by (auto simp: abs_if) linarith+

lemma round_half_even_of_int: "round_half_even (of_int n) = n"
  by (simp add: round_half_even_def)

lemma f64_exponent_bounds:
  assumes "2 powi (- 1074) \<le> \<bar>x\<bar>"
  shows "2 powi (f64_exponent x) \<le> \<bar>x\<bar>" and "\<bar>x\<bar> < 2 powi (f64_exponent x + 1)"
proof -
  define c :: real where "c = 2 ^ 1074"
  have c: "0 < c" unfolding c_def by (rule zero_less_power) simp
  have d: "(2::real) powi (int a - int b) = 2 ^ a / 2 ^ b" for a b
    by (subst power_int_diff) (simp_all only: power_int_of_nat, simp)
  have "(- 1074 :: int) = int 0 - int 1074" by simp
  then have "(2::real) powi (- 1074) = 2 powi (int 0 - int 1074)" by (rule arg_cong)
  also have "\<dots> = 2 ^ 0 / 2 ^ 1074" by (rule d)
  also have "\<dots> = 1 / c" by (simp only: c_def power_0)
  finally have "1 / c \<le> \<bar>x\<bar>" using assms by (simp only:)
  then have one: "1 \<le> \<bar>x\<bar> * c" using c by (simp add: field_simps)
  define n where "n = \<lfloor>\<bar>x\<bar> * c\<rfloor>"
  from one have n: "0 < n" unfolding n_def by linarith
  from bitlen_bounds [OF n] have lo: "2 ^ nat (bitlen n - 1) \<le> n" and hi: "n < 2 ^ nat (bitlen n)"
    by auto
  from n have b: "1 \<le> bitlen n" by (auto simp: bitlen_alt_def)
  have nx: "of_int n \<le> \<bar>x\<bar> * c" "\<bar>x\<bar> * c < of_int n + 1"
    unfolding n_def by linarith+
  have e: "f64_exponent x = bitlen n - 1075"
    unfolding f64_exponent_def n_def c_def ..
  have i1: "bitlen n - 1075 = int (nat (bitlen n - 1)) - int 1074"
    and i2: "bitlen n - 1075 + 1 = int (nat (bitlen n)) - int 1074"
    using b by simp_all
  have p1: "(2::real) powi (bitlen n - 1075) = 2 ^ nat (bitlen n - 1) / c"
    unfolding i1 c_def by (rule d)
  have p2: "(2::real) powi (bitlen n - 1075 + 1) = 2 ^ nat (bitlen n) / c"
    unfolding i2 c_def by (rule d)
  from lo have "(of_int (2 ^ nat (bitlen n - 1)) :: real) \<le> of_int n"
    by (simp only: of_int_le_iff)
  then have "(2::real) ^ nat (bitlen n - 1) \<le> of_int n" by simp
  with nx(1) have "(2::real) ^ nat (bitlen n - 1) \<le> \<bar>x\<bar> * c" by linarith
  then show "2 powi (f64_exponent x) \<le> \<bar>x\<bar>"
    unfolding e p1 using c by (simp add: field_simps)
  from hi have "n + 1 \<le> 2 ^ nat (bitlen n)" by simp
  then have "(of_int (n + 1) :: real) \<le> of_int (2 ^ nat (bitlen n))"
    by (simp only: of_int_le_iff)
  then have "of_int n + 1 \<le> (2::real) ^ nat (bitlen n)" by simp
  with nx(2) have "\<bar>x\<bar> * c < (2::real) ^ nat (bitlen n)" by linarith
  then show "\<bar>x\<bar> < 2 powi (f64_exponent x + 1)"
    unfolding e p2 using c by (simp add: field_simps)
qed

lemma f64_exponent_eq:
  assumes lo: "2 powi e \<le> \<bar>x\<bar>" and hi: "\<bar>x\<bar> < 2 powi (e + 1)" and e: "- 1074 \<le> e"
  shows "f64_exponent x = e"
proof -
  have "(2::real) powi (- 1074) \<le> 2 powi e"
    using e by (intro power_int_increasing) auto
  with lo have small: "2 powi (- 1074) \<le> \<bar>x\<bar>" by linarith
  note b = f64_exponent_bounds [OF small]
  have "\<not> f64_exponent x < e"
  proof
    assume "f64_exponent x < e"
    then have "(2::real) powi (f64_exponent x + 1) \<le> 2 powi e"
      by (intro power_int_increasing) auto
    with b(2) lo show False by linarith
  qed
  moreover have "\<not> e < f64_exponent x"
  proof
    assume "e < f64_exponent x"
    then have "(2::real) powi (e + 1) \<le> 2 powi (f64_exponent x)"
      by (intro power_int_increasing) auto
    with b(1) hi show False by linarith
  qed
  ultimately show ?thesis by linarith
qed

lemma f64_eval:
  assumes "2 powi e \<le> \<bar>x\<bar>" "\<bar>x\<bar> < 2 powi (e + 1)" "- 1022 \<le> e"
  shows "f64 x = of_int (round_half_even (x / 2 powi (e - 52))) * 2 powi (e - 52)"
proof -
  from assms(3) have "- 1074 \<le> e" by simp
  from f64_exponent_eq [OF assms(1,2) this] assms(3) show ?thesis
    by (simp add: f64_def Let_def)
qed

lemma f64_zero: "f64 0 = 0"
  by (simp add: f64_def round_half_even_def)

lemma f64_error:
  assumes "2 powi (- 1022) \<le> \<bar>x\<bar>"
  shows "\<bar>f64 x - x\<bar> \<le> \<bar>x\<bar> / 2 ^ 53"
proof -
  have "(2::real) powi (- 1074) \<le> 2 powi (- 1022)"
    by (intro power_int_increasing) auto
  with assms have small: "2 powi (- 1074) \<le> \<bar>x\<bar>" by linarith
  define e where "e = f64_exponent x"
  note b = f64_exponent_bounds [OF small, folded e_def]
  have e: "- 1022 \<le> e"
  proof (rule ccontr)
    assume "\<not> - 1022 \<le> e"
    then have "e + 1 \<le> - 1022" by simp
    then have "(2::real) powi (e + 1) \<le> 2 powi (- 1022)"
      by (intro power_int_increasing) auto
    with b(2) assms show False by linarith
  qed
  define u :: real where "u = 2 powi (e - 52)"
  have u: "0 < u" by (simp add: u_def)
  have f: "f64 x = of_int (round_half_even (x / u)) * u"
    using e by (simp add: f64_def Let_def e_def u_def)
  have "f64 x - x = (of_int (round_half_even (x / u)) - x / u) * u"
    unfolding f using u by (simp add: field_simps)
  then have "\<bar>f64 x - x\<bar> = \<bar>of_int (round_half_even (x / u)) - x / u\<bar> * u"
    using u by (simp add: abs_mult)
  also have "\<dots> \<le> 1 / 2 * u"
    using round_half_even_error [of "x / u"] u by (intro mult_right_mono) auto
  also have "\<dots> = 2 powi e / 2 ^ 53"
    unfolding u_def by (simp add: power_int_diff)
  also have "\<dots> \<le> \<bar>x\<bar> / 2 ^ 53"
    using b(1) by (simp add: divide_right_mono)
  finally show ?thesis .
qed

lemma f64_representable:
  assumes m: "\<bar>m\<bar> < 2 ^ 53" and k: "- 1074 \<le> k"
  shows "f64 (of_int m * 2 powi k) = of_int m * 2 powi k"
proof (cases "m = 0")
  case True
  then show ?thesis by (simp add: f64_zero)
next
  case False
  define x :: real where "x = of_int m * 2 powi k"
  have ax: "\<bar>x\<bar> = of_int \<bar>m\<bar> * 2 powi k" by (simp add: x_def abs_mult)
  from False have "1 \<le> \<bar>m\<bar>" by simp
  then have "(1::real) \<le> of_int \<bar>m\<bar>" by linarith
  then have "2 powi k * 1 \<le> 2 powi k * (of_int \<bar>m\<bar> :: real)"
    by (intro mult_left_mono) auto
  then have lo: "2 powi k \<le> \<bar>x\<bar>" by (simp add: ax mult.commute)
  have "(2::real) powi (- 1074) \<le> 2 powi k" using k by (intro power_int_increasing) auto
  with lo have small: "2 powi (- 1074) \<le> \<bar>x\<bar>" by linarith
  define e where "e = f64_exponent x"
  note b = f64_exponent_bounds [OF small, folded e_def]
  from m have "(of_int \<bar>m\<bar> :: real) < of_int (2 ^ 53)"
    by (simp only: of_int_less_iff)
  then have "(of_int \<bar>m\<bar> :: real) < 2 ^ 53" by simp
  then have "\<bar>x\<bar> < 2 ^ 53 * 2 powi k"
    unfolding ax by (intro mult_strict_right_mono) auto
  also have "\<dots> = 2 powi (53 + k)" by (simp add: power_int_add)
  finally have "2 powi e < (2::real) powi (53 + k)" using b(1) by linarith
  then have "e < 53 + k"
    by (metis linorder_not_less power_int_increasing one_le_numeral)
  define j where "j = max e (- 1022) - 52"
  have jk: "j \<le> k" using \<open>e < 53 + k\<close> k by (simp add: j_def)
  have "x / 2 powi j = of_int m * 2 powi (k - j)"
    by (simp add: x_def power_int_diff)
  also have "\<dots> = of_int (m * 2 ^ nat (k - j))"
    using jk by (simp add: power_int_def)
  finally have q: "x / 2 powi j = of_int (m * 2 ^ nat (k - j))" .
  have "f64 x = of_int (round_half_even (x / 2 powi j)) * 2 powi j"
    by (simp add: f64_def Let_def e_def j_def)
  also have "\<dots> = x / 2 powi j * 2 powi j"
    unfolding q round_half_even_of_int ..
  also have "\<dots> = x" by simp
  finally show ?thesis unfolding x_def .
qed

lemma f64_of_int: "\<bar>n\<bar> < 2 ^ 53 \<Longrightarrow> f64 (of_int n) = of_int n"
  using f64_representable [of n 0] by simp

subsection \<open>Properties of the scoring service\<close>

lemma f64_eval_small:
  assumes "2 ^ k \<le> \<bar>x\<bar>" "\<bar>x\<bar> < 2 * 2 ^ k" "k \<le> 52"
  shows "f64 x = of_int (round_half_even (x * 2 ^ (52 - k))) / 2 ^ (52 - k)"
proof -
  have u: "(2::real) powi (int k - 52) = 1 / 2 ^ (52 - k)"
    using assms(3) by (simp add: power_int_def nat_diff_distrib' power_divide)
  have "f64 x = of_int (round_half_even (x / 2 powi (int k - 52))) * 2 powi (int k - 52)"
    using assms(1,2) by (intro f64_eval) (simp_all add: power_int_add)
  then show ?thesis unfolding u by simp
qed

lemma f64_eval_large:
  assumes "2 ^ k \<le> \<bar>x\<bar>" "\<bar>x\<bar> < 2 * 2 ^ k" "52 \<le> k"
  shows "f64 x = of_int (round_half_even (x / 2 ^ (k - 52))) * 2 ^ (k - 52)"
proof -
  have u: "(2::real) powi (int k - 52) = 2 ^ (k - 52)"
    using assms(3) by (simp add: power_int_def nat_diff_distrib')
  have "f64 x = of_int (round_half_even (x / 2 powi (int k - 52))) * 2 powi (int k - 52)"
    using assms(1,2) by (intro f64_eval) (simp_all add: power_int_add)
  then show ?thesis unfolding u by simp
qed

lemma f64_eval_fraction:
  assumes "1 / 2 ^ k \<le> \<bar>x\<bar>" "\<bar>x\<bar> < 2 / 2 ^ k" "k \<le> 1022"
  shows "f64 x = of_int (round_half_even (x * 2 ^ (52 + k))) / 2 ^ (52 + k)"
proof -
  have u: "(2::real) powi (- int k - 52) = 1 / 2 ^ (52 + k)"
    by (simp add: power_int_def nat_add_distrib power_divide)
  have lo: "(2::real) powi (- int k) = 1 / 2 ^ k"
    by (simp add: power_int_minus field_simps)
  have hi: "(2::real) powi (- int k + 1) = 2 / 2 ^ k"
    using power_int_diff [of "2::real" 1 "int k"] by simp
  have "f64 x = of_int (round_half_even (x / 2 powi (- int k - 52))) * 2 powi (- int k - 52)"
  proof (rule f64_eval)
    show "2 powi (- int k) \<le> \<bar>x\<bar>" unfolding lo by (rule assms(1))
    show "\<bar>x\<bar> < 2 powi (- int k + 1)" unfolding hi by (rule assms(2))
    show "- 1022 \<le> - int k" using assms(3) by simp
  qed
  then show ?thesis unfolding u by simp
qed

lemma f64_three_tenths: "f64 (3 / 10) = 5404319552844595 / 18014398509481984"
  by (subst f64_eval_fraction [where k = 2]) (simp_all add: round_half_even_def Let_def)

lemma multiplier_7:
  "f64 (1 - f64 (f64 (f64 2 / 5) * f64 (3 / 10))) = 7926335344172073 / 9007199254740992"
proof -
  have a: "f64 2 = 2" using f64_of_int [of 2] by simp
  have b: "f64 (2 / 5) = 3602879701896397 / 9007199254740992"
    by (subst f64_eval_fraction [where k = 2]) (simp_all add: round_half_even_def Let_def)
  have c: "f64 (3602879701896397 / 9007199254740992 * (5404319552844595 / 18014398509481984))
             = 1080863910568919 / 9007199254740992"
    by (subst f64_eval_fraction [where k = 4]) (simp_all add: round_half_even_def Let_def)
  have d: "f64 (1 - 1080863910568919 / 9007199254740992) = 7926335344172073 / 9007199254740992"
    by (subst f64_eval_fraction [where k = 1]) (simp_all add: round_half_even_def Let_def)
  show ?thesis by (simp only: a b c d f64_three_tenths)
qed

lemma multiplier_10:
  "f64 (1 - f64 (f64 (f64 5 / 5) * f64 (3 / 10))) = 3152519739159347 / 4503599627370496"
proof -
  have a: "f64 5 = 5" using f64_of_int [of 5] by simp
  have b: "f64 (5 / 5) = 1" using f64_of_int [of 1] by simp
  have c: "f64 (1 * (5404319552844595 / 18014398509481984))
             = 5404319552844595 / 18014398509481984"
    by (subst f64_eval_fraction [where k = 2]) (simp_all add: round_half_even_def Let_def)
  have d: "f64 (1 - 5404319552844595 / 18014398509481984) = 3152519739159347 / 4503599627370496"
    by (subst f64_eval_fraction [where k = 1]) (simp_all add: round_half_even_def Let_def)
  show ?thesis by (simp only: a b c d f64_three_tenths)
qed

lemma go_round_near:
  assumes "\<bar>y - of_int n\<bar> < 1 / 2"
  shows "go_round y = of_int n"
proof (cases "y < 0")
  case True
  have "\<lfloor>- y + 1 / 2\<rfloor> = - n"
    using assms by (intro floor_unique) (simp_all add: abs_if split: if_splits)
  then show ?thesis using True by (simp add: go_round_def)
next
  case False
  have "\<lfloor>y + 1 / 2\<rfloor> = n"
    using assms by (intro floor_unique) (simp_all add: abs_if split: if_splits)
  then show ?thesis using False by (simp add: go_round_def)
qed


lemma go_round_of_int: "go_round (of_int n) = of_int n"
  using go_round_near [of "of_int n" n] by simp

lemma f64_normal_half: "(2::real) powi (- 1022) \<le> 1 / 2"
proof -
  have "(2::real) powi (- 1022) \<le> 2 powi (- 1)"
    by (intro power_int_increasing) auto
  then show ?thesis by simp
qed

lemma CalculateScore_full_marks:
  assumes "0 < p" "p \<le> 10 ^ 12" "t \<le> 5"
  shows "CalculateScore p t True = of_int p"
proof -
  have a: "f64 (of_int p) = of_int p"
    using assms by (intro f64_of_int) simp
  have "f64 (of_int (p * 100)) = of_int (p * 100)"
    using assms by (intro f64_of_int) simp
  then have b: "f64 (of_int p * 100) = of_int (p * 100)" by simp
  have c: "go_round (of_int (p * 100)) / 100 = (of_int p :: real)"
    unfolding go_round_of_int by simp
  show ?thesis
    using assms(3) by (simp add: CalculateScore_def a b c del: of_int_mult)
qed

lemma CalculateScore_half_marks:
  assumes "0 < p" "p \<le> 10 ^ 12" "10 < t"
  shows "CalculateScore p t True = of_int p / 2"
proof -
  have a: "f64 (of_int p) = of_int p"
    using assms by (intro f64_of_int) simp
  have r: "of_int p * 2 powi (- 1) = (of_int p / 2 :: real)" by simp
  have "f64 (of_int p * 2 powi (- 1)) = of_int p * 2 powi (- 1)"
    using assms by (intro f64_representable) simp_all
  then have h: "f64 (of_int p / 2) = of_int p / 2" unfolding r .
  have e: "of_int p / 2 * 100 = (of_int (p * 50) :: real)" by simp
  have b: "f64 (of_int p / 2 * 100) = of_int (p * 50)"
    unfolding e using assms by (intro f64_of_int) simp
  have d: "of_int (p * 50) / 100 = (of_int p / 2 :: real)" by simp
  have "CalculateScore p t True
          = f64 (go_round (f64 (f64 (f64 (of_int p) * 0.5) * 100)) / 100)"
    using assms(3) by (simp add: CalculateScore_def)
  also have "f64 (of_int p) * 0.5 = (of_int p / 2 :: real)" unfolding a by simp
  finally show ?thesis by (simp only: h b go_round_of_int d)
qed

lemma CalculateScore_decay_core:
  assumes p: "0 < p" "p \<le> 10 ^ 12"
    and m: "1 / 2 \<le> m" "m \<le> 1" "\<bar>m - of_int k / 100\<bar> \<le> 1 / 2 ^ 52"
  shows "f64 (go_round (f64 (f64 (f64 (of_int p) * m) * 100)) / 100) = f64 (of_int (p * k) / 100)"
proof -
  define P :: real where "P = of_int p"
  have P: "1 \<le> P" "P \<le> 10 ^ 12" using p by (simp_all add: P_def)
  have a: "f64 (of_int p) = P"
    unfolding P_def using p by (intro f64_of_int) simp
  define x where "x = P * m"
  have "1 * (1 / 2) \<le> P * m" using P(1) m(1) by (intro mult_mono) auto
  then have x_lo: "1 / 2 \<le> x" by (simp add: x_def)
  have "P * m \<le> P * 1" using P(1) m(2) by (intro mult_left_mono) auto
  then have x_hi: "x \<le> P" by (simp add: x_def)
  define s where "s = f64 x"
  have "\<bar>s - x\<bar> \<le> \<bar>x\<bar> / 2 ^ 53"
    unfolding s_def using x_lo f64_normal_half by (intro f64_error) linarith
  with x_lo x_hi have s_err: "\<bar>s - x\<bar> \<le> P / 2 ^ 53" by (simp add: field_simps abs_if split: if_splits)
  from s_err x_lo x_hi P have s_lo: "1 / 4 \<le> s" and s_hi: "s \<le> 2 * P"
    by (simp_all add: abs_if field_simps split: if_splits)
  define y where "y = s * 100"
  have y_lo: "25 \<le> y" and y_hi: "y \<le> 200 * P" using s_lo s_hi by (simp_all add: y_def)
  have "\<bar>f64 y - y\<bar> \<le> \<bar>y\<bar> / 2 ^ 53"
    using y_lo f64_normal_half by (intro f64_error) linarith
  with y_lo y_hi have y_err: "\<bar>f64 y - y\<bar> \<le> 200 * P / 2 ^ 53"
    by (simp add: field_simps abs_if split: if_splits)
  have "P * \<bar>m - of_int k / 100\<bar> \<le> P * (1 / 2 ^ 52)"
    using P(1) m(3) by (intro mult_left_mono) auto
  then have "\<bar>P * (m - of_int k / 100)\<bar> \<le> P / 2 ^ 52"
    using P(1) by (simp add: abs_mult)
  then have m_err: "\<bar>x - P * of_int k / 100\<bar> \<le> P / 2 ^ 52"
    by (simp add: x_def right_diff_distrib)
  have N: "(of_int (p * k) :: real) = P * of_int k" by (simp add: P_def)
  have "\<bar>f64 y - of_int (p * k)\<bar> \<le> 500 * P / 2 ^ 53"
    unfolding N using y_err s_err m_err by (simp add: y_def abs_if field_simps split: if_splits)
  also have "\<dots> < 1 / 2" using P(2) by simp
  finally have "go_round (f64 y) = of_int (p * k)" by (rule go_round_near)
  then show ?thesis by (simp only: a x_def [symmetric] s_def [symmetric] y_def [symmetric])
qed


lemma multiplier_6:
  "f64 (1 - f64 (f64 (f64 1 / 5) * f64 (3 / 10))) = 2116691824864133 / 2251799813685248"
proof -
  have a: "f64 1 = 1" using f64_of_int [of 1] by simp
  have b: "f64 (1 / 5) = 3602879701896397 / 18014398509481984"
    by (subst f64_eval_fraction [where k = 3]) (simp_all add: round_half_even_def Let_def)
  have c: "f64 (3602879701896397 / 18014398509481984 * (5404319552844595 / 18014398509481984))
             = 1080863910568919 / 18014398509481984"
    by (subst f64_eval_fraction [where k = 5]) (simp_all add: round_half_even_def Let_def)
  have d: "f64 (1 - 1080863910568919 / 18014398509481984) = 2116691824864133 / 2251799813685248"
    by (subst f64_eval_fraction [where k = 1]) (simp_all add: round_half_even_def Let_def)
  show ?thesis by (simp only: a b c d f64_three_tenths)
qed

lemma multiplier_8:
  "f64 (1 - f64 (f64 (f64 3 / 5) * f64 (3 / 10))) = 3692951694443807 / 4503599627370496"
proof -
  have a: "f64 3 = 3" using f64_of_int [of 3] by simp
  have b: "f64 (3 / 5) = 5404319552844595 / 9007199254740992"
    by (subst f64_eval_fraction [where k = 1]) (simp_all add: round_half_even_def Let_def)
  have c: "f64 (5404319552844595 / 9007199254740992 * (5404319552844595 / 18014398509481984))
             = 3242591731706757 / 18014398509481984"
    by (subst f64_eval_fraction [where k = 3]) (simp_all add: round_half_even_def Let_def)
  have d: "f64 (1 - 3242591731706757 / 18014398509481984) = 3692951694443807 / 4503599627370496"
    by (subst f64_eval_fraction [where k = 1]) (simp_all add: round_half_even_def Let_def)
  show ?thesis by (simp only: a b c d f64_three_tenths)
qed

lemma multiplier_9:
  "f64 (1 - f64 (f64 (f64 4 / 5) * f64 (3 / 10))) = 3422735716801577 / 4503599627370496"
proof -
  have a: "f64 4 = 4" using f64_of_int [of 4] by simp
  have b: "f64 (4 / 5) = 3602879701896397 / 4503599627370496"
    by (subst f64_eval_fraction [where k = 1]) (simp_all add: round_half_even_def Let_def)
  have c: "f64 (3602879701896397 / 4503599627370496 * (5404319552844595 / 18014398509481984))
             = 1080863910568919 / 4503599627370496"
    by (subst f64_eval_fraction [where k = 3]) (simp_all add: round_half_even_def Let_def)
  have d: "f64 (1 - 1080863910568919 / 4503599627370496) = 3422735716801577 / 4503599627370496"
    by (subst f64_eval_fraction [where k = 1]) (simp_all add: round_half_even_def Let_def)
  show ?thesis by (simp only: a b c d f64_three_tenths)
qed

lemma CalculateScore_decay:
  assumes p: "0 < p" "p \<le> 10 ^ 12" and t: "5 < t" "t \<le> 10"
  shows "CalculateScore p t True = f64 (of_int (p * (130 - 6 * t)) / 100)"
proof -
  from t have "t = 6 \<or> t = 7 \<or> t = 8 \<or> t = 9 \<or> t = 10" by auto
  then show ?thesis
  proof (elim disjE)
    assume t: "t = 6"
    have "CalculateScore p 6 True = f64 (go_round (f64 (f64 (f64 (of_int p)
            * f64 (1 - f64 (f64 (f64 1 / 5) * f64 (3 / 10)))) * 100)) / 100)"
      by (simp add: CalculateScore_def)
    also have "\<dots> = f64 (of_int (p * 94) / 100)"
      unfolding multiplier_6 by (rule CalculateScore_decay_core [OF p]) simp_all
    finally show ?thesis by (simp add: t)
  next
    assume t: "t = 7"
    have "CalculateScore p 7 True = f64 (go_round (f64 (f64 (f64 (of_int p)
            * f64 (1 - f64 (f64 (f64 2 / 5) * f64 (3 / 10)))) * 100)) / 100)"
      by (simp add: CalculateScore_def)
    also have "\<dots> = f64 (of_int (p * 88) / 100)"
      unfolding multiplier_7 by (rule CalculateScore_decay_core [OF p]) simp_all
    finally show ?thesis by (simp add: t)
  next
    assume t: "t = 8"
    have "CalculateScore p 8 True = f64 (go_round (f64 (f64 (f64 (of_int p)
            * f64 (1 - f64 (f64 (f64 3 / 5) * f64 (3 / 10)))) * 100)) / 100)"
      by (simp add: CalculateScore_def)
    also have "\<dots> = f64 (of_int (p * 82) / 100)"
      unfolding multiplier_8 by (rule CalculateScore_decay_core [OF p]) simp_all
    finally show ?thesis by (simp add: t)
  next
    assume t: "t = 9"
    have "CalculateScore p 9 True = f64 (go_round (f64 (f64 (f64 (of_int p)
            * f64 (1 - f64 (f64 (f64 4 / 5) * f64 (3 / 10)))) * 100)) / 100)"
      by (simp add: CalculateScore_def)
    also have "\<dots> = f64 (of_int (p * 76) / 100)"
      unfolding multiplier_9 by (rule CalculateScore_decay_core [OF p]) simp_all
    finally show ?thesis by (simp add: t)
  next
    assume t: "t = 10"
    have "CalculateScore p 10 True = f64 (go_round (f64 (f64 (f64 (of_int p)
            * f64 (1 - f64 (f64 (f64 5 / 5) * f64 (3 / 10)))) * 100)) / 100)"
      by (simp add: CalculateScore_def)
    also have "\<dots> = f64 (of_int (p * 70) / 100)"
      unfolding multiplier_10 by (rule CalculateScore_decay_core [OF p]) simp_all
    finally show ?thesis by (simp add: t)
  qed
qed

lemma CalculateScore_wrong: "CalculateScore bp t False = 0"
  by (simp add: CalculateScore_def)


lemma CalculateScore_at_2_49:
  "CalculateScore 562949953421309 3 True = 9007199254740943 / 16"
proof -
  have a: "f64 562949953421309 = 562949953421309"
    using f64_of_int [of 562949953421309] by simp
  have b: "f64 (562949953421309 * 100) = 56294995342130896"
    by (subst f64_eval_large [where k = 55]) (simp_all add: round_half_even_def Let_def)
  have c: "go_round 56294995342130896 = 56294995342130896"
    using go_round_of_int [of 56294995342130896] by simp
  have d: "f64 (56294995342130896 / 100) = 9007199254740943 / 16"
    by (subst f64_eval_small [where k = 48]) (simp_all add: round_half_even_def Let_def)
  have "CalculateScore 562949953421309 3 True
          = f64 (go_round (f64 (f64 (f64 562949953421309 * 1) * 100)) / 100)"
    by (simp add: CalculateScore_def)
  also have "\<dots> = 9007199254740943 / 16"
    by (simp only: a mult_1_right b c d)
  finally show ?thesis .
qed

lemma CalculateScore_at_2_48:
  "CalculateScore 360287970189643 3 True = 5764607523034289 / 16"
proof -
  have a: "f64 360287970189643 = 360287970189643"
    using f64_of_int [of 360287970189643] by simp
  have b: "f64 (360287970189643 * 100) = 36028797018964304"
    by (subst f64_eval_large [where k = 55]) (simp_all add: round_half_even_def Let_def)
  have c: "go_round 36028797018964304 = 36028797018964304"
    using go_round_of_int [of 36028797018964304] by simp
  have d: "f64 (36028797018964304 / 100) = 5764607523034289 / 16"
    by (subst f64_eval_small [where k = 48]) (simp_all add: round_half_even_def Let_def)
  have "CalculateScore 360287970189643 3 True
          = f64 (go_round (f64 (f64 (f64 360287970189643 * 1) * 100)) / 100)"
    by (simp add: CalculateScore_def)
  also have "\<dots> = 5764607523034289 / 16"
    by (simp only: a mult_1_right b c d)
  finally show ?thesis .
qed

lemma f64_88_tenths: "f64 (88 / 10) = 2476979795053773 / 281474976710656"
  by (subst f64_eval_small [where k = 3]) (simp_all add: round_half_even_def Let_def)


text \<open>
  Claim C1, at a large number of base points. A correct answer given in 3 seconds to a
  question of 562949953421309 points (below \<open>2 ^ 49\<close>) takes the branch of the full
  multiplier, and \<open>CalculateScore\<close> returns the base points less one sixteenth: the
  product \<open>score * 100\<close> is above \<open>2 ^ 53\<close>, where binary64 holds only every eighth
  integer, and the quotient by 100 of the rounded product is not the score.
\<close>

theorem CalculateScore_full_marks_lost:
  "CalculateScore 562949953421309 3 True = 562949953421309 - 1 / 16 \<and>
   CalculateScore 562949953421309 3 True \<noteq> of_int 562949953421309"
  by (simp add: CalculateScore_at_2_49)

text \<open>
  Claim C2, as stated: the test table gives \<open>Score(p, 10, true) = 0.5 p\<close>. The code takes
  the linear-decay branch at response time 10 (\<open>timeToAnswer \<le> 10\<close>), where the multiplier
  is 0.7: for 10 base points it returns 7, not 5.
\<close>

theorem Score_table_counterexample:
  "CalculateScore 10 10 True = 7 \<and> CalculateScore 10 10 True \<noteq> 0.5 * of_int 10"
proof -
  have "CalculateScore 10 10 True = f64 (of_int (10 * (130 - 6 * 10)) / 100)"
    by (rule CalculateScore_decay) simp_all
  also have "\<dots> = f64 (of_int 7)" by simp
  also have "\<dots> = 7" by (subst f64_of_int) simp_all
  finally show ?thesis by simp
qed

text \<open>
  Claim C2, amended. For every \<open>p\<close> from 1 to \<open>10 ^ 12\<close>: the score of a correct answer is
  \<open>p\<close> at every response time from 0 to 5, the binary64 number nearest to \<open>0.7 p\<close> at
  response time 10 and the binary64 number nearest to \<open>0.88 p\<close> at response time 7; the
  score of a wrong answer is 0 at every response time.
\<close>

theorem Score_table:
  "0 < p \<Longrightarrow> p \<le> 10 ^ 12 \<Longrightarrow>
     (\<forall>t\<in>{0..5}. CalculateScore p t True = of_int p) \<and>
     CalculateScore p 10 True = f64 (0.7 * of_int p) \<and>
     CalculateScore p 7 True = f64 (0.88 * of_int p) \<and>
     CalculateScore p t' False = 0"
proof (intro conjI ballI)
  assume p: "0 < p" "p \<le> 10 ^ 12"
  show "CalculateScore p t True = of_int p" if "t \<in> {0..5}" for t
    using that by (intro CalculateScore_full_marks p) simp
  have "CalculateScore p 10 True = f64 (of_int (p * (130 - 6 * 10)) / 100)"
    using p by (intro CalculateScore_decay) simp_all
  also have "of_int (p * (130 - 6 * 10)) / 100 = (0.7 * of_int p :: real)" by simp
  finally show "CalculateScore p 10 True = f64 (0.7 * of_int p)" .
  have "CalculateScore p 7 True = f64 (of_int (p * (130 - 6 * 7)) / 100)"
    using p by (intro CalculateScore_decay) simp_all
  also have "of_int (p * (130 - 6 * 7)) / 100 = (0.88 * of_int p :: real)" by simp
  finally show "CalculateScore p 7 True = f64 (0.88 * of_int p)" .
  show "CalculateScore p t' False = 0" by (rule CalculateScore_wrong)
qed

theorem Score_table_witness:
  "(0::int) < 10 \<and> (10::int) \<le> 10 ^ 12 \<and> (3::int) \<in> {0..5} \<and> CalculateScore 10 3 True = 10 \<and>
   CalculateScore 10 10 True = 7 \<and>
   CalculateScore 10 7 True = 2476979795053773 / 281474976710656 \<and>
   \<bar>2476979795053773 / 281474976710656 - 88 / 10\<bar> < (1 / 10 ^ 15 :: real) \<and>
   CalculateScore 10 12 False = 0"
proof -
  have p: "(0::int) < 10" "(10::int) \<le> 10 ^ 12" by simp_all
  have m: "(3::int) \<in> {0..5}" by simp
  note T = Score_table [OF p, of 12]
  from T have "\<forall>t\<in>{0..5}. CalculateScore 10 t True = of_int 10" by blast
  from bspec [OF this m] have a: "CalculateScore 10 3 True = 10" by simp
  have seven: "f64 7 = 7" using f64_of_int [of 7] by simp
  from T have b: "CalculateScore 10 10 True = 7" by (simp add: seven)
  have e: "(0.88 * of_int 10 :: real) = 88 / 10" by simp
  from T have "CalculateScore 10 7 True = f64 (0.88 * of_int 10)" by blast
  then have c: "CalculateScore 10 7 True = 2476979795053773 / 281474976710656"
    unfolding e f64_88_tenths .
  from T have d: "CalculateScore 10 12 False = 0" by simp
  from a b c d show ?thesis by simp
qed
subsection \<open>Collections and the store invariant\<close>

lemma find_Some_mem: "find P xs = Some a \<Longrightarrow> a \<in> set xs \<and> P a"
  by (induction xs) (auto split: if_splits)

lemma find_None_iff_no: "find P xs = None \<longleftrightarrow> (\<forall>x\<in>set xs. \<not> P x)"
  by (induction xs) auto

lemma UpdateOne_map:
  "distinct (map g xs) \<Longrightarrow> UpdateOne (\<lambda>a. g a = k) f xs = map (\<lambda>a. if g a = k then f a else a) xs"
proof (induction xs)
  case Nil
  then show ?case by simp
next
  case (Cons x xs)
  show ?case
  proof (cases "g x = k")
    case True
    with Cons.prems have "\<forall>y\<in>set xs. g y \<noteq> k" by (auto simp: image_iff)
    then have "map (\<lambda>a. if g a = k then f a else a) xs = xs"
      by (simp add: map_idI)
    with True show ?thesis by simp
  next
    case False
    with Cons show ?thesis by simp
  qed
qed

lemma find_unique_id:
  assumes "distinct (map g xs)" "find (\<lambda>a. g a = k \<and> Q a) xs = Some a" "b \<in> set xs" "g b = k"
  shows "b = a"
proof -
  from assms(2) have "a \<in> set xs" "g a = k" by (auto dest: find_Some_mem)
  with assms(1,3,4) show ?thesis by (auto simp: distinct_map inj_on_def)
qed

lemma foldl_maxScore:
  "foldl (\<lambda>m q. m + of_int (Points q)) acc qs = acc + (\<Sum>q\<leftarrow>qs. real_of_int (Points q))"
  by (induction qs arbitrary: acc) simp_all

lemma StartAttempt_effect:
  "snd (StartAttempt db studentID quizID courseService lookupError newID now) = db \<or>
   (\<exists>quiz. find (\<lambda>q. Quiz_ID q = quizID) (quizCollection db) = Some quiz \<and>
      (lookupError \<or>
       find (\<lambda>a. QuizID a = quizID \<and> StudentID a = studentID \<and> CompletedAt a = None)
         (attemptCollection db) = None) \<and>
      newID \<notin> set (map Attempt_ID (attemptCollection db)) \<and>
      snd (StartAttempt db studentID quizID courseService lookupError newID now) =
        db\<lparr>attemptCollection := attemptCollection db @
             [\<lparr>Attempt_ID = newID, QuizID = quizID, StudentID = studentID, Answers = [],
               TotalScore = 0, MaxScore = (\<Sum>q\<leftarrow>Questions quiz. real_of_int (Points q)),
               StartedAt = now, CompletedAt = None, TimeTaken = 0\<rparr>]\<rparr>)"
  unfolding StartAttempt_def InsertOne_def Let_def foldl_maxScore
  by (auto split: option.splits)

lemma SubmitAnswer_effect:
  "snd (SubmitAnswer db studentID req now) = db \<or>
   (\<exists>attempt quiz question.
      find (\<lambda>a. Attempt_ID a = req_AttemptID req \<and> StudentID a = studentID) (attemptCollection db)
        = Some attempt \<and>
      CompletedAt attempt = None \<and>
      find (\<lambda>q. Quiz_ID q = QuizID attempt) (quizCollection db) = Some quiz \<and>
      find (\<lambda>q. Question_ID q = req_QuestionID req) (Questions quiz) = Some question \<and>
      find (\<lambda>ans. QuestionID ans = req_QuestionID req) (Answers attempt) = None \<and>
      req_TimeToAnswer req \<le> TimeLimit question \<and>
      snd (SubmitAnswer db studentID req now) =
        db\<lparr>attemptCollection :=
             UpdateOne (\<lambda>a. Attempt_ID a = req_AttemptID req)
               (\<lambda>a. a\<lparr>Answers := Answers a @
                          [\<lparr>QuestionID = req_QuestionID req,
                            StudentAnswer = AnyString (req_Answer req),
                            IsCorrect = (req_Answer req = correctAnswerStr (CorrectAnswer question)),
                            TimeToAnswer = req_TimeToAnswer req,
                            PointsEarned = CalculateScore (Points question) (req_TimeToAnswer req)
                               (req_Answer req = correctAnswerStr (CorrectAnswer question)),
                            AnsweredAt = now\<rparr>],
                       TotalScore := TotalScore a + CalculateScore (Points question) (req_TimeToAnswer req)
                               (req_Answer req = correctAnswerStr (CorrectAnswer question))\<rparr>)
               (attemptCollection db)\<rparr>)"
  unfolding SubmitAnswer_def Let_def
  by (auto split: option.splits)

lemma CompleteAttempt_effect:
  "snd (CompleteAttempt db studentID objectID now) = db \<or>
   (\<exists>attempt.
      find (\<lambda>a. Attempt_ID a = objectID \<and> StudentID a = studentID) (attemptCollection db)
        = Some attempt \<and>
      CompletedAt attempt = None \<and>
      snd (CompleteAttempt db studentID objectID now) =
        db\<lparr>attemptCollection :=
             UpdateOne (\<lambda>a. Attempt_ID a = objectID)
               (\<lambda>a. a\<lparr>CompletedAt := Some now,
                       TimeTaken := go_int (of_int (now - StartedAt attempt) / 1000)\<rparr>)
               (attemptCollection db)\<rparr>)"
  unfolding CompleteAttempt_def Let_def
  by (auto split: option.splits)

lemma db_ok_init: "db_ok qs us \<lparr>attemptCollection = [], quizCollection = qs, userCollection = us\<rparr>"
  by (simp add: db_ok_def)

lemma db_ok_start:
  assumes "db_ok qs us db"
  shows "db_ok qs us (snd (StartAttempt db studentID quizID courseService lookupError newID now))"
  using StartAttempt_effect [of db studentID quizID courseService lookupError newID now]
proof
  assume "snd (StartAttempt db studentID quizID courseService lookupError newID now) = db"
  with assms show ?thesis by simp
next
  assume "\<exists>quiz. find (\<lambda>q. Quiz_ID q = quizID) (quizCollection db) = Some quiz \<and>
      (lookupError \<or>
       find (\<lambda>a. QuizID a = quizID \<and> StudentID a = studentID \<and> CompletedAt a = None)
         (attemptCollection db) = None) \<and>
      newID \<notin> set (map Attempt_ID (attemptCollection db)) \<and>
      snd (StartAttempt db studentID quizID courseService lookupError newID now) =
        db\<lparr>attemptCollection := attemptCollection db @
             [\<lparr>Attempt_ID = newID, QuizID = quizID, StudentID = studentID, Answers = [],
               TotalScore = 0, MaxScore = (\<Sum>q\<leftarrow>Questions quiz. real_of_int (Points q)),
               StartedAt = now, CompletedAt = None, TimeTaken = 0\<rparr>]\<rparr>"
  then obtain quiz where q: "find (\<lambda>q. Quiz_ID q = quizID) (quizCollection db) = Some quiz"
    and fresh: "newID \<notin> set (map Attempt_ID (attemptCollection db))"
    and eq: "snd (StartAttempt db studentID quizID courseService lookupError newID now) =
        db\<lparr>attemptCollection := attemptCollection db @
             [\<lparr>Attempt_ID = newID, QuizID = quizID, StudentID = studentID, Answers = [],
               TotalScore = 0, MaxScore = (\<Sum>q\<leftarrow>Questions quiz. real_of_int (Points q)),
               StartedAt = now, CompletedAt = None, TimeTaken = 0\<rparr>]\<rparr>"
    by blast
  from assms have qs: "quizCollection db = qs" by (simp add: db_ok_def)
  have new: "attempt_ok qs \<lparr>Attempt_ID = newID, QuizID = quizID, StudentID = studentID, Answers = [],
               TotalScore = 0, MaxScore = (\<Sum>q\<leftarrow>Questions quiz. real_of_int (Points q)),
               StartedAt = now, CompletedAt = None, TimeTaken = 0\<rparr>"
    using q qs by (simp add: attempt_ok_def)
  show ?thesis
    unfolding eq using assms fresh new by (auto simp: db_ok_def)
qed

lemma attempt_ok_answer:
  assumes ok: "attempt_ok qs a"
    and quiz: "find (\<lambda>q. Quiz_ID q = QuizID a) qs = Some quiz"
    and question: "find (\<lambda>q. Question_ID q = qid) (Questions quiz) = Some question"
    and nodup: "find (\<lambda>ans. QuestionID ans = qid) (Answers a) = None"
  shows "attempt_ok qs
           (a\<lparr>Answers := Answers a @
                 [\<lparr>QuestionID = qid, StudentAnswer = sa, IsCorrect = c, TimeToAnswer = t,
                   PointsEarned = CalculateScore (Points question) t c, AnsweredAt = now\<rparr>],
              TotalScore := TotalScore a + CalculateScore (Points question) t c\<rparr>)"
proof -
  from nodup have "qid \<notin> QuestionID ` set (Answers a)"
    by (auto simp: find_None_iff_no)
  with ok quiz question show ?thesis
    by (auto simp: attempt_ok_def)
qed

lemma db_ok_update:
  assumes ok: "db_ok qs us db"
    and pres: "\<And>b. b \<in> set (attemptCollection db) \<Longrightarrow> Attempt_ID b = k \<Longrightarrow> attempt_ok qs (f b)"
    and ident: "\<And>b. Attempt_ID (f b) = Attempt_ID b"
  shows "db_ok qs us (db\<lparr>attemptCollection :=
            UpdateOne (\<lambda>a. Attempt_ID a = k) f (attemptCollection db)\<rparr>)"
proof -
  let ?g = "\<lambda>a. if Attempt_ID a = k then f a else a"
  from ok have d: "distinct (map Attempt_ID (attemptCollection db))"
    and all: "\<forall>a\<in>set (attemptCollection db). attempt_ok qs a"
    by (simp_all add: db_ok_def)
  have ids: "map Attempt_ID (map ?g (attemptCollection db)) = map Attempt_ID (attemptCollection db)"
    by (rule nth_equalityI) (simp_all add: ident)
  have d': "distinct (map Attempt_ID (map ?g (attemptCollection db)))"
    unfolding ids by (rule d)
  have "db_ok qs us (db\<lparr>attemptCollection := map ?g (attemptCollection db)\<rparr>)"
    unfolding db_ok_def
  proof (intro conjI ballI)
    show "quizCollection (db\<lparr>attemptCollection := map ?g (attemptCollection db)\<rparr>) = qs"
      using ok by (simp add: db_ok_def)
    show "userCollection (db\<lparr>attemptCollection := map ?g (attemptCollection db)\<rparr>) = us"
      using ok by (simp add: db_ok_def)
    show "distinct (map Attempt_ID
            (attemptCollection (db\<lparr>attemptCollection := map ?g (attemptCollection db)\<rparr>)))"
      using d' by simp
  next
    fix a
    assume "a \<in> set (attemptCollection (db\<lparr>attemptCollection := map ?g (attemptCollection db)\<rparr>))"
    then obtain b where b: "b \<in> set (attemptCollection db)" "a = ?g b" by auto
    show "attempt_ok qs a"
    proof (cases "Attempt_ID b = k")
      case True
      with b pres show ?thesis by simp
    next
      case False
      with b all show ?thesis by simp
    qed
  qed
  then show ?thesis
    unfolding UpdateOne_map [OF d] .
qed

lemma db_ok_submit:
  assumes "db_ok qs us db"
  shows "db_ok qs us (snd (SubmitAnswer db studentID req now))"
  using SubmitAnswer_effect [of db studentID req now]
proof (elim disjE exE conjE)
  assume "snd (SubmitAnswer db studentID req now) = db"
  with assms show ?thesis by simp
next
  fix attempt quiz question
  assume found: "find (\<lambda>a. Attempt_ID a = req_AttemptID req \<and> StudentID a = studentID)
                   (attemptCollection db) = Some attempt"
    and quiz: "find (\<lambda>q. Quiz_ID q = QuizID attempt) (quizCollection db) = Some quiz"
    and question: "find (\<lambda>q. Question_ID q = req_QuestionID req) (Questions quiz) = Some question"
    and nodup: "find (\<lambda>ans. QuestionID ans = req_QuestionID req) (Answers attempt) = None"
    and eq: "snd (SubmitAnswer db studentID req now) =
        db\<lparr>attemptCollection :=
             UpdateOne (\<lambda>a. Attempt_ID a = req_AttemptID req)
               (\<lambda>a. a\<lparr>Answers := Answers a @
                          [\<lparr>QuestionID = req_QuestionID req,
                            StudentAnswer = AnyString (req_Answer req),
                            IsCorrect = (req_Answer req = correctAnswerStr (CorrectAnswer question)),
                            TimeToAnswer = req_TimeToAnswer req,
                            PointsEarned = CalculateScore (Points question) (req_TimeToAnswer req)
                               (req_Answer req = correctAnswerStr (CorrectAnswer question)),
                            AnsweredAt = now\<rparr>],
                       TotalScore := TotalScore a + CalculateScore (Points question) (req_TimeToAnswer req)
                               (req_Answer req = correctAnswerStr (CorrectAnswer question))\<rparr>)
               (attemptCollection db)\<rparr>"
  from assms have qs: "quizCollection db = qs"
    and d: "distinct (map Attempt_ID (attemptCollection db))"
    and all: "\<forall>a\<in>set (attemptCollection db). attempt_ok qs a"
    by (simp_all add: db_ok_def)
  have same: "b = attempt" if "b \<in> set (attemptCollection db)" "Attempt_ID b = req_AttemptID req" for b
    using find_unique_id [OF d found that] .
  from found have mem: "attempt \<in> set (attemptCollection db)" by (auto dest: find_Some_mem)
  note upd = attempt_ok_answer [OF all [rule_format, OF mem] quiz [unfolded qs] question nodup]
  show ?thesis
    unfolding eq
  proof (rule db_ok_update [OF assms])
    fix b
    assume "b \<in> set (attemptCollection db)" "Attempt_ID b = req_AttemptID req"
    then have "b = attempt" by (rule same)
    then show "attempt_ok qs
          (b\<lparr>Answers := Answers b @
                          [\<lparr>QuestionID = req_QuestionID req,
                            StudentAnswer = AnyString (req_Answer req),
                            IsCorrect = (req_Answer req = correctAnswerStr (CorrectAnswer question)),
                            TimeToAnswer = req_TimeToAnswer req,
                            PointsEarned = CalculateScore (Points question) (req_TimeToAnswer req)
                               (req_Answer req = correctAnswerStr (CorrectAnswer question)),
                            AnsweredAt = now\<rparr>],
                       TotalScore := TotalScore b + CalculateScore (Points question) (req_TimeToAnswer req)
                               (req_Answer req = correctAnswerStr (CorrectAnswer question))\<rparr>)"
      using upd by simp
  qed simp
qed

lemma db_ok_complete:
  assumes "db_ok qs us db"
  shows "db_ok qs us (snd (CompleteAttempt db studentID objectID now))"
  using CompleteAttempt_effect [of db studentID objectID now]
proof (elim disjE exE conjE)
  assume "snd (CompleteAttempt db studentID objectID now) = db"
  with assms show ?thesis by simp
next
  fix attempt
  assume eq: "snd (CompleteAttempt db studentID objectID now) =
        db\<lparr>attemptCollection :=
             UpdateOne (\<lambda>a. Attempt_ID a = objectID)
               (\<lambda>a. a\<lparr>CompletedAt := Some now,
                       TimeTaken := go_int (of_int (now - StartedAt attempt) / 1000)\<rparr>)
               (attemptCollection db)\<rparr>"
  from assms have all: "\<forall>a\<in>set (attemptCollection db). attempt_ok qs a"
    by (simp add: db_ok_def)
  show ?thesis
    unfolding eq
  proof (rule db_ok_update [OF assms])
    fix b
    assume "b \<in> set (attemptCollection db)"
    with all have "attempt_ok qs b" by blast
    then show "attempt_ok qs (b\<lparr>CompletedAt := Some now,
                       TimeTaken := go_int (of_int (now - StartedAt attempt) / 1000)\<rparr>)"
      by (simp add: attempt_ok_def split: option.splits)
  qed simp
qed

lemma reachable_db_ok: "reachable qs us db \<Longrightarrow> db_ok qs us db"
  by (induction rule: reachable.induct)
    (simp_all add: db_ok_init db_ok_start db_ok_submit db_ok_complete)

lemma filter_UpdateOne_le:
  "(\<And>x. Q (f x) \<Longrightarrow> Q x) \<Longrightarrow> length (filter Q (UpdateOne P f xs)) \<le> length (filter Q xs)"
  by (induction xs) auto

lemma in_progress_start:
  assumes "length (filter (\<lambda>a. StudentID a = s \<and> QuizID a = q \<and> CompletedAt a = None)
                     (attemptCollection db)) \<le> 1"
  shows "length (filter (\<lambda>a. StudentID a = s \<and> QuizID a = q \<and> CompletedAt a = None)
            (attemptCollection (snd (StartAttempt db studentID quizID courseService False newID now)))) \<le> 1"
proof -
  have "snd (StartAttempt db studentID quizID courseService False newID now) = db \<or>
     (\<exists>quiz. find (\<lambda>q. Quiz_ID q = quizID) (quizCollection db) = Some quiz \<and>
        find (\<lambda>a. QuizID a = quizID \<and> StudentID a = studentID \<and> CompletedAt a = None)
           (attemptCollection db) = None \<and>
        snd (StartAttempt db studentID quizID courseService False newID now) =
           db\<lparr>attemptCollection := attemptCollection db @
             [\<lparr>Attempt_ID = newID, QuizID = quizID, StudentID = studentID, Answers = [],
               TotalScore = 0, MaxScore = (\<Sum>q\<leftarrow>Questions quiz. real_of_int (Points q)),
               StartedAt = now, CompletedAt = None, TimeTaken = 0\<rparr>]\<rparr>)"
    unfolding StartAttempt_def InsertOne_def Let_def foldl_maxScore
    by (auto split: option.splits)
  then show ?thesis
  proof (elim disjE exE conjE)
    assume "snd (StartAttempt db studentID quizID courseService False newID now) = db"
    with assms show ?thesis by simp
  next
    fix quiz
    assume none: "find (\<lambda>a. QuizID a = quizID \<and> StudentID a = studentID \<and> CompletedAt a = None)
                    (attemptCollection db) = None"
      and eq: "snd (StartAttempt db studentID quizID courseService False newID now) =
          db\<lparr>attemptCollection := attemptCollection db @
               [\<lparr>Attempt_ID = newID, QuizID = quizID, StudentID = studentID, Answers = [],
                 TotalScore = 0, MaxScore = (\<Sum>q\<leftarrow>Questions quiz. real_of_int (Points q)),
                 StartedAt = now, CompletedAt = None, TimeTaken = 0\<rparr>]\<rparr>"
    show ?thesis
    proof (cases "s = studentID \<and> q = quizID")
      case True
      from none have "filter (\<lambda>a. StudentID a = s \<and> QuizID a = q \<and> CompletedAt a = None)
                       (attemptCollection db) = []"
        using True by (auto simp: find_None_iff_no filter_empty_conv)
      then show ?thesis unfolding eq by simp
    next
      case False
      with assms show ?thesis unfolding eq by auto
    qed
  qed
qed

lemma in_progress_submit:
  assumes "length (filter (\<lambda>a. StudentID a = s \<and> QuizID a = q \<and> CompletedAt a = None)
                     (attemptCollection db)) \<le> 1"
  shows "length (filter (\<lambda>a. StudentID a = s \<and> QuizID a = q \<and> CompletedAt a = None)
            (attemptCollection (snd (SubmitAnswer db studentID req now)))) \<le> 1"
  using SubmitAnswer_effect [of db studentID req now]
proof (elim disjE exE conjE)
  assume "snd (SubmitAnswer db studentID req now) = db"
  with assms show ?thesis by simp
next
  fix attempt quiz question
  assume eq: "snd (SubmitAnswer db studentID req now) =
        db\<lparr>attemptCollection :=
             UpdateOne (\<lambda>a. Attempt_ID a = req_AttemptID req)
               (\<lambda>a. a\<lparr>Answers := Answers a @
                          [\<lparr>QuestionID = req_QuestionID req,
                            StudentAnswer = AnyString (req_Answer req),
                            IsCorrect = (req_Answer req = correctAnswerStr (CorrectAnswer question)),
                            TimeToAnswer = req_TimeToAnswer req,
                            PointsEarned = CalculateScore (Points question) (req_TimeToAnswer req)
                               (req_Answer req = correctAnswerStr (CorrectAnswer question)),
                            AnsweredAt = now\<rparr>],
                       TotalScore := TotalScore a + CalculateScore (Points question) (req_TimeToAnswer req)
                               (req_Answer req = correctAnswerStr (CorrectAnswer question))\<rparr>)
               (attemptCollection db)\<rparr>"
  have "length (filter (\<lambda>a. StudentID a = s \<and> QuizID a = q \<and> CompletedAt a = None)
                  (attemptCollection (snd (SubmitAnswer db studentID req now))))
          \<le> length (filter (\<lambda>a. StudentID a = s \<and> QuizID a = q \<and> CompletedAt a = None)
                  (attemptCollection db))"
    unfolding eq by (simp, rule filter_UpdateOne_le, simp)
  with assms show ?thesis by simp
qed

lemma in_progress_complete:
  assumes "length (filter (\<lambda>a. StudentID a = s \<and> QuizID a = q \<and> CompletedAt a = None)
                     (attemptCollection db)) \<le> 1"
  shows "length (filter (\<lambda>a. StudentID a = s \<and> QuizID a = q \<and> CompletedAt a = None)
            (attemptCollection (snd (CompleteAttempt db studentID objectID now)))) \<le> 1"
  using CompleteAttempt_effect [of db studentID objectID now]
proof (elim disjE exE conjE)
  assume "snd (CompleteAttempt db studentID objectID now) = db"
  with assms show ?thesis by simp
next
  fix attempt :: QuizAttempt
  assume eq: "snd (CompleteAttempt db studentID objectID now) =
        db\<lparr>attemptCollection :=
             UpdateOne (\<lambda>a. Attempt_ID a = objectID)
               (\<lambda>a. a\<lparr>CompletedAt := Some now,
                       TimeTaken := go_int (of_int (now - StartedAt attempt) / 1000)\<rparr>)
               (attemptCollection db)\<rparr>"
  have "length (filter (\<lambda>a. StudentID a = s \<and> QuizID a = q \<and> CompletedAt a = None)
                  (attemptCollection (snd (CompleteAttempt db studentID objectID now))))
          \<le> length (filter (\<lambda>a. StudentID a = s \<and> QuizID a = q \<and> CompletedAt a = None)
                  (attemptCollection db))"
    unfolding eq by (simp, rule filter_UpdateOne_le, simp)
  with assms show ?thesis by simp
qed

lemma no_lookup_error_reachable: "reachable_no_lookup_error qs us db \<Longrightarrow> reachable qs us db"
  by (induction rule: reachable_no_lookup_error.induct) (intro reachable.intros; assumption?)+

lemma reachable_one_in_progress:
  "reachable_no_lookup_error qs us db \<Longrightarrow>
     length (filter (\<lambda>a. StudentID a = s \<and> QuizID a = q \<and> CompletedAt a = None)
               (attemptCollection db)) \<le> 1"
proof (induction rule: reachable_no_lookup_error.induct)
  case no_lookup_error_init
  show ?case by simp
next
  case (no_lookup_error_start db studentID quizID CheckCourseCompletion newID now)
  then show ?case by (intro in_progress_start)
next
  case (no_lookup_error_submit db studentID req now)
  then show ?case by (intro in_progress_submit)
next
  case (no_lookup_error_complete db studentID objectID now)
  then show ?case by (intro in_progress_complete)
qed

lemma go_int_seconds:
  "0 \<le> n \<Longrightarrow> go_int (real_of_int n / 1000) = n div 1000"
  "n < 0 \<Longrightarrow> go_int (real_of_int n / 1000) = - ((- n) div 1000)"
proof -
  have f: "\<lfloor>real_of_int k / 1000\<rfloor> = k div 1000" for k
    using floor_divide_of_int_eq [of k 1000] by simp
  show "0 \<le> n \<Longrightarrow> go_int (real_of_int n / 1000) = n div 1000"
    by (simp add: go_int_def f)
  show "n < 0 \<Longrightarrow> go_int (real_of_int n / 1000) = - ((- n) div 1000)"
    using f [of "- n"] by (simp add: go_int_def ceiling_def)
qed

lemma map_update_owner:
  assumes d: "distinct (map g xs)" and mem: "a \<in> set xs" and k: "g a = k"
  shows "map (\<lambda>b. if g b = k then f b else b) xs = map (\<lambda>b. if b = a then f a else b) xs"
proof (rule map_cong [OF refl])
  fix b
  assume "b \<in> set xs"
  with d mem k have "g b = k \<longleftrightarrow> b = a"
    by (auto simp: distinct_map inj_on_def)
  then show "(if g b = k then f b else b) = (if b = a then f a else b)" by auto
qed

lemma find_map_update:
  assumes "distinct (map g xs)" "a \<in> set xs" "g (f a) = g a"
  shows "find (\<lambda>b. g b = g a) (map (\<lambda>b. if b = a then f a else b) xs) = Some (f a)"
  using assms
proof (induction xs)
  case Nil
  then show ?case by simp
next
  case (Cons x xs)
  show ?case
  proof (cases "x = a")
    case True
    with Cons.prems(3) show ?thesis by simp
  next
    case False
    with Cons.prems have a: "a \<in> set xs" and "g x \<notin> g ` set xs" by auto
    then have "g x \<noteq> g a" by auto
    with False Cons.IH [OF _ a Cons.prems(3)] Cons.prems(1) show ?thesis by simp
  qed
qed

lemma find_UpdateOne:
  "find P xs = Some a \<Longrightarrow> P (f a) \<Longrightarrow> find P (UpdateOne P f xs) = Some (f a)"
  by (induction xs) (auto split: if_splits)

lemma find_weaken:
  "find (\<lambda>a. P a \<and> Q a) xs = Some a \<Longrightarrow> \<exists>b. find P xs = Some b"
  by (induction xs) (auto split: if_splits)

lemma rune_small: "- (2 ^ 31) \<le> n \<Longrightarrow> n < 2 ^ 31 \<Longrightarrow> rune n = n"
  unfolding rune_def by (simp add: sint_sbintrunc' signed_take_bit_int_eq_self)

lemma string_of_digit:
  "0 \<le> i \<Longrightarrow> i \<le> 9 \<Longrightarrow> string_of_rune (rune (i + 48)) = [char_of (48 + i)]"
  by (simp add: rune_small string_of_rune_def add.commute)

lemma go_int_of_int: "go_int (of_int i) = i"
  by (simp add: go_int_def)

lemma correctAnswerStr_cases:
  "correctAnswerStr (AnyString t) = t"
  "correctAnswerStr (AnyBool b) = (if b then ''true'' else ''false'')"
  "0 \<le> i \<Longrightarrow> i \<le> 9 \<Longrightarrow> correctAnswerStr (AnyInt i) = [char_of (48 + i)]"
  "0 \<le> i \<Longrightarrow> i \<le> 9 \<Longrightarrow> correctAnswerStr (AnyFloat64 (of_int i)) = [char_of (48 + i)]"
  by (simp_all add: correctAnswerStr_def string_of_digit go_int_of_int)

subsection \<open>The worked scenario, evaluated\<close>

lemma ex_db1_value:
  "ex_db1 = ex_db0\<lparr>attemptCollection := [ex_attempt1]\<rparr>"
  by (simp add: ex_db1_def ex_db0_def ex_quiz_def ex_attempt1_def StartAttempt_def InsertOne_def StatusApproved_def Let_def)

lemma ex_score1: "CalculateScore 10 5 True = 10"
  using CalculateScore_full_marks [of 10 5] by simp

lemma ex_score2: "CalculateScore 20 12 True = 10"
  using CalculateScore_half_marks [of 20 12] by simp

lemma ex_db2_value:
  "ex_db2 = ex_db0\<lparr>attemptCollection := [ex_attempt1\<lparr>Answers := [ex_answer1], TotalScore := 10\<rparr>]\<rparr>"
  by (simp add: ex_db2_def ex_db1_value ex_db0_def ex_quiz_def ex_attempt1_def ex_answer_def
      ex_answer1_def SubmitAnswer_def correctAnswerStr_def ex_score1 Let_def)

lemma ex_digit: "string_of_rune (rune (go_int 1 + 48)) = ''1''"
  by (simp add: string_of_rune_def rune_def go_int_def char_of_def)

lemma ex_db3_value:
  "ex_db3 = ex_db0\<lparr>attemptCollection :=
              [ex_attempt1\<lparr>Answers := [ex_answer1, ex_answer2], TotalScore := 20\<rparr>]\<rparr>"
  by (simp add: ex_db3_def ex_db2_value ex_db0_def ex_quiz_def ex_attempt1_def ex_answer_def
      ex_answer1_def ex_answer2_def SubmitAnswer_def correctAnswerStr_def ex_score2 ex_digit Let_def)

lemma ex_db4_value:
  "ex_db4 = ex_db0\<lparr>attemptCollection :=
              [ex_attempt1\<lparr>Answers := [ex_answer1, ex_answer2], TotalScore := 20,
                            CompletedAt := Some 12900, TimeTaken := 11\<rparr>]\<rparr>"
  by (simp add: ex_db4_def ex_db3_value ex_db0_def ex_attempt1_def CompleteAttempt_def go_int_def Let_def)

lemma ex_db3_reachable: "reachable [ex_quiz] ex_users ex_db3"
  unfolding ex_db3_def ex_db2_def ex_db1_def ex_db0_def
  by (intro reachable.intros)

lemma ex_db0_reachable: "reachable [ex_quiz] ex_users ex_db0"
  unfolding ex_db0_def by (rule reachable_init)

lemma ex_db1_reachable: "reachable [ex_quiz] ex_users ex_db1"
  unfolding ex_db1_def by (intro reachable_start ex_db0_reachable)

lemma ex_start_value:
  "fst (StartAttempt ex_db0 7 5 (\<lambda>_ _. Some True) False 100 1000)
     = Inr (ex_attempt1, ex_quiz\<lparr>Questions := map (\<lambda>q. q\<lparr>CorrectAnswer := AnyNil\<rparr>) (Questions ex_quiz)\<rparr>)"
  by (simp add: ex_db0_def ex_quiz_def ex_attempt1_def StartAttempt_def InsertOne_def
      StatusApproved_def Let_def)

lemma ex_db4_reachable: "reachable [ex_quiz] ex_users ex_db4"
  unfolding ex_db4_def by (intro reachable_complete ex_db3_reachable)

lemma ex_db3_find: "find (\<lambda>a. Attempt_ID a = 100 \<and> StudentID a = 7) (attemptCollection ex_db3) = Some ex_attempt3"
  by (simp add: ex_db3_value ex_attempt3_def ex_attempt1_def)

lemma ex_db4_find:
  "find (\<lambda>a. Attempt_ID a = 100 \<and> StudentID a = 7) (attemptCollection ex_db4)
     = Some (ex_attempt3\<lparr>CompletedAt := Some 12900, TimeTaken := 11\<rparr>)"
  by (simp add: ex_db4_value ex_attempt3_def ex_attempt1_def)

lemma ex_db4_attempts: "ex_db4 = ex_db0\<lparr>attemptCollection := [ex_attempt7]\<rparr>"
  by (simp add: ex_db4_value ex_attempt7_def ex_attempt3_def)

lemma ex_db5_value:
  "ex_db5 = ex_db0\<lparr>attemptCollection := [ex_attempt7, ex_attempt1\<lparr>Attempt_ID := 101, StudentID := 8\<rparr>]\<rparr>"
  by (simp add: ex_db5_def ex_db4_attempts ex_db0_def ex_quiz_def ex_attempt7_def ex_attempt3_def
      ex_attempt1_def StartAttempt_def InsertOne_def StatusApproved_def Let_def)

lemma ex_db6_value:
  "ex_db6 = ex_db0\<lparr>attemptCollection :=
              [ex_attempt7,
               ex_attempt1\<lparr>Attempt_ID := 101, StudentID := 8, Answers := [ex_answer1],
                           TotalScore := 10\<rparr>]\<rparr>"
  by (simp add: ex_db6_def ex_db5_value ex_db0_def ex_quiz_def ex_attempt7_def ex_attempt3_def
      ex_attempt1_def ex_answer_def ex_answer1_def SubmitAnswer_def correctAnswerStr_def
      ex_score1 Let_def)

lemma ex_db7_value:
  "ex_db7 = ex_db0\<lparr>attemptCollection :=
              [ex_attempt7, ex_attempt3\<lparr>Attempt_ID := 101, StudentID := 8\<rparr>]\<rparr>"
  by (simp add: ex_db7_def ex_db6_value ex_db0_def ex_quiz_def ex_attempt7_def ex_attempt3_def
      ex_attempt1_def ex_answer_def ex_answer1_def ex_answer2_def SubmitAnswer_def
      correctAnswerStr_def ex_score2 ex_digit Let_def)

lemma ex_db8_value:
  "ex_db8 = ex_db0\<lparr>attemptCollection := [ex_attempt7, ex_attempt8]\<rparr>"
  by (simp add: ex_db8_def ex_db7_value ex_db0_def ex_attempt7_def ex_attempt8_def ex_attempt3_def
      ex_attempt1_def CompleteAttempt_def go_int_def Let_def)

lemma ex_db8_reachable: "reachable [ex_quiz] ex_users ex_db8"
  unfolding ex_db8_def ex_db7_def ex_db6_def ex_db5_def
  by (intro reachable_complete reachable_submit reachable_start ex_db4_reachable)

lemma ex_leaderboard:
  "GetQuizLeaderboard ex_db8 5 = Some (QuizLeaderboardReply 2 [ex_entry7, ex_entry8])"
  by (simp add: GetQuizLeaderboard_def sort_by_score_time_def ex_db8_value ex_db0_def ex_users_def
      ex_attempt7_def ex_attempt8_def ex_attempt3_def ex_attempt1_def ex_entry7_def ex_entry8_def
      Let_def)

lemma ex_my_rank: "GetMyRank ex_db8 8 5 = Inr ex_rank8"
  by (simp add: GetMyRank_def sort_by_score_time_def ex_db8_value ex_db0_def
      ex_attempt7_def ex_attempt8_def ex_attempt3_def ex_attempt1_def ex_rank8_def Let_def)

lemma ex_own8:
  "filter (\<lambda>a. QuizID a = 5 \<and> StudentID a = 8 \<and> CompletedAt a \<noteq> None) (attemptCollection ex_db8)
     = [ex_attempt8]"
  by (simp add: ex_db8_value ex_attempt7_def ex_attempt8_def ex_attempt3_def ex_attempt1_def)

lemma ex_db0_no_lookup_error: "reachable_no_lookup_error [ex_quiz] ex_users ex_db0"
  unfolding ex_db0_def by (rule no_lookup_error_init)

lemma ex_db1_no_lookup_error: "reachable_no_lookup_error [ex_quiz] ex_users ex_db1"
  unfolding ex_db1_def by (intro no_lookup_error_start ex_db0_no_lookup_error)

lemma ex_db1_twice_value:
  "ex_db1_twice = ex_db0\<lparr>attemptCollection :=
      [ex_attempt1, ex_attempt1\<lparr>Attempt_ID := 101, StartedAt := 5000\<rparr>]\<rparr>"
  by (simp add: ex_db1_twice_def ex_db1_value ex_db0_def ex_quiz_def ex_attempt1_def
      StartAttempt_def InsertOne_def StatusApproved_def Let_def)

lemma ex_big_db1_value:
  "ex_big_db1 = ex_big_db0\<lparr>attemptCollection :=
      [\<lparr>Attempt_ID = 300, QuizID = 9, StudentID = 7, Answers = [], TotalScore = 0,
        MaxScore = 360287970189643, StartedAt = 1000, CompletedAt = None, TimeTaken = 0\<rparr>]\<rparr>"
  by (simp add: ex_big_db1_def ex_big_db0_def ex_big_quiz_def StartAttempt_def InsertOne_def
      StatusApproved_def Let_def)

lemma ex_big_db2_value:
  "ex_big_db2 = ex_big_db0\<lparr>attemptCollection :=
      [\<lparr>Attempt_ID = 300, QuizID = 9, StudentID = 7,
        Answers = [\<lparr>QuestionID = 91, StudentAnswer = AnyString ''true'', IsCorrect = True,
                    TimeToAnswer = 3, PointsEarned = 5764607523034289 / 16, AnsweredAt = 2000\<rparr>],
        TotalScore = 5764607523034289 / 16,
        MaxScore = 360287970189643, StartedAt = 1000, CompletedAt = None, TimeTaken = 0\<rparr>]\<rparr>"
  by (simp add: ex_big_db2_def ex_big_db1_value ex_big_db0_def ex_big_quiz_def ex_answer_def
      SubmitAnswer_def correctAnswerStr_def CalculateScore_at_2_48 Let_def)

lemma ex_global_zero:
  "GetGlobalLeaderboard (\<lambda>x y. Some (x / y)) ex_zero_db
     = Inr [\<lparr>Global_Rank = 1, Global_StudentID = 7, Global_StudentName = ''Ada Byron'',
             Global_AvgScore = 0, Global_TotalAttempts = 1, Global_TotalScore = 0\<rparr>]"
  by (simp add: GetGlobalLeaderboard_def aggregate_pipeline_def group_by_student_def
      ex_zero_db_def ex_zero_attempt_def ex_users_def Let_def)


lemma ex_global_two:
  "GetGlobalLeaderboard mongo_divide ex_two_db
     = Inr [\<lparr>Global_Rank = 1, Global_StudentID = 8, Global_StudentName = ''Alan Turing'',
             Global_AvgScore = 90, Global_TotalAttempts = 1, Global_TotalScore = 9\<rparr>,
            \<lparr>Global_Rank = 2, Global_StudentID = 7, Global_StudentName = ''Ada Byron'',
             Global_AvgScore = 75, Global_TotalAttempts = 2, Global_TotalScore = 40\<rparr>]"
  by (simp add: GetGlobalLeaderboard_def aggregate_pipeline_def group_by_student_def
      mongo_divide_def ex_two_db_def ex_users_def Let_def)

subsection \<open>The correctness flag of a submitted answer\<close>

text \<open>
  Claim C3, as stated: the recorded correctness flag is exact-typed equality of the
  submitted value and the question's correct answer, not a comparison of string forms.
  The request carries the answer as a string. On a true/false question whose correct
  answer is the boolean \<open>true\<close>, the submitted string \<open>''true''\<close> is recorded as
  correct, though a string and a boolean are never equal as typed values: the handler
  compares the string with the string form of the boolean. The string form loses the
  type: the option index 1 and the text \<open>''1''\<close> have the same string form.
\<close>

theorem SubmitAnswer_exact_typed_counterexample:
  "map_option CorrectAnswer (find (\<lambda>q. Question_ID q = 11) (Questions ex_quiz))
     = Some (AnyBool True) \<and>
   fst (SubmitAnswer ex_db1 7 (ex_answer 100 11 ''true'' 5) 2000)
     = Inr (SubmitAnswerReply True (10)) \<and>
   map (\<lambda>a. map (\<lambda>ans. (StudentAnswer ans, IsCorrect ans)) (Answers a))
     (attemptCollection (snd (SubmitAnswer ex_db1 7 (ex_answer 100 11 ''true'' 5) 2000)))
     = [[(AnyString ''true'', True)]] \<and>
   \<not> exact_typed_equal (AnyString ''true'') (AnyBool True) \<and>
   correctAnswerStr (AnyFloat64 1) = correctAnswerStr (AnyString ''1'') \<and>
   \<not> exact_typed_equal (AnyFloat64 1) (AnyString ''1'')"
proof -
  have "snd (SubmitAnswer ex_db1 7 (ex_answer 100 11 ''true'' 5) 2000)
          = ex_db0\<lparr>attemptCollection := [ex_attempt1\<lparr>Answers := [ex_answer1], TotalScore := 10\<rparr>]\<rparr>"
    using ex_db2_value by (simp add: ex_db2_def)
  moreover have "fst (SubmitAnswer ex_db1 7 (ex_answer 100 11 ''true'' 5) 2000)
              = Inr (SubmitAnswerReply True (10))"
    by (simp add: ex_db1_value ex_db0_def ex_quiz_def ex_attempt1_def ex_answer_def
        SubmitAnswer_def correctAnswerStr_def ex_score1 Let_def)
  moreover have "correctAnswerStr (AnyFloat64 1) = correctAnswerStr (AnyString ''1'')"
    using ex_digit by (simp add: correctAnswerStr_def)
  ultimately show ?thesis
    by (simp add: ex_quiz_def ex_answer1_def exact_typed_equal_def)
qed

text \<open>
  Claim C3, amended. On every successful \<open>SubmitAnswer\<close> the correctness flag, returned
  and recorded with the appended answer, is string equality of the submitted text and the
  string form of the question's correct answer: the text itself for a string,
  \<open>''true''\<close> or \<open>''false''\<close> for a boolean, and the one decimal digit for an option
  index from 0 to 9 held as \<^verbatim>\<open>int\<close> or \<^verbatim>\<open>float64\<close>.
\<close>

theorem SubmitAnswer_correctness_flag:
  assumes "fst (SubmitAnswer db s req now) = Inr reply"
  shows "\<exists>attempt quiz question updated.
           find (\<lambda>a. Attempt_ID a = req_AttemptID req \<and> StudentID a = s) (attemptCollection db)
             = Some attempt \<and>
           CompletedAt attempt = None \<and>
           find (\<lambda>q. Quiz_ID q = QuizID attempt) (quizCollection db) = Some quiz \<and>
           find (\<lambda>q. Question_ID q = req_QuestionID req) (Questions quiz) = Some question \<and>
           is_correct reply = (req_Answer req = correctAnswerStr (CorrectAnswer question)) \<and>
           find (\<lambda>a. Attempt_ID a = req_AttemptID req)
             (attemptCollection (snd (SubmitAnswer db s req now))) = Some updated \<and>
           Answers updated \<noteq> [] \<and>
           QuestionID (last (Answers updated)) = req_QuestionID req \<and>
           StudentAnswer (last (Answers updated)) = AnyString (req_Answer req) \<and>
           IsCorrect (last (Answers updated)) = is_correct reply \<and>
           (\<forall>t. CorrectAnswer question = AnyString t \<longrightarrow> is_correct reply = (req_Answer req = t)) \<and>
           (\<forall>b. CorrectAnswer question = AnyBool b \<longrightarrow>
                  is_correct reply = (req_Answer req = (if b then ''true'' else ''false''))) \<and>
           (\<forall>i. (CorrectAnswer question = AnyInt i \<or> CorrectAnswer question = AnyFloat64 (of_int i)) \<and>
                  0 \<le> i \<and> i \<le> 9 \<longrightarrow>
                  is_correct reply = (req_Answer req = [char_of (48 + i)]))"
proof -
  from assms obtain attempt quiz question
    where found: "find (\<lambda>a. Attempt_ID a = req_AttemptID req \<and> StudentID a = s)
                    (attemptCollection db) = Some attempt"
      and open_: "CompletedAt attempt = None"
      and quiz: "find (\<lambda>q. Quiz_ID q = QuizID attempt) (quizCollection db) = Some quiz"
      and question: "find (\<lambda>q. Question_ID q = req_QuestionID req) (Questions quiz) = Some question"
    unfolding SubmitAnswer_def Let_def
    by (auto split: option.splits if_splits)
  let ?c = "req_Answer req = correctAnswerStr (CorrectAnswer question)"
  let ?p = "CalculateScore (Points question) (req_TimeToAnswer req) ?c"
  let ?answer = "\<lparr>QuestionID = req_QuestionID req, StudentAnswer = AnyString (req_Answer req),
                   IsCorrect = ?c, TimeToAnswer = req_TimeToAnswer req, PointsEarned = ?p,
                   AnsweredAt = now\<rparr>"
  let ?f = "\<lambda>a. a\<lparr>Answers := Answers a @ [?answer], TotalScore := TotalScore a + ?p\<rparr>"
  from assms found open_ quiz question have reply: "reply = SubmitAnswerReply ?c ?p"
    unfolding SubmitAnswer_def Let_def by (auto split: if_splits)
  from assms found open_ quiz question have st: "attemptCollection (snd (SubmitAnswer db s req now)) =
        UpdateOne (\<lambda>a. Attempt_ID a = req_AttemptID req) ?f (attemptCollection db)"
    unfolding SubmitAnswer_def Let_def by (auto split: if_splits)
  from find_weaken [OF found] obtain first
    where first: "find (\<lambda>a. Attempt_ID a = req_AttemptID req) (attemptCollection db) = Some first"
    by blast
  then have "Attempt_ID first = req_AttemptID req" by (auto dest: find_Some_mem)
  then have same: "Attempt_ID (?f first) = req_AttemptID req" by simp
  have "find (\<lambda>a. Attempt_ID a = req_AttemptID req)
          (UpdateOne (\<lambda>a. Attempt_ID a = req_AttemptID req) ?f (attemptCollection db)) = Some (?f first)"
    using first same by (rule find_UpdateOne)
  then have upd: "find (\<lambda>a. Attempt_ID a = req_AttemptID req)
               (attemptCollection (snd (SubmitAnswer db s req now))) = Some (?f first)"
    unfolding st .
  have rec: "Answers (?f first) \<noteq> []" "QuestionID (last (Answers (?f first))) = req_QuestionID req"
    "StudentAnswer (last (Answers (?f first))) = AnyString (req_Answer req)"
    "IsCorrect (last (Answers (?f first))) = is_correct reply"
    by (simp_all add: reply)
  have flag: "is_correct reply = ?c" by (simp add: reply)
  have c1: "\<forall>t. CorrectAnswer question = AnyString t \<longrightarrow> is_correct reply = (req_Answer req = t)"
    unfolding flag by (auto simp: correctAnswerStr_cases)
  have c2: "\<forall>b. CorrectAnswer question = AnyBool b \<longrightarrow>
                  is_correct reply = (req_Answer req = (if b then ''true'' else ''false''))"
    unfolding flag by (auto simp: correctAnswerStr_cases)
  have c3: "\<forall>i. (CorrectAnswer question = AnyInt i \<or> CorrectAnswer question = AnyFloat64 (of_int i)) \<and>
                  0 \<le> i \<and> i \<le> 9 \<longrightarrow>
                  is_correct reply = (req_Answer req = [char_of (48 + i)])"
    unfolding flag by (auto simp: correctAnswerStr_cases)
  from found open_ quiz question flag upd rec c1 c2 c3 show ?thesis by blast
qed

theorem SubmitAnswer_correctness_flag_witness:
  "fst (SubmitAnswer ex_db2 7 (ex_answer 100 12 ''1'' 12) 3000) = Inr (SubmitAnswerReply True 10) \<and>
   (\<exists>attempt quiz question updated.
      find (\<lambda>a. Attempt_ID a = 100 \<and> StudentID a = 7) (attemptCollection ex_db2) = Some attempt \<and>
      find (\<lambda>q. Quiz_ID q = QuizID attempt) (quizCollection ex_db2) = Some quiz \<and>
      find (\<lambda>q. Question_ID q = 12) (Questions quiz) = Some question \<and>
      True = (''1'' = correctAnswerStr (CorrectAnswer question)) \<and>
      find (\<lambda>a. Attempt_ID a = 100) (attemptCollection ex_db3) = Some updated \<and>
      StudentAnswer (last (Answers updated)) = AnyString ''1'' \<and>
      IsCorrect (last (Answers updated)) = True)"
proof -
  have ok: "fst (SubmitAnswer ex_db2 7 (ex_answer 100 12 ''1'' 12) 3000) = Inr (SubmitAnswerReply True 10)"
    by (simp add: ex_db2_value ex_db0_def ex_quiz_def ex_attempt1_def ex_answer_def
        ex_answer1_def SubmitAnswer_def correctAnswerStr_def ex_score2 ex_digit Let_def)
  from SubmitAnswer_correctness_flag [OF ok]
  have "\<exists>attempt quiz question updated.
      find (\<lambda>a. Attempt_ID a = 100 \<and> StudentID a = 7) (attemptCollection ex_db2) = Some attempt \<and>
      find (\<lambda>q. Quiz_ID q = QuizID attempt) (quizCollection ex_db2) = Some quiz \<and>
      find (\<lambda>q. Question_ID q = 12) (Questions quiz) = Some question \<and>
      True = (''1'' = correctAnswerStr (CorrectAnswer question)) \<and>
      find (\<lambda>a. Attempt_ID a = 100) (attemptCollection ex_db3) = Some updated \<and>
      StudentAnswer (last (Answers updated)) = AnyString ''1'' \<and>
      IsCorrect (last (Answers updated)) = True"
    unfolding ex_db3_def [symmetric] by (simp add: ex_answer_def) blast
  with ok show ?thesis by blast
qed

subsection \<open>The ranking engine\<close>

lemma those_None_iff: "those xs = None \<longleftrightarrow> None \<in> set xs"
  by (induction xs) (auto split: option.splits)

lemma build_leaderboard_rows:
  assumes "\<forall>a\<in>set as. CompletedAt a \<noteq> None"
  shows "\<exists>es. build_leaderboard us r as = Some es \<and>
              map entry_row es = map attempt_row (filter (known_student us) as) \<and>
              map Rank es = map (\<lambda>i. r + int i) [0..<length es]"
  using assms
proof (induction as arbitrary: r)
  case Nil
  then show ?case by simp
next
  case (Cons a as)
  from Cons.prems have rest: "\<forall>a\<in>set as. CompletedAt a \<noteq> None" by simp
  show ?case
  proof (cases "find (\<lambda>u. User_ID u = StudentID a) us")
    case None
    then have "\<not> known_student us a" by (simp add: known_student_def)
    with None Cons.IH [OF rest, of r] show ?thesis by simp
  next
    case (Some user)
    then have known: "known_student us a" by (simp add: known_student_def)
    from Cons.prems obtain t where t: "CompletedAt a = Some t" by auto
    from Cons.IH [OF rest, of "r + 1"] obtain es
      where es: "build_leaderboard us (r + 1) as = Some es"
        and rows: "map entry_row es = map attempt_row (filter (known_student us) as)"
        and ranks: "map Rank es = map (\<lambda>i. r + 1 + int i) [0..<length es]"
      by blast
    let ?e = "\<lparr>Rank = r, Entry_StudentID = StudentID a,
               StudentName = FirstName user @ '' '' @ LastName user,
               Score = TotalScore a, Entry_MaxScore = MaxScore a,
               Percentage = (if MaxScore a > 0 then (TotalScore a / MaxScore a) * 100 else 0.0),
               Entry_TimeTaken = TimeTaken a, Entry_CompletedAt = t\<rparr>"
    have run: "build_leaderboard us r (a # as) = Some (?e # es)"
      using Some t es by (simp add: Let_def)
    have row: "entry_row ?e = attempt_row a"
      using t by (simp add: entry_row_def attempt_row_def)
    have "map (\<lambda>i. r + int i) [0..<length (?e # es)]
            = r # map (\<lambda>i. r + 1 + int i) [0..<length es]"
      by (simp add: upt_conv_Cons map_Suc_upt [symmetric] del: upt_Suc)
    with ranks have rk: "map Rank (?e # es) = map (\<lambda>i. r + int i) [0..<length (?e # es)]"
      by simp
    from run row rows known rk show ?thesis
      by (intro exI [of _ "?e # es"]) simp
  qed
qed

lemma GetQuizLeaderboard_rows:
  "\<exists>lb. GetQuizLeaderboard db q = Some (QuizLeaderboardReply (int (length lb)) lb) \<and>
         map entry_row lb =
           map attempt_row
             (filter (known_student (userCollection db))
                (sort_by_score_time
                   (filter (\<lambda>a. QuizID a = q \<and> CompletedAt a \<noteq> None) (attemptCollection db)))) \<and>
         map Rank lb = map (\<lambda>i. 1 + int i) [0..<length lb]"
proof -
  let ?L = "sort_by_score_time
              (filter (\<lambda>a. QuizID a = q \<and> CompletedAt a \<noteq> None) (attemptCollection db))"
  have "\<forall>a\<in>set ?L. CompletedAt a \<noteq> None"
    by (simp add: sort_by_score_time_def)
  from build_leaderboard_rows [OF this, of "userCollection db" 1] obtain es
    where "build_leaderboard (userCollection db) 1 ?L = Some es"
      and "map entry_row es = map attempt_row (filter (known_student (userCollection db)) ?L)"
      and "map Rank es = map (\<lambda>i. 1 + int i) [0..<length es]"
    by blast
  then show ?thesis
    unfolding GetQuizLeaderboard_def Let_def by (intro exI [of _ es]) simp
qed

lemma entry_key_of_row:
  "(- Score e, Entry_TimeTaken e) = (case entry_row e of (sid, sc, mx, pct, t, c) \<Rightarrow> (- sc, t))"
  by (simp add: entry_row_def)

lemma attempt_key_of_row:
  "(- TotalScore a, TimeTaken a) = (case attempt_row a of (sid, sc, mx, pct, t, c) \<Rightarrow> (- sc, t))"
  by (simp add: attempt_row_def)

lemma rows_keys:
  assumes "map entry_row lb = map attempt_row as"
  shows "map (\<lambda>e. (- Score e, Entry_TimeTaken e)) lb = map (\<lambda>a. (- TotalScore a, TimeTaken a)) as"
proof -
  have "map (\<lambda>e. (- Score e, Entry_TimeTaken e)) lb
          = map (\<lambda>r. case r of (sid, sc, mx, pct, t, c) \<Rightarrow> (- sc, t)) (map entry_row lb)"
    by (simp add: entry_key_of_row comp_def)
  also have "\<dots> = map (\<lambda>r. case r of (sid, sc, mx, pct, t, c) \<Rightarrow> (- sc, t)) (map attempt_row as)"
    by (simp only: assms)
  also have "\<dots> = map (\<lambda>a. (- TotalScore a, TimeTaken a)) as"
    by (simp add: attempt_key_of_row comp_def)
  finally show ?thesis .
qed

lemma key_le_precedes:
  "(- Score e1, Entry_TimeTaken e1) \<le> (- Score e2, Entry_TimeTaken e2) \<longleftrightarrow> precedes_score_time e1 e2"
  by (auto simp: precedes_score_time_def)

lemma key_less_outranks:
  "(- TotalScore a, TimeTaken a) < (- TotalScore b, TimeTaken b) \<longleftrightarrow> outranks a b"
  by (auto simp: outranks_def)

lemma sorted_sort_by_score_time:
  "sorted (map (\<lambda>a. (- TotalScore a, TimeTaken a)) (sort_by_score_time xs))"
  unfolding sort_by_score_time_def by (rule sorted_sort_key)

lemma leaderboard_sorted:
  assumes "map entry_row lb = map attempt_row (filter P (sort_by_score_time xs))"
  shows "sorted_wrt precedes_score_time lb"
proof -
  have "sorted (map (\<lambda>a. (- TotalScore a, TimeTaken a)) (filter P (sort_by_score_time xs)))"
    by (rule sorted_filter) (rule sorted_sort_by_score_time)
  then have "sorted (map (\<lambda>e. (- Score e, Entry_TimeTaken e)) lb)"
    by (simp only: rows_keys [OF assms])
  then have "sorted_wrt (\<lambda>e1 e2. (- Score e1, Entry_TimeTaken e1) \<le> (- Score e2, Entry_TimeTaken e2)) lb"
    by (simp only: sorted_map)
  then show ?thesis by (simp only: key_le_precedes)
qed

lemma ranks_positions:
  assumes "map Rank lb = map (\<lambda>i. 1 + int i) [0..<length lb]"
  shows "\<forall>i<length lb. Rank (lb ! i) = int i + 1" and "distinct (map Rank lb)"
proof -
  show "\<forall>i<length lb. Rank (lb ! i) = int i + 1"
  proof (intro allI impI)
    fix i assume i: "i < length lb"
    then have "Rank (lb ! i) = map Rank lb ! i" by simp
    also have "\<dots> = 1 + int i" unfolding assms using i by simp
    finally show "Rank (lb ! i) = int i + 1" by simp
  qed
  show "distinct (map Rank lb)"
    unfolding assms by (simp add: distinct_map inj_on_def)
qed

lemma leaderboard_mset:
  assumes "map entry_row lb = map attempt_row (filter P (sort_by_score_time (filter Q xs)))"
  shows "mset (map entry_row lb) = mset (map attempt_row (filter (\<lambda>a. Q a \<and> P a) xs))"
proof -
  have "mset (filter P (sort_by_score_time (filter Q xs))) = mset (filter (\<lambda>a. Q a \<and> P a) xs)"
    unfolding sort_by_score_time_def by (simp add: filter_filter_mset conj_commute)
  then have "mset (map attempt_row (filter P (sort_by_score_time (filter Q xs))))
               = mset (map attempt_row (filter (\<lambda>a. Q a \<and> P a) xs))"
    by (simp only: mset_map)
  then show ?thesis by (simp only: assms)
qed

lemma row_percentage:
  assumes "entry_row e = attempt_row a"
  shows "Entry_StudentID e = StudentID a" "Entry_MaxScore e = MaxScore a"
    "Percentage e = (if MaxScore a > 0 then (TotalScore a / MaxScore a) * 100 else 0)"
  using assms by (simp_all add: entry_row_def attempt_row_def)

lemma filter_takeWhile_sorted:
  fixes k :: "'a \<Rightarrow> 'b::linorder"
  shows "sorted (map k xs) \<Longrightarrow> filter (\<lambda>a. k a < c) xs = takeWhile (\<lambda>a. k a < c) xs"
proof (induction xs)
  case Nil
  then show ?case by simp
next
  case (Cons x xs)
  show ?case
  proof (cases "k x < c")
    case True
    with Cons show ?thesis by simp
  next
    case False
    with Cons.prems have "\<forall>y\<in>set xs. \<not> k y < c" by auto
    then have "filter (\<lambda>a. k a < c) xs = []" by (simp add: filter_empty_conv)
    with False show ?thesis by simp
  qed
qed

lemma sorted_position:
  fixes k :: "'a \<Rightarrow> 'b::linorder"
  assumes s: "sorted (map k L)" and b: "b \<in> set L"
  shows "length (filter (\<lambda>a. k a < k b) L) < length L \<and>
         k (L ! length (filter (\<lambda>a. k a < k b) L)) = k b \<and>
         (\<forall>i<length (filter (\<lambda>a. k a < k b) L). k (L ! i) < k b)"
proof -
  let ?P = "\<lambda>a. k a < k b"
  let ?n = "length (takeWhile ?P L)"
  have eq: "filter ?P L = takeWhile ?P L" using s by (rule filter_takeWhile_sorted)
  have "takeWhile ?P L \<noteq> L"
    using b by (auto simp: takeWhile_eq_all_conv)
  then have "?n \<noteq> length L" by (metis takeWhile_eq_take take_all order_refl)
  with length_takeWhile_le [of ?P L] have lt: "?n < length L" by simp
  then have stop: "\<not> ?P (L ! ?n)" by (rule nth_length_takeWhile)
  have before: "\<forall>i<?n. ?P (L ! i)"
  proof (intro allI impI)
    fix i assume i: "i < ?n"
    then have "takeWhile ?P L ! i = L ! i" by (rule takeWhile_nth)
    moreover from i have "takeWhile ?P L ! i \<in> set (takeWhile ?P L)" by simp
    ultimately show "?P (L ! i)" by (auto dest: set_takeWhileD)
  qed
  from b obtain j where j: "j < length L" "L ! j = b" by (auto simp: in_set_conv_nth)
  have "?n \<le> j"
  proof (rule ccontr)
    assume "\<not> ?n \<le> j"
    then have "j < ?n" by simp
    with before have "?P (L ! j)" by blast
    with j show False by simp
  qed
  with s j have "k (L ! ?n) \<le> k (L ! j)"
    using sorted_nth_mono [of "map k L" ?n j] by simp
  with stop j have "k (L ! ?n) = k b" by simp
  with lt before show ?thesis unfolding eq by blast
qed

lemma sort_by_score_time_head:
  assumes "sort_by_score_time xs = b # rest"
  shows "b \<in> set xs" and "\<forall>a\<in>set xs. \<not> outranks a b"
proof -
  have "set (sort_by_score_time xs) = set xs" by (simp add: sort_by_score_time_def)
  with assms have set: "set xs = insert b (set rest)" by simp
  then show "b \<in> set xs" by simp
  from sorted_sort_by_score_time [of xs] assms
  have "\<forall>a\<in>set rest. (- TotalScore b, TimeTaken b) \<le> (- TotalScore a, TimeTaken a)"
    by simp
  then have "\<forall>a\<in>set xs. (- TotalScore b, TimeTaken b) \<le> (- TotalScore a, TimeTaken a)"
    unfolding set by simp
  then show "\<forall>a\<in>set xs. \<not> outranks a b"
    by (simp only: key_less_outranks [symmetric] not_less)
qed

lemma length_filter_sort_by_score_time:
  "length (filter P (sort_by_score_time xs)) = length (filter P xs)"
  unfolding sort_by_score_time_def by (simp add: filter_sort)

lemma row_fields:
  assumes "map entry_row lb = map attempt_row L" "i < length L"
  shows "Score (lb ! i) = TotalScore (L ! i)" "Entry_TimeTaken (lb ! i) = TimeTaken (L ! i)"
proof -
  from assms(1) have len: "length lb = length L" by (rule map_eq_imp_length_eq)
  from assms(1) have "map entry_row lb ! i = map attempt_row L ! i" by simp
  with assms(2) len have "entry_row (lb ! i) = attempt_row (L ! i)" by simp
  then show "Score (lb ! i) = TotalScore (L ! i)" "Entry_TimeTaken (lb ! i) = TimeTaken (L ! i)"
    by (simp_all add: entry_row_def attempt_row_def)
qed

subsection \<open>Order and ranks of the quiz leaderboard\<close>

text \<open>
  Claim C4, as stated: entries are sorted by total score descending, then time taken
  ascending, then completion timestamp ascending. The sort of \<open>GetQuizLeaderboard\<close> has the
  first two keys only. In the worked scenario, a reachable state, students 7 and 8 have
  the same score and the same time taken, student 8 completed earlier, and the
  leaderboard lists student 7 first.
\<close>

theorem GetQuizLeaderboard_tie_break_counterexample:
  "reachable [ex_quiz] ex_users ex_db8 \<and>
   GetQuizLeaderboard ex_db8 5 = Some (QuizLeaderboardReply 2 [ex_entry7, ex_entry8]) \<and>
   Score ex_entry7 = Score ex_entry8 \<and>
   Entry_TimeTaken ex_entry7 = Entry_TimeTaken ex_entry8 \<and>
   Entry_CompletedAt ex_entry8 < Entry_CompletedAt ex_entry7 \<and>
   \<not> sorted_wrt precedes_spec [ex_entry7, ex_entry8]"
  using ex_db8_reachable ex_leaderboard
  by (simp add: ex_entry7_def ex_entry8_def precedes_spec_def)

text \<open>
  Claim C4, amended. \<open>GetQuizLeaderboard\<close> always returns a leaderboard: its entries are
  those of the completed attempts of the quiz whose student has a user document, sorted by
  total score descending with ties broken by time taken ascending; the entry at position
  \<open>i\<close> (counting from 0) has rank \<open>i + 1\<close>, so ranks are distinct also among entries with
  equal score and time taken.
\<close>

theorem GetQuizLeaderboard_order:
  "\<exists>lb. GetQuizLeaderboard db q = Some (QuizLeaderboardReply (int (length lb)) lb) \<and>
         sorted_wrt precedes_score_time lb \<and>
         (\<forall>i<length lb. Rank (lb ! i) = int i + 1) \<and>
         distinct (map Rank lb) \<and>
         mset (map entry_row lb) =
           mset (map attempt_row
                   (filter (\<lambda>a. (QuizID a = q \<and> CompletedAt a \<noteq> None) \<and>
                                 known_student (userCollection db) a)
                      (attemptCollection db)))"
proof -
  from GetQuizLeaderboard_rows [of db q] obtain lb
    where run: "GetQuizLeaderboard db q = Some (QuizLeaderboardReply (int (length lb)) lb)"
      and rows: "map entry_row lb =
           map attempt_row
             (filter (known_student (userCollection db))
                (sort_by_score_time
                   (filter (\<lambda>a. QuizID a = q \<and> CompletedAt a \<noteq> None) (attemptCollection db))))"
      and ranks: "map Rank lb = map (\<lambda>i. 1 + int i) [0..<length lb]"
    by blast
  from run leaderboard_sorted [OF rows] ranks_positions [OF ranks] leaderboard_mset [OF rows]
  show ?thesis by blast
qed

theorem GetQuizLeaderboard_order_witness:
  "GetQuizLeaderboard ex_db8 5 = Some (QuizLeaderboardReply 2 [ex_entry7, ex_entry8]) \<and>
   sorted_wrt precedes_score_time [ex_entry7, ex_entry8] \<and>
   (1::nat) < length [ex_entry7, ex_entry8] \<and>
   Rank ([ex_entry7, ex_entry8] ! 1) = 2 \<and>
   distinct (map Rank [ex_entry7, ex_entry8])"
proof -
  from GetQuizLeaderboard_order [of ex_db8 5] obtain lb
    where run: "GetQuizLeaderboard ex_db8 5 = Some (QuizLeaderboardReply (int (length lb)) lb)"
      and s: "sorted_wrt precedes_score_time lb"
      and r: "\<forall>i<length lb. Rank (lb ! i) = int i + 1"
      and d: "distinct (map Rank lb)"
    by blast
  from run ex_leaderboard have lb: "lb = [ex_entry7, ex_entry8]" by simp
  have l: "(1::nat) < length [ex_entry7, ex_entry8]" by simp
  from r l have "Rank ([ex_entry7, ex_entry8] ! 1) = int 1 + 1" unfolding lb by blast
  then have "Rank ([ex_entry7, ex_entry8] ! 1) = 2" by simp
  with ex_leaderboard s d l show ?thesis unfolding lb by blast
qed

subsection \<open>The rank of one student\<close>

text \<open>
  Claim C5, as stated: the rank returned by \<open>GetMyRank\<close> is the position of the student's
  best attempt in the leaderboard. In the worked scenario student 8's only completed
  attempt is the second leaderboard entry, with rank 2, and \<open>GetMyRank\<close> returns 1: no
  attempt has a higher score, or the same score and a lower time taken.
\<close>

theorem GetMyRank_position_counterexample:
  "reachable [ex_quiz] ex_users ex_db8 \<and>
   filter (\<lambda>a. QuizID a = 5 \<and> StudentID a = 8 \<and> CompletedAt a \<noteq> None) (attemptCollection ex_db8)
     = [ex_attempt8] \<and>
   GetQuizLeaderboard ex_db8 5 = Some (QuizLeaderboardReply 2 [ex_entry7, ex_entry8]) \<and>
   Entry_StudentID ex_entry7 = 7 \<and> Entry_StudentID ex_entry8 = 8 \<and> Rank ex_entry8 = 2 \<and>
   GetMyRank ex_db8 8 5 = Inr ex_rank8 \<and> reply_rank ex_rank8 = 1 \<and>
   reply_rank ex_rank8 \<noteq> Rank ex_entry8"
  using ex_db8_reachable ex_own8 ex_leaderboard ex_my_rank
  by (simp add: ex_entry7_def ex_entry8_def ex_rank8_def)

text \<open>
  Claim C5, amended. For a student without a completed attempt for the quiz \<open>GetMyRank\<close>
  answers not-found. Otherwise it returns the score and time taken of a completed attempt
  of the student that no completed attempt of the student outranks, and the rank is one
  plus the number of other completed attempts for the quiz that outrank it (higher score,
  or equal score and lower time taken). When every student with a completed attempt for
  the quiz has a user document, that rank is the rank of the first leaderboard entry with
  the same score and time taken: every entry before it has a higher score, or the same
  score and a lower time taken.
\<close>

theorem GetMyRank_counts_outranking:
  "(filter (\<lambda>a. QuizID a = q \<and> StudentID a = s \<and> CompletedAt a \<noteq> None) (attemptCollection db) = []
      \<longrightarrow> GetMyRank db s q = Inl (Failure StatusNotFound ''No completed attempts found'')) \<and>
   (filter (\<lambda>a. QuizID a = q \<and> StudentID a = s \<and> CompletedAt a \<noteq> None) (attemptCollection db) \<noteq> []
      \<longrightarrow> (\<exists>reply best.
             GetMyRank db s q = Inr reply \<and>
             best \<in> set (attemptCollection db) \<and>
             QuizID best = q \<and> StudentID best = s \<and> CompletedAt best \<noteq> None \<and>
             (\<forall>a\<in>set (attemptCollection db).
                QuizID a = q \<and> StudentID a = s \<and> CompletedAt a \<noteq> None \<longrightarrow> \<not> outranks a best) \<and>
             reply_score reply = TotalScore best \<and>
             reply_time_taken reply = TimeTaken best \<and>
             reply_rank reply =
               1 + int (length (filter (\<lambda>a. QuizID a = q \<and> CompletedAt a \<noteq> None \<and> a \<noteq> best \<and>
                                            outranks a best)
                                  (attemptCollection db))) \<and>
             ((\<forall>a\<in>set (attemptCollection db).
                 QuizID a = q \<and> CompletedAt a \<noteq> None \<longrightarrow> known_student (userCollection db) a) \<longrightarrow>
              (\<exists>lb. GetQuizLeaderboard db q = Some (QuizLeaderboardReply (int (length lb)) lb) \<and>
                    1 \<le> reply_rank reply \<and> nat (reply_rank reply) \<le> length lb \<and>
                    Rank (lb ! nat (reply_rank reply - 1)) = reply_rank reply \<and>
                    Score (lb ! nat (reply_rank reply - 1)) = reply_score reply \<and>
                    Entry_TimeTaken (lb ! nat (reply_rank reply - 1)) = reply_time_taken reply \<and>
                    (\<forall>i<nat (reply_rank reply - 1).
                       Score (lb ! i) > reply_score reply \<or>
                       (Score (lb ! i) = reply_score reply \<and>
                        Entry_TimeTaken (lb ! i) < reply_time_taken reply))))))"
proof (intro conjI impI)
  assume "filter (\<lambda>a. QuizID a = q \<and> StudentID a = s \<and> CompletedAt a \<noteq> None) (attemptCollection db) = []"
  then show "GetMyRank db s q = Inl (Failure StatusNotFound ''No completed attempts found'')"
    by (simp add: GetMyRank_def sort_by_score_time_def)
next
  let ?own = "\<lambda>a. QuizID a = q \<and> StudentID a = s \<and> CompletedAt a \<noteq> None"
  let ?all = "\<lambda>a. QuizID a = q \<and> CompletedAt a \<noteq> None"
  let ?coll = "attemptCollection db"
  let ?k = "\<lambda>a. (- TotalScore a, TimeTaken a)"
  assume "filter ?own ?coll \<noteq> []"
  then have "length (sort_by_score_time (filter ?own ?coll)) \<noteq> 0"
    by (simp add: sort_by_score_time_def)
  then obtain best rest where S: "sort_by_score_time (filter ?own ?coll) = best # rest"
    by (cases "sort_by_score_time (filter ?own ?coll)") auto
  from sort_by_score_time_head [OF S]
  have own: "best \<in> set ?coll" "?own best"
    and top: "\<forall>a\<in>set ?coll. ?own a \<longrightarrow> \<not> outranks a best"
    by auto
  define n where "n = length (filter (\<lambda>a. ?all a \<and> outranks a best) ?coll)"
  define reply where "reply = \<lparr>reply_rank = int n + 1,
      reply_total_participants = int (length (filter ?all ?coll)),
      reply_score = TotalScore best, reply_max_score = MaxScore best,
      reply_percentage = (if MaxScore best > 0 then (TotalScore best / MaxScore best) * 100 else 0.0),
      reply_time_taken = TimeTaken best\<rparr>"
  have run: "GetMyRank db s q = Inr reply"
    unfolding GetMyRank_def S reply_def n_def Let_def outranks_def
    by (simp add: conj_assoc)
  have v: "reply_rank reply = int n + 1" "reply_score reply = TotalScore best"
    "reply_time_taken reply = TimeTaken best"
    by (simp_all add: reply_def)
  have "\<not> outranks best best" by (simp add: outranks_def)
  then have "(\<lambda>a. ?all a \<and> a \<noteq> best \<and> outranks a best) = (\<lambda>a. ?all a \<and> outranks a best)"
    by auto
  then have count: "reply_rank reply =
               1 + int (length (filter (\<lambda>a. ?all a \<and> a \<noteq> best \<and> outranks a best) ?coll))"
    unfolding v n_def by simp
  have board: "\<exists>lb. GetQuizLeaderboard db q = Some (QuizLeaderboardReply (int (length lb)) lb) \<and>
                    1 \<le> reply_rank reply \<and> nat (reply_rank reply) \<le> length lb \<and>
                    Rank (lb ! nat (reply_rank reply - 1)) = reply_rank reply \<and>
                    Score (lb ! nat (reply_rank reply - 1)) = reply_score reply \<and>
                    Entry_TimeTaken (lb ! nat (reply_rank reply - 1)) = reply_time_taken reply \<and>
                    (\<forall>i<nat (reply_rank reply - 1).
                       Score (lb ! i) > reply_score reply \<or>
                       (Score (lb ! i) = reply_score reply \<and>
                        Entry_TimeTaken (lb ! i) < reply_time_taken reply))"
    if known: "\<forall>a\<in>set ?coll. ?all a \<longrightarrow> known_student (userCollection db) a"
  proof -
    let ?L = "sort_by_score_time (filter ?all ?coll)"
    have "\<forall>a\<in>set ?L. known_student (userCollection db) a"
      using known by (simp add: sort_by_score_time_def)
    then have all_known: "filter (known_student (userCollection db)) ?L = ?L"
      by (simp only: filter_True)
    from GetQuizLeaderboard_rows [of db q] obtain lb
      where lb: "GetQuizLeaderboard db q = Some (QuizLeaderboardReply (int (length lb)) lb)"
        and rows: "map entry_row lb = map attempt_row ?L"
        and ranks: "map Rank lb = map (\<lambda>i. 1 + int i) [0..<length lb]"
      unfolding all_known by blast
    from rows have len: "length lb = length ?L" by (rule map_eq_imp_length_eq)
    have bL: "best \<in> set ?L" using own by (simp add: sort_by_score_time_def)
    have "n = length (filter (\<lambda>a. outranks a best) (filter ?all ?coll))"
      unfolding n_def by (simp add: conj_commute)
    also have "\<dots> = length (filter (\<lambda>a. outranks a best) ?L)"
      by (simp only: length_filter_sort_by_score_time)
    also have "\<dots> = length (filter (\<lambda>a. ?k a < ?k best) ?L)"
      by (simp only: key_less_outranks)
    finally have n: "n = length (filter (\<lambda>a. ?k a < ?k best) ?L)" .
    from sorted_position [of ?k ?L best, OF sorted_sort_by_score_time bL, folded n]
    have lt: "n < length ?L" and at: "?k (?L ! n) = ?k best"
      and before: "\<forall>i<n. ?k (?L ! i) < ?k best"
      by blast+
    from at have at': "TotalScore (?L ! n) = TotalScore best" "TimeTaken (?L ! n) = TimeTaken best"
      by simp_all
    from ranks_positions(1) [OF ranks] lt len have rk: "Rank (lb ! n) = int n + 1" by simp
    have idx: "nat (reply_rank reply - 1) = n" "nat (reply_rank reply) = Suc n"
      unfolding v by simp_all
    have "\<forall>i<n. Score (lb ! i) > TotalScore best \<or>
                 (Score (lb ! i) = TotalScore best \<and> Entry_TimeTaken (lb ! i) < TimeTaken best)"
    proof (intro allI impI)
      fix i assume i: "i < n"
      with lt have il: "i < length ?L" by simp
      from before i have "outranks (?L ! i) best" by (simp only: key_less_outranks)
      then show "Score (lb ! i) > TotalScore best \<or>
                 (Score (lb ! i) = TotalScore best \<and> Entry_TimeTaken (lb ! i) < TimeTaken best)"
        unfolding row_fields [OF rows il] outranks_def .
    qed
    with lb lt len rk at' row_fields [OF rows lt] show ?thesis
      unfolding idx v by (intro exI [of _ lb]) simp
  qed
  show "\<exists>reply best.
             GetMyRank db s q = Inr reply \<and>
             best \<in> set (attemptCollection db) \<and>
             QuizID best = q \<and> StudentID best = s \<and> CompletedAt best \<noteq> None \<and>
             (\<forall>a\<in>set (attemptCollection db).
                QuizID a = q \<and> StudentID a = s \<and> CompletedAt a \<noteq> None \<longrightarrow> \<not> outranks a best) \<and>
             reply_score reply = TotalScore best \<and>
             reply_time_taken reply = TimeTaken best \<and>
             reply_rank reply =
               1 + int (length (filter (\<lambda>a. QuizID a = q \<and> CompletedAt a \<noteq> None \<and> a \<noteq> best \<and>
                                            outranks a best)
                                  (attemptCollection db))) \<and>
             ((\<forall>a\<in>set (attemptCollection db).
                 QuizID a = q \<and> CompletedAt a \<noteq> None \<longrightarrow> known_student (userCollection db) a) \<longrightarrow>
              (\<exists>lb. GetQuizLeaderboard db q = Some (QuizLeaderboardReply (int (length lb)) lb) \<and>
                    1 \<le> reply_rank reply \<and> nat (reply_rank reply) \<le> length lb \<and>
                    Rank (lb ! nat (reply_rank reply - 1)) = reply_rank reply \<and>
                    Score (lb ! nat (reply_rank reply - 1)) = reply_score reply \<and>
                    Entry_TimeTaken (lb ! nat (reply_rank reply - 1)) = reply_time_taken reply \<and>
                    (\<forall>i<nat (reply_rank reply - 1).
                       Score (lb ! i) > reply_score reply \<or>
                       (Score (lb ! i) = reply_score reply \<and>
                        Entry_TimeTaken (lb ! i) < reply_time_taken reply))))"
  proof (intro exI [of _ reply] exI [of _ best] conjI impI)
    show "GetMyRank db s q = Inr reply" by (rule run)
    show "best \<in> set ?coll" by (rule own(1))
    show "QuizID best = q" "StudentID best = s" "CompletedAt best \<noteq> None"
      using own(2) by simp_all
    show "\<forall>a\<in>set ?coll. ?own a \<longrightarrow> \<not> outranks a best" by (rule top)
    show "reply_score reply = TotalScore best" by (rule v(2))
    show "reply_time_taken reply = TimeTaken best" by (rule v(3))
    show "reply_rank reply =
            1 + int (length (filter (\<lambda>a. QuizID a = q \<and> CompletedAt a \<noteq> None \<and> a \<noteq> best \<and>
                                         outranks a best) ?coll))"
      using count by (simp add: conj_assoc)
  next
    assume "\<forall>a\<in>set ?coll. ?all a \<longrightarrow> known_student (userCollection db) a"
    then show "\<exists>lb. GetQuizLeaderboard db q = Some (QuizLeaderboardReply (int (length lb)) lb) \<and>
                    1 \<le> reply_rank reply \<and> nat (reply_rank reply) \<le> length lb \<and>
                    Rank (lb ! nat (reply_rank reply - 1)) = reply_rank reply \<and>
                    Score (lb ! nat (reply_rank reply - 1)) = reply_score reply \<and>
                    Entry_TimeTaken (lb ! nat (reply_rank reply - 1)) = reply_time_taken reply \<and>
                    (\<forall>i<nat (reply_rank reply - 1).
                       Score (lb ! i) > reply_score reply \<or>
                       (Score (lb ! i) = reply_score reply \<and>
                        Entry_TimeTaken (lb ! i) < reply_time_taken reply))"
      by (rule board)
  qed
qed

theorem GetMyRank_counts_outranking_witness:
  "filter (\<lambda>a. QuizID a = 5 \<and> StudentID a = 8 \<and> CompletedAt a \<noteq> None) (attemptCollection ex_db8)
     = [ex_attempt8] \<and>
   list_all (known_student (userCollection ex_db8)) (attemptCollection ex_db8) \<and>
   GetMyRank ex_db8 8 5 = Inr ex_rank8 \<and>
   GetQuizLeaderboard ex_db8 5 = Some (QuizLeaderboardReply 2 [ex_entry7, ex_entry8]) \<and>
   nat (reply_rank ex_rank8 - 1) = 0 \<and>
   Rank ([ex_entry7, ex_entry8] ! nat (reply_rank ex_rank8 - 1)) = reply_rank ex_rank8 \<and>
   Score ([ex_entry7, ex_entry8] ! nat (reply_rank ex_rank8 - 1)) = reply_score ex_rank8 \<and>
   Entry_TimeTaken ([ex_entry7, ex_entry8] ! nat (reply_rank ex_rank8 - 1)) = reply_time_taken ex_rank8 \<and>
   filter (\<lambda>a. QuizID a = 5 \<and> StudentID a = 9 \<and> CompletedAt a \<noteq> None) (attemptCollection ex_db8) = [] \<and>
   GetMyRank ex_db8 9 5 = Inl (Failure StatusNotFound ''No completed attempts found'')"
proof -
  have k: "list_all (known_student (userCollection ex_db8)) (attemptCollection ex_db8)"
    by (simp add: known_student_def ex_db8_value ex_db0_def ex_users_def ex_attempt7_def
        ex_attempt8_def ex_attempt3_def ex_attempt1_def)
  then have k': "\<forall>a\<in>set (attemptCollection ex_db8).
                   QuizID a = 5 \<and> CompletedAt a \<noteq> None \<longrightarrow> known_student (userCollection ex_db8) a"
    by (simp add: list_all_iff)
  have ne: "filter (\<lambda>a. QuizID a = 5 \<and> StudentID a = 8 \<and> CompletedAt a \<noteq> None)
              (attemptCollection ex_db8) \<noteq> []"
    unfolding ex_own8 by simp
  have none: "filter (\<lambda>a. QuizID a = 5 \<and> StudentID a = 9 \<and> CompletedAt a \<noteq> None)
                (attemptCollection ex_db8) = []"
    by (simp add: ex_db8_value ex_attempt7_def ex_attempt8_def ex_attempt3_def ex_attempt1_def)
  from GetMyRank_counts_outranking [of 5 8 ex_db8] ne k' obtain reply lb
    where r: "GetMyRank ex_db8 8 5 = Inr reply"
      and l: "GetQuizLeaderboard ex_db8 5 = Some (QuizLeaderboardReply (int (length lb)) lb)"
      and p: "Rank (lb ! nat (reply_rank reply - 1)) = reply_rank reply"
        "Score (lb ! nat (reply_rank reply - 1)) = reply_score reply"
        "Entry_TimeTaken (lb ! nat (reply_rank reply - 1)) = reply_time_taken reply"
    by blast
  from r ex_my_rank have reply: "reply = ex_rank8" by simp
  from l ex_leaderboard have lb: "lb = [ex_entry7, ex_entry8]" by simp
  have z: "nat (reply_rank ex_rank8 - 1) = 0" by (simp add: ex_rank8_def)
  from GetMyRank_counts_outranking [of 5 9 ex_db8] none
  have nf: "GetMyRank ex_db8 9 5 = Inl (Failure StatusNotFound ''No completed attempts found'')"
    by blast
  from ex_own8 k ex_my_rank ex_leaderboard z p [unfolded reply lb] none nf
  show ?thesis by blast
qed

subsection \<open>Total score and maximum score\<close>

text \<open>
  Claim C6, at a large number of points. The state reached by one \<open>StartAttempt\<close> and
  one \<open>SubmitAnswer\<close> on the quiz of one question worth 360287970189643 points holds an
  attempt whose total score is above its maximum score by one sixteenth: the maximum score
  is the points of the question, and the points earned for the correct answer in 3
  seconds are \<open>CalculateScore\<close>'s quotient by 100 of the rounded product by 100.
\<close>

theorem total_score_exceeds_max_score:
  "reachable [ex_big_quiz] ex_users ex_big_db2 \<and>
   map (\<lambda>a. (TotalScore a, MaxScore a)) (attemptCollection ex_big_db2)
     = [(360287970189643 + 1 / 16, 360287970189643)] \<and>
   \<not> list_all (\<lambda>a. TotalScore a \<le> MaxScore a) (attemptCollection ex_big_db2)"
proof -
  have "reachable [ex_big_quiz] ex_users ex_big_db2"
    unfolding ex_big_db2_def ex_big_db1_def ex_big_db0_def by (intro reachable.intros)
  then show ?thesis by (simp add: ex_big_db2_value)
qed

subsection \<open>One attempt in progress per student and quiz\<close>

text \<open>
  Claim C7, as stated: \<open>StartAttempt\<close> rejects with a conflict whenever an attempt of the
  student at the quiz is in progress. In the state where student 7 has attempt 100 in
  progress at quiz 5, a second request for which the course service answers that the
  course is not completed is answered 403, by the check that precedes the lookup of
  the ongoing attempt. And when that lookup ends in an error, the second request creates
  attempt 101: a reachable state with two attempts of student 7 in progress at quiz 5.
\<close>

theorem StartAttempt_conflict_counterexample:
  "reachable [ex_quiz] ex_users ex_db1 \<and>
   find (\<lambda>a. QuizID a = 5 \<and> StudentID a = 7 \<and> CompletedAt a = None) (attemptCollection ex_db1)
     = Some ex_attempt1 \<and>
   fst (StartAttempt ex_db1 7 5 (\<lambda>_ _. Some False) False 101 5000)
     = Inl (Failure StatusForbidden
         ''You must complete the required course before attempting this quiz'') \<and>
   fst (StartAttempt ex_db1 7 5 (\<lambda>_ _. Some False) False 101 5000)
     \<noteq> Inl (Failure StatusConflict ''You already have an ongoing attempt for this quiz'') \<and>
   reachable [ex_quiz] ex_users ex_db1_twice \<and>
   filter (\<lambda>a. StudentID a = 7 \<and> QuizID a = 5 \<and> CompletedAt a = None)
     (attemptCollection ex_db1_twice)
     = [ex_attempt1, ex_attempt1\<lparr>Attempt_ID := 101, StartedAt := 5000\<rparr>]"
proof -
  have f: "find (\<lambda>a. QuizID a = 5 \<and> StudentID a = 7 \<and> CompletedAt a = None)
             (attemptCollection ex_db1) = Some ex_attempt1"
    by (simp add: ex_db1_value ex_attempt1_def)
  have r: "fst (StartAttempt ex_db1 7 5 (\<lambda>_ _. Some False) False 101 5000)
     = Inl (Failure StatusForbidden
         ''You must complete the required course before attempting this quiz'')"
    by (simp add: ex_db1_value ex_db0_def ex_quiz_def StartAttempt_def StatusApproved_def)
  have t: "reachable [ex_quiz] ex_users ex_db1_twice"
    unfolding ex_db1_twice_def by (intro reachable_start ex_db1_reachable)
  have two: "filter (\<lambda>a. StudentID a = 7 \<and> QuizID a = 5 \<and> CompletedAt a = None)
     (attemptCollection ex_db1_twice)
     = [ex_attempt1, ex_attempt1\<lparr>Attempt_ID := 101, StartedAt := 5000\<rparr>]"
    by (simp add: ex_db1_twice_value ex_attempt1_def)
  from ex_db1_reachable f r t two show ?thesis by simp
qed

text \<open>
  Claim C7, amended. In every state reached by requests to the three handlers during which
  no lookup of an ongoing attempt ends in an error, at most one attempt without a
  completion timestamp exists for each student and quiz. When one exists, \<open>StartAttempt\<close>
  for that student and quiz (its lookup answering) fails and leaves the store unchanged,
  and the failure is the conflict reply exactly when the checks that precede the lookup in
  the handler pass: the quiz is found and approved and the course is completed. When
  \<open>StartAttempt\<close> succeeds, no such attempt existed, and the store gains exactly the new
  attempt, which is in progress.
\<close>

theorem StartAttempt_one_in_progress:
  assumes "reachable_no_lookup_error qs us db"
  shows "length (filter (\<lambda>a. StudentID a = s \<and> QuizID a = q \<and> CompletedAt a = None)
                   (attemptCollection db)) \<le> 1 \<and>
         (find (\<lambda>a. QuizID a = q \<and> StudentID a = s \<and> CompletedAt a = None) (attemptCollection db) \<noteq> None \<longrightarrow>
            isl (fst (StartAttempt db s q courseService False newID now)) \<and>
            snd (StartAttempt db s q courseService False newID now) = db \<and>
            (fst (StartAttempt db s q courseService False newID now)
               = Inl (Failure StatusConflict ''You already have an ongoing attempt for this quiz'')
             \<longleftrightarrow> (\<exists>quiz. find (\<lambda>x. Quiz_ID x = q) (quizCollection db) = Some quiz \<and>
                     Status quiz = StatusApproved \<and> courseService s (CourseID quiz) = Some True))) \<and>
         (\<forall>r. fst (StartAttempt db s q courseService False newID now) = Inr r \<longrightarrow>
            find (\<lambda>a. QuizID a = q \<and> StudentID a = s \<and> CompletedAt a = None) (attemptCollection db) = None \<and>
            attemptCollection (snd (StartAttempt db s q courseService False newID now)) = attemptCollection db @ [fst r] \<and>
            StudentID (fst r) = s \<and> QuizID (fst r) = q \<and> CompletedAt (fst r) = None)"
proof (intro conjI)
  show "length (filter (\<lambda>a. StudentID a = s \<and> QuizID a = q \<and> CompletedAt a = None)
                   (attemptCollection db)) \<le> 1"
    using assms by (rule reachable_one_in_progress)
  show "find (\<lambda>a. QuizID a = q \<and> StudentID a = s \<and> CompletedAt a = None) (attemptCollection db) \<noteq> None \<longrightarrow>
            isl (fst (StartAttempt db s q courseService False newID now)) \<and>
            snd (StartAttempt db s q courseService False newID now) = db \<and>
            (fst (StartAttempt db s q courseService False newID now)
               = Inl (Failure StatusConflict ''You already have an ongoing attempt for this quiz'')
             \<longleftrightarrow> (\<exists>quiz. find (\<lambda>x. Quiz_ID x = q) (quizCollection db) = Some quiz \<and>
                     Status quiz = StatusApproved \<and> courseService s (CourseID quiz) = Some True))"
    unfolding StartAttempt_def Let_def
    by (auto split: option.splits)
  show "\<forall>r. fst (StartAttempt db s q courseService False newID now) = Inr r \<longrightarrow>
            find (\<lambda>a. QuizID a = q \<and> StudentID a = s \<and> CompletedAt a = None) (attemptCollection db) = None \<and>
            attemptCollection (snd (StartAttempt db s q courseService False newID now)) = attemptCollection db @ [fst r] \<and>
            StudentID (fst r) = s \<and> QuizID (fst r) = q \<and> CompletedAt (fst r) = None"
    unfolding StartAttempt_def Let_def InsertOne_def
    by (auto split: option.splits if_splits)
qed

theorem StartAttempt_one_in_progress_witness:
  "reachable_no_lookup_error [ex_quiz] ex_users ex_db1 \<and>
   find (\<lambda>a. QuizID a = 5 \<and> StudentID a = 7 \<and> CompletedAt a = None) (attemptCollection ex_db1)
     = Some ex_attempt1 \<and>
   length (filter (\<lambda>a. StudentID a = 7 \<and> QuizID a = 5 \<and> CompletedAt a = None)
             (attemptCollection ex_db1)) \<le> 1 \<and>
   fst (StartAttempt ex_db1 7 5 (\<lambda>_ _. Some True) False 101 5000)
     = Inl (Failure StatusConflict ''You already have an ongoing attempt for this quiz'') \<and>
   snd (StartAttempt ex_db1 7 5 (\<lambda>_ _. Some True) False 101 5000) = ex_db1 \<and>
   isl (fst (StartAttempt ex_db1 7 5 (\<lambda>_ _. Some False) False 101 5000)) \<and>
   snd (StartAttempt ex_db1 7 5 (\<lambda>_ _. Some False) False 101 5000) = ex_db1 \<and>
   reachable_no_lookup_error [ex_quiz] ex_users ex_db0 \<and>
   fst (StartAttempt ex_db0 7 5 (\<lambda>_ _. Some True) False 100 1000)
     = Inr (ex_attempt1, ex_quiz\<lparr>Questions := map (\<lambda>q. q\<lparr>CorrectAnswer := AnyNil\<rparr>) (Questions ex_quiz)\<rparr>) \<and>
   find (\<lambda>a. QuizID a = 5 \<and> StudentID a = 7 \<and> CompletedAt a = None) (attemptCollection ex_db0) = None \<and>
   attemptCollection (snd (StartAttempt ex_db0 7 5 (\<lambda>_ _. Some True) False 100 1000))
     = attemptCollection ex_db0 @ [ex_attempt1]"
proof -
  have f: "find (\<lambda>a. QuizID a = 5 \<and> StudentID a = 7 \<and> CompletedAt a = None) (attemptCollection ex_db1)
             = Some ex_attempt1"
    by (simp add: ex_db1_value ex_attempt1_def)
  have qz: "\<exists>quiz. find (\<lambda>x. Quiz_ID x = 5) (quizCollection ex_db1) = Some quiz \<and>
                   Status quiz = StatusApproved \<and> (\<lambda>_ _. Some True) 7 (CourseID quiz) = Some True"
    by (simp add: ex_db1_value ex_db0_def ex_quiz_def)
  note busy = StartAttempt_one_in_progress [OF ex_db1_no_lookup_error, of 7 5 "\<lambda>_ _. Some True" 101 5000]
  note late = StartAttempt_one_in_progress [OF ex_db1_no_lookup_error, of 7 5 "\<lambda>_ _. Some False" 101 5000]
  note free = StartAttempt_one_in_progress [OF ex_db0_no_lookup_error, of 7 5 "\<lambda>_ _. Some True" 100 1000]
  from busy f qz have b:
    "length (filter (\<lambda>a. StudentID a = 7 \<and> QuizID a = 5 \<and> CompletedAt a = None)
             (attemptCollection ex_db1)) \<le> 1"
    "fst (StartAttempt ex_db1 7 5 (\<lambda>_ _. Some True) False 101 5000)
       = Inl (Failure StatusConflict ''You already have an ongoing attempt for this quiz'')"
    "snd (StartAttempt ex_db1 7 5 (\<lambda>_ _. Some True) False 101 5000) = ex_db1"
    by simp_all
  from late f have l:
    "isl (fst (StartAttempt ex_db1 7 5 (\<lambda>_ _. Some False) False 101 5000))"
    "snd (StartAttempt ex_db1 7 5 (\<lambda>_ _. Some False) False 101 5000) = ex_db1"
    by simp_all
  from free ex_start_value have c:
    "find (\<lambda>a. QuizID a = 5 \<and> StudentID a = 7 \<and> CompletedAt a = None) (attemptCollection ex_db0) = None"
    "attemptCollection (snd (StartAttempt ex_db0 7 5 (\<lambda>_ _. Some True) False 100 1000))
       = attemptCollection ex_db0 @ [ex_attempt1]"
    by simp_all
  from ex_db1_no_lookup_error f b l ex_db0_no_lookup_error ex_start_value c show ?thesis by blast
qed

subsection \<open>Atomicity of answer submission\<close>

text \<open>
  Claim C8. In a store whose attempt identifiers are distinct (the unique index on
  \<^verbatim>\<open>_id\<close>), a \<open>SubmitAnswer\<close> call that fails leaves the store unchanged, and a call
  that succeeds replaces the caller's in-progress attempt by the same attempt with one
  answer appended and the total score raised by the points earned, and changes nothing
  else. The call fails when the attempt is not found or not owned, already completed,
  when the question is not in the quiz, when an answer for the question is already
  recorded, and when the time limit is exceeded.
\<close>

theorem SubmitAnswer_atomic:
  assumes "distinct (map Attempt_ID (attemptCollection db))"
  shows "(isl (fst (SubmitAnswer db s req now)) \<longrightarrow> snd (SubmitAnswer db s req now) = db) \<and>
         (\<forall>reply. fst (SubmitAnswer db s req now) = Inr reply \<longrightarrow>
            (\<exists>attempt answer.
               find (\<lambda>a. Attempt_ID a = req_AttemptID req \<and> StudentID a = s) (attemptCollection db)
                 = Some attempt \<and>
               CompletedAt attempt = None \<and>
               QuestionID answer = req_QuestionID req \<and>
               IsCorrect answer = is_correct reply \<and>
               PointsEarned answer = points_earned reply \<and>
               snd (SubmitAnswer db s req now) =
                 db\<lparr>attemptCollection :=
                      map (\<lambda>a. if a = attempt
                                then attempt\<lparr>Answers := Answers attempt @ [answer],
                                             TotalScore := TotalScore attempt + points_earned reply\<rparr>
                                else a)
                        (attemptCollection db)\<rparr>)) \<and>
         (find (\<lambda>a. Attempt_ID a = req_AttemptID req \<and> StudentID a = s) (attemptCollection db) = None
            \<longrightarrow> isl (fst (SubmitAnswer db s req now))) \<and>
         (\<forall>attempt. find (\<lambda>a. Attempt_ID a = req_AttemptID req \<and> StudentID a = s) (attemptCollection db)
                      = Some attempt \<longrightarrow>
            (CompletedAt attempt \<noteq> None \<longrightarrow> isl (fst (SubmitAnswer db s req now))) \<and>
            (find (\<lambda>ans. QuestionID ans = req_QuestionID req) (Answers attempt) \<noteq> None
               \<longrightarrow> isl (fst (SubmitAnswer db s req now))) \<and>
            (\<forall>quiz. find (\<lambda>q. Quiz_ID q = QuizID attempt) (quizCollection db) = Some quiz \<longrightarrow>
               (find (\<lambda>q. Question_ID q = req_QuestionID req) (Questions quiz) = None
                  \<longrightarrow> isl (fst (SubmitAnswer db s req now))) \<and>
               (\<forall>question. find (\<lambda>q. Question_ID q = req_QuestionID req) (Questions quiz) = Some question \<and>
                    TimeLimit question < req_TimeToAnswer req
                  \<longrightarrow> isl (fst (SubmitAnswer db s req now)))))"
proof (intro conjI)
  show "isl (fst (SubmitAnswer db s req now)) \<longrightarrow> snd (SubmitAnswer db s req now) = db"
    unfolding SubmitAnswer_def Let_def by (auto split: option.splits)
next
  show "\<forall>reply. fst (SubmitAnswer db s req now) = Inr reply \<longrightarrow>
            (\<exists>attempt answer.
               find (\<lambda>a. Attempt_ID a = req_AttemptID req \<and> StudentID a = s) (attemptCollection db)
                 = Some attempt \<and>
               CompletedAt attempt = None \<and>
               QuestionID answer = req_QuestionID req \<and>
               IsCorrect answer = is_correct reply \<and>
               PointsEarned answer = points_earned reply \<and>
               snd (SubmitAnswer db s req now) =
                 db\<lparr>attemptCollection :=
                      map (\<lambda>a. if a = attempt
                                then attempt\<lparr>Answers := Answers attempt @ [answer],
                                             TotalScore := TotalScore attempt + points_earned reply\<rparr>
                                else a)
                        (attemptCollection db)\<rparr>)"
  proof (intro allI impI)
    fix reply
    assume ok: "fst (SubmitAnswer db s req now) = Inr reply"
    then obtain attempt quiz question
      where found: "find (\<lambda>a. Attempt_ID a = req_AttemptID req \<and> StudentID a = s)
                      (attemptCollection db) = Some attempt"
        and open_: "CompletedAt attempt = None"
        and quiz: "find (\<lambda>q. Quiz_ID q = QuizID attempt) (quizCollection db) = Some quiz"
        and question: "find (\<lambda>q. Question_ID q = req_QuestionID req) (Questions quiz) = Some question"
      unfolding SubmitAnswer_def Let_def
      by (auto split: option.splits if_splits)
    let ?c = "req_Answer req = correctAnswerStr (CorrectAnswer question)"
    let ?p = "CalculateScore (Points question) (req_TimeToAnswer req) ?c"
    let ?answer = "\<lparr>QuestionID = req_QuestionID req, StudentAnswer = AnyString (req_Answer req),
                     IsCorrect = ?c, TimeToAnswer = req_TimeToAnswer req, PointsEarned = ?p,
                     AnsweredAt = now\<rparr>"
    from ok found open_ quiz question have reply: "reply = SubmitAnswerReply ?c ?p"
      unfolding SubmitAnswer_def Let_def by (auto split: if_splits)
    from ok found open_ quiz question have st: "snd (SubmitAnswer db s req now) =
        db\<lparr>attemptCollection :=
             UpdateOne (\<lambda>a. Attempt_ID a = req_AttemptID req)
               (\<lambda>a. a\<lparr>Answers := Answers a @ [?answer], TotalScore := TotalScore a + ?p\<rparr>)
               (attemptCollection db)\<rparr>"
      unfolding SubmitAnswer_def Let_def by (auto split: if_splits)
    from found have mem: "attempt \<in> set (attemptCollection db)"
      and k: "Attempt_ID attempt = req_AttemptID req"
      by (auto dest: find_Some_mem)
    have "snd (SubmitAnswer db s req now) =
                 db\<lparr>attemptCollection :=
                      map (\<lambda>a. if a = attempt
                                then attempt\<lparr>Answers := Answers attempt @ [?answer],
                                             TotalScore := TotalScore attempt + points_earned reply\<rparr>
                                else a)
                        (attemptCollection db)\<rparr>"
      unfolding st UpdateOne_map [OF assms] map_update_owner [OF assms mem k] reply by simp
    moreover have "QuestionID ?answer = req_QuestionID req" "IsCorrect ?answer = is_correct reply"
      "PointsEarned ?answer = points_earned reply"
      by (simp_all add: reply)
    ultimately show "\<exists>attempt answer.
               find (\<lambda>a. Attempt_ID a = req_AttemptID req \<and> StudentID a = s) (attemptCollection db)
                 = Some attempt \<and>
               CompletedAt attempt = None \<and>
               QuestionID answer = req_QuestionID req \<and>
               IsCorrect answer = is_correct reply \<and>
               PointsEarned answer = points_earned reply \<and>
               snd (SubmitAnswer db s req now) =
                 db\<lparr>attemptCollection :=
                      map (\<lambda>a. if a = attempt
                                then attempt\<lparr>Answers := Answers attempt @ [answer],
                                             TotalScore := TotalScore attempt + points_earned reply\<rparr>
                                else a)
                        (attemptCollection db)\<rparr>"
      using found open_ by blast
  qed
next
  show "find (\<lambda>a. Attempt_ID a = req_AttemptID req \<and> StudentID a = s) (attemptCollection db) = None
            \<longrightarrow> isl (fst (SubmitAnswer db s req now))"
    unfolding SubmitAnswer_def Let_def by simp
next
  show "\<forall>attempt. find (\<lambda>a. Attempt_ID a = req_AttemptID req \<and> StudentID a = s) (attemptCollection db)
                      = Some attempt \<longrightarrow>
            (CompletedAt attempt \<noteq> None \<longrightarrow> isl (fst (SubmitAnswer db s req now))) \<and>
            (find (\<lambda>ans. QuestionID ans = req_QuestionID req) (Answers attempt) \<noteq> None
               \<longrightarrow> isl (fst (SubmitAnswer db s req now))) \<and>
            (\<forall>quiz. find (\<lambda>q. Quiz_ID q = QuizID attempt) (quizCollection db) = Some quiz \<longrightarrow>
               (find (\<lambda>q. Question_ID q = req_QuestionID req) (Questions quiz) = None
                  \<longrightarrow> isl (fst (SubmitAnswer db s req now))) \<and>
               (\<forall>question. find (\<lambda>q. Question_ID q = req_QuestionID req) (Questions quiz) = Some question \<and>
                    TimeLimit question < req_TimeToAnswer req
                  \<longrightarrow> isl (fst (SubmitAnswer db s req now))))"
    unfolding SubmitAnswer_def Let_def by (auto split: option.splits)
qed

theorem SubmitAnswer_atomic_witness:
  "distinct (map Attempt_ID (attemptCollection ex_db1)) \<and>
   fst (SubmitAnswer ex_db1 7 (ex_answer 100 11 ''true'' 5) 2000)
     = Inr (SubmitAnswerReply True (10)) \<and>
   (\<exists>attempt answer.
      find (\<lambda>a. Attempt_ID a = 100 \<and> StudentID a = 7) (attemptCollection ex_db1) = Some attempt \<and>
      CompletedAt attempt = None \<and> QuestionID answer = 11 \<and> IsCorrect answer = True \<and>
      PointsEarned answer = 10 \<and>
      snd (SubmitAnswer ex_db1 7 (ex_answer 100 11 ''true'' 5) 2000) =
        ex_db1\<lparr>attemptCollection :=
                 map (\<lambda>a. if a = attempt
                           then attempt\<lparr>Answers := Answers attempt @ [answer],
                                        TotalScore := TotalScore attempt + 10\<rparr>
                           else a)
                   (attemptCollection ex_db1)\<rparr>) \<and>
   distinct (map Attempt_ID (attemptCollection ex_db2)) \<and>
   find (\<lambda>a. Attempt_ID a = 100 \<and> StudentID a = 7) (attemptCollection ex_db2)
     = Some (ex_attempt1\<lparr>Answers := [ex_answer1], TotalScore := 10\<rparr>) \<and>
   find (\<lambda>ans. QuestionID ans = 11) (Answers (ex_attempt1\<lparr>Answers := [ex_answer1], TotalScore := 10\<rparr>))
     = Some ex_answer1 \<and>
   isl (fst (SubmitAnswer ex_db2 7 (ex_answer 100 11 ''false'' 3) 2500)) \<and>
   snd (SubmitAnswer ex_db2 7 (ex_answer 100 11 ''false'' 3) 2500) = ex_db2"
proof -
  have d1: "distinct (map Attempt_ID (attemptCollection ex_db1))"
    by (simp add: ex_db1_value)
  have d2: "distinct (map Attempt_ID (attemptCollection ex_db2))"
    by (simp add: ex_db2_value)
  have ok: "fst (SubmitAnswer ex_db1 7 (ex_answer 100 11 ''true'' 5) 2000)
              = Inr (SubmitAnswerReply True (10))"
    by (simp add: ex_db1_value ex_db0_def ex_quiz_def ex_attempt1_def ex_answer_def
        SubmitAnswer_def correctAnswerStr_def ex_score1 Let_def)
  have f: "find (\<lambda>a. Attempt_ID a = 100 \<and> StudentID a = 7) (attemptCollection ex_db2)
             = Some (ex_attempt1\<lparr>Answers := [ex_answer1], TotalScore := 10\<rparr>)"
    by (simp add: ex_db2_value ex_attempt1_def)
  have dup: "find (\<lambda>ans. QuestionID ans = 11)
               (Answers (ex_attempt1\<lparr>Answers := [ex_answer1], TotalScore := 10\<rparr>)) = Some ex_answer1"
    by (simp add: ex_answer1_def)
  note good = SubmitAnswer_atomic [OF d1, of 7 "ex_answer 100 11 ''true'' 5" 2000]
  note bad = SubmitAnswer_atomic [OF d2, of 7 "ex_answer 100 11 ''false'' 3" 2500]
  from good ok have g: "\<exists>attempt answer.
      find (\<lambda>a. Attempt_ID a = 100 \<and> StudentID a = 7) (attemptCollection ex_db1) = Some attempt \<and>
      CompletedAt attempt = None \<and> QuestionID answer = 11 \<and> IsCorrect answer = True \<and>
      PointsEarned answer = 10 \<and>
      snd (SubmitAnswer ex_db1 7 (ex_answer 100 11 ''true'' 5) 2000) =
        ex_db1\<lparr>attemptCollection :=
                 map (\<lambda>a. if a = attempt
                           then attempt\<lparr>Answers := Answers attempt @ [answer],
                                        TotalScore := TotalScore attempt + 10\<rparr>
                           else a)
                   (attemptCollection ex_db1)\<rparr>"
    by (simp add: ex_answer_def cong: if_cong)
  from bad f dup have b: "isl (fst (SubmitAnswer ex_db2 7 (ex_answer 100 11 ''false'' 3) 2500))"
    by (simp add: ex_answer_def)
  with bad have u: "snd (SubmitAnswer ex_db2 7 (ex_answer 100 11 ''false'' 3) 2500) = ex_db2"
    by blast
  from d1 ok g d2 f dup b u show ?thesis by blast
qed

subsection \<open>Completing an attempt\<close>

text \<open>
  Claim C9. In every reachable state, \<open>CompleteAttempt\<close> on the caller's in-progress
  attempt succeeds, whatever the number of answers: it sets the completion timestamp to
  the current time and the time taken to the elapsed time between start and completion
  in whole seconds, the fraction dropped, and changes no other field, so that the total
  score remains the sum of the points earned by the recorded answers and the maximum
  score remains as it was. On an attempt that is already completed it is rejected and
  the store is unchanged.
\<close>

theorem CompleteAttempt_finalizes:
  assumes "reachable qs us db"
    and "find (\<lambda>a. Attempt_ID a = oid \<and> StudentID a = s) (attemptCollection db) = Some attempt"
  shows "(CompletedAt attempt = None \<longrightarrow>
            (\<exists>done. CompleteAttempt db s oid now =
                       (Inr done, db\<lparr>attemptCollection :=
                                      map (\<lambda>a. if a = attempt then done else a) (attemptCollection db)\<rparr>) \<and>
                    done = attempt\<lparr>CompletedAt := Some now, TimeTaken := TimeTaken done\<rparr> \<and>
                    (StartedAt attempt \<le> now \<longrightarrow> TimeTaken done = (now - StartedAt attempt) div 1000) \<and>
                    (now < StartedAt attempt \<longrightarrow> TimeTaken done = - ((StartedAt attempt - now) div 1000)) \<and>
                    TotalScore done = sum_list (map PointsEarned (Answers done)) \<and>
                    MaxScore done = MaxScore attempt)) \<and>
         (CompletedAt attempt \<noteq> None \<longrightarrow>
            CompleteAttempt db s oid now
              = (Inl (Failure StatusBadRequest ''Attempt already completed''), db))"
proof (intro conjI impI)
  assume "CompletedAt attempt \<noteq> None"
  with assms(2) show "CompleteAttempt db s oid now
              = (Inl (Failure StatusBadRequest ''Attempt already completed''), db)"
    unfolding CompleteAttempt_def by auto
next
  assume open_: "CompletedAt attempt = None"
  from reachable_db_ok [OF assms(1)] have d: "distinct (map Attempt_ID (attemptCollection db))"
    and all: "\<forall>a\<in>set (attemptCollection db). attempt_ok qs a"
    by (simp_all add: db_ok_def)
  from assms(2) have mem: "attempt \<in> set (attemptCollection db)" and k: "Attempt_ID attempt = oid"
    by (auto dest: find_Some_mem)
  from all mem have total: "TotalScore attempt = sum_list (map PointsEarned (Answers attempt))"
    by (auto simp: attempt_ok_def split: option.splits)
  define t where "t = go_int (of_int (now - StartedAt attempt) / 1000)"
  let ?f = "\<lambda>a. a\<lparr>CompletedAt := Some now, TimeTaken := t\<rparr>"
  have upd: "UpdateOne (\<lambda>a. Attempt_ID a = oid) ?f (attemptCollection db)
               = map (\<lambda>a. if a = attempt then ?f attempt else a) (attemptCollection db)"
    unfolding UpdateOne_map [OF d] by (rule map_update_owner [OF d mem k])
  have "find (\<lambda>b. Attempt_ID b = Attempt_ID attempt)
          (map (\<lambda>b. if b = attempt then ?f attempt else b) (attemptCollection db)) = Some (?f attempt)"
    by (rule find_map_update [OF d mem]) simp
  then have refetch: "find (\<lambda>b. Attempt_ID b = oid)
          (map (\<lambda>b. if b = attempt then ?f attempt else b) (attemptCollection db)) = Some (?f attempt)"
    unfolding k .
  have run: "CompleteAttempt db s oid now =
               (Inr (?f attempt), db\<lparr>attemptCollection :=
                                      map (\<lambda>a. if a = attempt then ?f attempt else a) (attemptCollection db)\<rparr>)"
    unfolding CompleteAttempt_def Let_def t_def
    using assms(2) open_
    by (simp add: upd [unfolded t_def] refetch [unfolded t_def] del: of_int_diff)
  have t1: "StartedAt attempt \<le> now \<longrightarrow> t = (now - StartedAt attempt) div 1000"
    unfolding t_def using go_int_seconds(1) [of "now - StartedAt attempt"] by simp
  have t2: "now < StartedAt attempt \<longrightarrow> t = - ((StartedAt attempt - now) div 1000)"
    unfolding t_def using go_int_seconds(2) [of "now - StartedAt attempt"] by simp
  show "\<exists>done. CompleteAttempt db s oid now =
                       (Inr done, db\<lparr>attemptCollection :=
                                      map (\<lambda>a. if a = attempt then done else a) (attemptCollection db)\<rparr>) \<and>
                    done = attempt\<lparr>CompletedAt := Some now, TimeTaken := TimeTaken done\<rparr> \<and>
                    (StartedAt attempt \<le> now \<longrightarrow> TimeTaken done = (now - StartedAt attempt) div 1000) \<and>
                    (now < StartedAt attempt \<longrightarrow> TimeTaken done = - ((StartedAt attempt - now) div 1000)) \<and>
                    TotalScore done = sum_list (map PointsEarned (Answers done)) \<and>
                    MaxScore done = MaxScore attempt"
  proof (intro exI [of _ "?f attempt"] conjI)
    show "CompleteAttempt db s oid now =
               (Inr (?f attempt), db\<lparr>attemptCollection :=
                                      map (\<lambda>a. if a = attempt then ?f attempt else a) (attemptCollection db)\<rparr>)"
      by (rule run)
    show "?f attempt = attempt\<lparr>CompletedAt := Some now, TimeTaken := TimeTaken (?f attempt)\<rparr>"
      by simp
    show "StartedAt attempt \<le> now \<longrightarrow> TimeTaken (?f attempt) = (now - StartedAt attempt) div 1000"
      using t1 by simp
    show "now < StartedAt attempt \<longrightarrow> TimeTaken (?f attempt) = - ((StartedAt attempt - now) div 1000)"
      using t2 by simp
    show "TotalScore (?f attempt) = sum_list (map PointsEarned (Answers (?f attempt)))"
      using total by simp
    show "MaxScore (?f attempt) = MaxScore attempt"
      by simp
  qed
qed

theorem CompleteAttempt_finalizes_witness:
  "reachable [ex_quiz] ex_users ex_db3 \<and>
   find (\<lambda>a. Attempt_ID a = 100 \<and> StudentID a = 7) (attemptCollection ex_db3) = Some ex_attempt3 \<and>
   CompletedAt ex_attempt3 = None \<and> StartedAt ex_attempt3 = 1000 \<and>
   length (Answers ex_attempt3) = 2 \<and> length (Questions ex_quiz) = 3 \<and>
   (\<exists>done. CompleteAttempt ex_db3 7 100 12900 =
              (Inr done, ex_db3\<lparr>attemptCollection :=
                                  map (\<lambda>a. if a = ex_attempt3 then done else a) (attemptCollection ex_db3)\<rparr>) \<and>
           done = ex_attempt3\<lparr>CompletedAt := Some 12900, TimeTaken := 11\<rparr> \<and>
           TotalScore done = 10 + 10 \<and> MaxScore done = 10 + 20 + 30) \<and>
   reachable [ex_quiz] ex_users ex_db4 \<and>
   find (\<lambda>a. Attempt_ID a = 100 \<and> StudentID a = 7) (attemptCollection ex_db4)
     = Some (ex_attempt3\<lparr>CompletedAt := Some 12900, TimeTaken := 11\<rparr>) \<and>
   CompleteAttempt ex_db4 7 100 13000
     = (Inl (Failure StatusBadRequest ''Attempt already completed''), ex_db4)"
proof -
  have v: "CompletedAt ex_attempt3 = None" "StartedAt ex_attempt3 = 1000"
    "length (Answers ex_attempt3) = 2" "length (Questions ex_quiz) = 3"
    "TotalScore ex_attempt3 = 10 + 10" "MaxScore ex_attempt3 = 10 + 20 + 30"
    by (simp_all add: ex_attempt3_def ex_attempt1_def ex_quiz_def)
  note run = CompleteAttempt_finalizes [OF ex_db3_reachable ex_db3_find, of 12900]
  with v(1) obtain finished where
    d: "CompleteAttempt ex_db3 7 100 12900 =
              (Inr finished, ex_db3\<lparr>attemptCollection :=
                 map (\<lambda>a. if a = ex_attempt3 then finished else a) (attemptCollection ex_db3)\<rparr>)"
    and r: "finished = ex_attempt3\<lparr>CompletedAt := Some 12900, TimeTaken := TimeTaken finished\<rparr>"
    and t: "StartedAt ex_attempt3 \<le> 12900 \<longrightarrow> TimeTaken finished = (12900 - StartedAt ex_attempt3) div 1000"
    by blast
  from t v(2) have t': "TimeTaken finished = 11" by simp
  from r t' have r': "finished = ex_attempt3\<lparr>CompletedAt := Some 12900, TimeTaken := 11\<rparr>" by simp
  have s: "TotalScore finished = 10 + 10" "MaxScore finished = 10 + 20 + 30"
    unfolding r' using v(5,6) by simp_all
  have again: "CompleteAttempt ex_db4 7 100 13000
     = (Inl (Failure StatusBadRequest ''Attempt already completed''), ex_db4)"
    using CompleteAttempt_finalizes [OF ex_db4_reachable ex_db4_find, of 13000] by simp
  from d r' s have "\<exists>done. CompleteAttempt ex_db3 7 100 12900 =
              (Inr done, ex_db3\<lparr>attemptCollection :=
                                  map (\<lambda>a. if a = ex_attempt3 then done else a) (attemptCollection ex_db3)\<rparr>) \<and>
           done = ex_attempt3\<lparr>CompletedAt := Some 12900, TimeTaken := 11\<rparr> \<and>
           TotalScore done = 10 + 10 \<and> MaxScore done = 10 + 20 + 30"
    by blast
  with ex_db3_reachable ex_db3_find v(1-4) ex_db4_reachable ex_db4_find again
  show ?thesis by blast
qed

subsection \<open>The aggregation of the global leaderboard\<close>

lemma those_Some_map: "those xs = Some ys \<Longrightarrow> xs = map Some ys"
  by (induction xs arbitrary: ys) (auto split: option.splits)

lemma those_map_Some: "those (map Some ys) = Some ys"
  by (induction ys) simp_all

lemma those_map_total:
  assumes "\<forall>x\<in>set xs. f x \<noteq> None"
  shows "\<exists>ys. those (map f xs) = Some ys \<and> map f xs = map Some ys"
proof -
  have "None \<notin> set (map f xs)" using assms by (auto simp: image_iff)
  then have "those (map f xs) \<noteq> None" by (simp only: those_None_iff not_False_eq_True)
  then obtain ys where "those (map f xs) = Some ys" by auto
  with those_Some_map [OF this] show ?thesis by blast
qed

lemma group_by_student_None:
  "group_by_student divide_op docs = None
     \<longleftrightarrow> (\<exists>a\<in>set docs. divide_op (TotalScore a) (MaxScore a) = None)"
proof
  assume "group_by_student divide_op docs = None"
  then have "None \<in> set (map (\<lambda>sid.
                   let mine = filter (\<lambda>a. StudentID a = sid) docs
                   in map_option
                        (\<lambda>ps. \<lparr>Group_StudentID = sid,
                                AvgScore = sum_list ps / of_nat (length ps),
                                TotalAttempts = int (length mine),
                                Group_TotalScore = sum_list (map TotalScore mine)\<rparr>)
                        (those (map (\<lambda>a. map_option (\<lambda>d. d * 100)
                                            (divide_op (TotalScore a) (MaxScore a))) mine)))
                (remdups (map StudentID docs)))"
    unfolding group_by_student_def by (simp only: those_None_iff)
  then obtain sid where sid: "sid \<in> set (map StudentID docs)"
    and "those (map (\<lambda>a. map_option (\<lambda>d. d * 100) (divide_op (TotalScore a) (MaxScore a)))
                 (filter (\<lambda>a. StudentID a = sid) docs)) = None"
    by (auto simp: Let_def)
  then obtain a where "a \<in> set (filter (\<lambda>a. StudentID a = sid) docs)"
    and "map_option (\<lambda>d. d * 100) (divide_op (TotalScore a) (MaxScore a)) = None"
    unfolding those_None_iff by auto
  then show "\<exists>a\<in>set docs. divide_op (TotalScore a) (MaxScore a) = None" by auto
next
  assume "\<exists>a\<in>set docs. divide_op (TotalScore a) (MaxScore a) = None"
  then obtain a where a: "a \<in> set docs" and z: "divide_op (TotalScore a) (MaxScore a) = None"
    by blast
  let ?pct = "\<lambda>a. map_option (\<lambda>d. d * 100) (divide_op (TotalScore a) (MaxScore a))"
  let ?mine = "filter (\<lambda>b. StudentID b = StudentID a) docs"
  have "?pct a = None" using z by simp
  moreover have "a \<in> set ?mine" using a by simp
  ultimately have "None \<in> set (map ?pct ?mine)" by force
  then have inner: "those (map ?pct ?mine) = None" by (simp only: those_None_iff)
  have "StudentID a \<in> set (remdups (map StudentID docs))" using a by simp
  then have "None \<in> set (map (\<lambda>sid.
                   let mine = filter (\<lambda>a. StudentID a = sid) docs
                   in map_option
                        (\<lambda>ps. \<lparr>Group_StudentID = sid,
                                AvgScore = sum_list ps / of_nat (length ps),
                                TotalAttempts = int (length mine),
                                Group_TotalScore = sum_list (map TotalScore mine)\<rparr>)
                        (those (map ?pct mine)))
                (remdups (map StudentID docs)))"
    using inner by (force simp: Let_def)
  then show "group_by_student divide_op docs = None"
    unfolding group_by_student_def by (simp only: those_None_iff)
qed

lemma those_map_all2:
  "those (map f xs) = Some ys \<Longrightarrow> list_all2 (\<lambda>x y. f x = Some y) xs ys"
  by (induction xs arbitrary: ys) (auto split: option.splits)

lemma group_of_student:
  assumes mk: "map_option
                 (\<lambda>ps. \<lparr>Group_StudentID = sid,
                         AvgScore = sum_list ps / of_nat (length ps),
                         TotalAttempts = int (length mine),
                         Group_TotalScore = sum_list (map TotalScore mine)\<rparr>)
                 (those (map (\<lambda>a. map_option (\<lambda>d. d * 100)
                                     (divide_op (TotalScore a) (MaxScore a))) mine)) = Some g"
  shows "Group_StudentID g = sid \<and> (\<exists>ds.
           map (\<lambda>a. divide_op (TotalScore a) (MaxScore a)) mine = map Some ds \<and>
           AvgScore g = (\<Sum>d\<leftarrow>ds. d * 100) / real (length ds) \<and>
           TotalAttempts g = int (length ds) \<and>
           Group_TotalScore g = (\<Sum>a\<leftarrow>mine. TotalScore a))"
proof -
  let ?pct = "\<lambda>a. map_option (\<lambda>d. d * 100) (divide_op (TotalScore a) (MaxScore a))"
  from mk obtain ps where ps: "those (map ?pct mine) = Some ps"
    and g: "g = \<lparr>Group_StudentID = sid,
                 AvgScore = sum_list ps / of_nat (length ps),
                 TotalAttempts = int (length mine),
                 Group_TotalScore = sum_list (map TotalScore mine)\<rparr>"
    by (cases "those (map ?pct mine)") simp_all
  from those_map_all2 [OF ps] have all2: "list_all2 (\<lambda>a p. ?pct a = Some p) mine ps" .
  then have len: "length mine = length ps" by (rule list_all2_lengthD)
  define ds where "ds = map (\<lambda>a. the (divide_op (TotalScore a) (MaxScore a))) mine"
  have some: "divide_op (TotalScore a) (MaxScore a) \<noteq> None" if "a \<in> set mine" for a
  proof -
    from that obtain i where i: "i < length mine" and a: "a = mine ! i"
      by (auto simp: in_set_conv_nth)
    from list_all2_nthD [OF all2 i] have "?pct a = Some (ps ! i)" by (simp add: a)
    then show ?thesis by auto
  qed
  have d1: "map (\<lambda>a. divide_op (TotalScore a) (MaxScore a)) mine = map Some ds"
    unfolding ds_def using some by (induction mine) auto
  have d2: "ps = map (\<lambda>d. d * 100) ds"
  proof (rule nth_equalityI)
    show "length ps = length (map (\<lambda>d. d * 100) ds)" using len by (simp add: ds_def)
    fix i assume "i < length ps"
    then have i: "i < length mine" using len by simp
    from list_all2_nthD [OF all2 i] have "?pct (mine ! i) = Some (ps ! i)" .
    then show "ps ! i = map (\<lambda>d. d * 100) ds ! i"
      using i by (auto simp: ds_def)
  qed
  have l: "length mine = length ds" by (simp add: ds_def)
  show ?thesis
    unfolding g by (intro conjI exI [of _ ds]) (simp_all add: d1 d2 l)
qed

lemma group_by_student_Some:
  assumes "group_by_student divide_op docs = Some gs"
  shows "map Group_StudentID gs = remdups (map StudentID docs)"
    and "\<forall>g\<in>set gs. \<exists>ds.
           map (\<lambda>a. divide_op (TotalScore a) (MaxScore a))
             (filter (\<lambda>a. StudentID a = Group_StudentID g) docs) = map Some ds \<and>
           AvgScore g = (\<Sum>d\<leftarrow>ds. d * 100) / real (length ds) \<and>
           TotalAttempts g = int (length ds) \<and>
           Group_TotalScore g = (\<Sum>a\<leftarrow>filter (\<lambda>a. StudentID a = Group_StudentID g) docs. TotalScore a)"
proof -
  let ?mk = "\<lambda>sid. let mine = filter (\<lambda>a. StudentID a = sid) docs
                   in map_option
                        (\<lambda>ps. \<lparr>Group_StudentID = sid,
                                AvgScore = sum_list ps / of_nat (length ps),
                                TotalAttempts = int (length mine),
                                Group_TotalScore = sum_list (map TotalScore mine)\<rparr>)
                        (those (map (\<lambda>a. map_option (\<lambda>d. d * 100)
                                            (divide_op (TotalScore a) (MaxScore a))) mine))"
  let ?ok = "\<lambda>sid g. Group_StudentID g = sid \<and> (\<exists>ds.
           map (\<lambda>a. divide_op (TotalScore a) (MaxScore a))
             (filter (\<lambda>a. StudentID a = sid) docs) = map Some ds \<and>
           AvgScore g = (\<Sum>d\<leftarrow>ds. d * 100) / real (length ds) \<and>
           TotalAttempts g = int (length ds) \<and>
           Group_TotalScore g = (\<Sum>a\<leftarrow>filter (\<lambda>a. StudentID a = sid) docs. TotalScore a))"
  from assms have "those (map ?mk (remdups (map StudentID docs))) = Some gs"
    unfolding group_by_student_def .
  from those_map_all2 [OF this]
  have "list_all2 (\<lambda>sid g. ?mk sid = Some g) (remdups (map StudentID docs)) gs" .
  then have all2: "list_all2 ?ok (remdups (map StudentID docs)) gs"
  proof (rule list_all2_mono)
    fix sid g assume "?mk sid = Some g"
    then show "?ok sid g" unfolding Let_def by (rule group_of_student)
  qed
  then have "list_all2 (\<lambda>sid g. sid = Group_StudentID g) (remdups (map StudentID docs)) gs"
    by (rule list_all2_mono) simp
  then have "list_all2 (=) (remdups (map StudentID docs)) (map Group_StudentID gs)"
    by (simp only: list_all2_map2)
  then show "map Group_StudentID gs = remdups (map StudentID docs)"
    by (simp only: list.rel_eq)
  show "\<forall>g\<in>set gs. \<exists>ds.
           map (\<lambda>a. divide_op (TotalScore a) (MaxScore a))
             (filter (\<lambda>a. StudentID a = Group_StudentID g) docs) = map Some ds \<and>
           AvgScore g = (\<Sum>d\<leftarrow>ds. d * 100) / real (length ds) \<and>
           TotalAttempts g = int (length ds) \<and>
           Group_TotalScore g = (\<Sum>a\<leftarrow>filter (\<lambda>a. StudentID a = Group_StudentID g) docs. TotalScore a)"
  proof
    fix g assume "g \<in> set gs"
    then obtain i where i: "i < length gs" and g: "g = gs ! i" by (auto simp: in_set_conv_nth)
    from all2 have "length (remdups (map StudentID docs)) = length gs" by (rule list_all2_lengthD)
    with i have "i < length (remdups (map StudentID docs))" by simp
    from list_all2_nthD [OF all2 this] have "?ok (remdups (map StudentID docs) ! i) g"
      unfolding g .
    then show "\<exists>ds.
           map (\<lambda>a. divide_op (TotalScore a) (MaxScore a))
             (filter (\<lambda>a. StudentID a = Group_StudentID g) docs) = map Some ds \<and>
           AvgScore g = (\<Sum>d\<leftarrow>ds. d * 100) / real (length ds) \<and>
           TotalAttempts g = int (length ds) \<and>
           Group_TotalScore g = (\<Sum>a\<leftarrow>filter (\<lambda>a. StudentID a = Group_StudentID g) docs. TotalScore a)"
      by (elim conjE) (simp only:)
  qed
qed

lemma enrich_global_rows:
  "map global_row (enrich_global us r gs)
     = map (group_row us) (filter (\<lambda>g. student_name us (Group_StudentID g) \<noteq> None) gs) \<and>
   map Global_Rank (enrich_global us r gs)
     = map (\<lambda>i. r + int i) [0..<length (enrich_global us r gs)]"
proof (induction gs arbitrary: r)
  case Nil
  show ?case by simp
next
  case (Cons g gs)
  show ?case
  proof (cases "find (\<lambda>u. User_ID u = Group_StudentID g) us")
    case None
    then show ?thesis using Cons.IH [of r] by (simp add: student_name_def)
  next
    case (Some user)
    have "map (\<lambda>i. r + int i) [0..<Suc (length (enrich_global us (r + 1) gs))]
            = r # map (\<lambda>i. r + 1 + int i) [0..<length (enrich_global us (r + 1) gs)]"
      by (simp add: upt_conv_Cons map_Suc_upt [symmetric] del: upt_Suc)
    then show ?thesis
      using Some Cons.IH [of "r + 1"]
      by (simp add: student_name_def global_row_def group_row_def)
  qed
qed


lemma aggregate_pipeline_None:
  "aggregate_pipeline divide_op coll = None
     \<longleftrightarrow> (\<exists>a\<in>set coll. CompletedAt a \<noteq> None \<and> divide_op (TotalScore a) (MaxScore a) = None)"
  unfolding aggregate_pipeline_def by (auto simp: group_by_student_None)

lemma aggregate_pipeline_Some:
  assumes "aggregate_pipeline divide_op coll = Some results"
  shows "\<exists>groups. results = take 50 groups \<and>
           sorted_wrt (\<lambda>g h. AvgScore h \<le> AvgScore g) groups \<and>
           distinct (map Group_StudentID groups) \<and>
           set (map Group_StudentID groups) = StudentID ` {a \<in> set coll. CompletedAt a \<noteq> None} \<and>
           (\<forall>g\<in>set groups. \<exists>ds.
              map (\<lambda>a. divide_op (TotalScore a) (MaxScore a))
                (filter (\<lambda>a. StudentID a = Group_StudentID g)
                   (filter (\<lambda>a. CompletedAt a \<noteq> None) coll)) = map Some ds \<and>
              AvgScore g = (\<Sum>d\<leftarrow>ds. d * 100) / real (length ds) \<and>
              TotalAttempts g = int (length ds) \<and>
              Group_TotalScore g
                = (\<Sum>a\<leftarrow>filter (\<lambda>a. StudentID a = Group_StudentID g)
                         (filter (\<lambda>a. CompletedAt a \<noteq> None) coll). TotalScore a))"
proof -
  let ?docs = "filter (\<lambda>a. CompletedAt a \<noteq> None) coll"
  from assms obtain gs where gs: "group_by_student divide_op ?docs = Some gs"
    and results: "results = take 50 (sort_key (\<lambda>g. - AvgScore g) gs)"
    unfolding aggregate_pipeline_def by auto
  let ?groups = "sort_key (\<lambda>g. - AvgScore g) gs"
  note ids = group_by_student_Some(1) [OF gs] and each = group_by_student_Some(2) [OF gs]
  have "sorted (map (\<lambda>g. - AvgScore g) ?groups)" by (rule sorted_sort_key)
  then have sorted: "sorted_wrt (\<lambda>g h. AvgScore h \<le> AvgScore g) ?groups"
    by (simp add: sorted_map)
  have m: "mset (map Group_StudentID ?groups) = mset (map Group_StudentID gs)" by simp
  have "distinct (map Group_StudentID gs)" unfolding ids by simp
  with mset_eq_imp_distinct_iff [OF m]
  have distinct: "distinct (map Group_StudentID ?groups)" by simp
  have "set (map Group_StudentID ?groups) = set (map Group_StudentID gs)" by simp
  also have "\<dots> = StudentID ` {a \<in> set coll. CompletedAt a \<noteq> None}"
    unfolding ids by auto
  finally have students:
    "set (map Group_StudentID ?groups) = StudentID ` {a \<in> set coll. CompletedAt a \<noteq> None}" .
  from each have "\<forall>g\<in>set ?groups. \<exists>ds.
              map (\<lambda>a. divide_op (TotalScore a) (MaxScore a))
                (filter (\<lambda>a. StudentID a = Group_StudentID g) ?docs) = map Some ds \<and>
              AvgScore g = (\<Sum>d\<leftarrow>ds. d * 100) / real (length ds) \<and>
              TotalAttempts g = int (length ds) \<and>
              Group_TotalScore g
                = (\<Sum>a\<leftarrow>filter (\<lambda>a. StudentID a = Group_StudentID g) ?docs. TotalScore a)"
    by simp
  with results sorted distinct students show ?thesis
    by (intro exI [of _ ?groups] conjI)
qed

subsection \<open>A maximum score of zero in the leaderboards\<close>

text \<open>
  Claim C10. For every value and every error that the operator \<^verbatim>\<open>$divide\<close> may have,
  \<open>GetGlobalLeaderboard\<close> applies it to the total score and the maximum score of every
  completed attempt, whatever the maximum score:
  \<^item> the handler answers with the failure of the aggregation exactly when the operator
    raises an error for some completed attempt;
  \<^item> otherwise it answers with the leaderboard: there is one group for each student with a
    completed attempt, holding the average over the student's completed attempts of the
    operator's value times 100, their number and the sum of their total scores; the groups
    are ordered by average, highest first, the first 50 are kept, those of students
    without a user document are left out, and the entries are numbered from 1;
  \<^item> for a completed attempt whose maximum score is 0 the operator is applied to the
    divisor 0, and the handler fails when the operator has no value there; the quiz
    leaderboard of the attempt's quiz is produced, every entry with maximum score 0 has
    percentage 0, and the attempt has such an entry when its student has a user document.
\<close>

theorem GetGlobalLeaderboard_zero_max_score:
  "(GetGlobalLeaderboard divide_op db
      = Inl (Failure StatusInternalServerError ''Failed to generate leaderboard'')
    \<longleftrightarrow> (\<exists>a\<in>set (attemptCollection db).
           CompletedAt a \<noteq> None \<and> divide_op (TotalScore a) (MaxScore a) = None)) \<and>
   ((\<forall>a\<in>set (attemptCollection db).
        CompletedAt a \<noteq> None \<longrightarrow> divide_op (TotalScore a) (MaxScore a) \<noteq> None) \<longrightarrow>
    (\<exists>groups lb.
       GetGlobalLeaderboard divide_op db = Inr lb \<and>
       map Global_Rank lb = map (\<lambda>i. 1 + int i) [0..<length lb] \<and>
       map global_row lb
         = map (group_row (userCollection db))
             (filter (\<lambda>g. student_name (userCollection db) (Group_StudentID g) \<noteq> None)
                (take 50 groups)) \<and>
       sorted_wrt (\<lambda>g h. AvgScore h \<le> AvgScore g) groups \<and>
       distinct (map Group_StudentID groups) \<and>
       set (map Group_StudentID groups)
         = StudentID ` {a \<in> set (attemptCollection db). CompletedAt a \<noteq> None} \<and>
       (\<forall>g\<in>set groups. \<exists>ds.
          map (\<lambda>a. divide_op (TotalScore a) (MaxScore a))
            (filter (\<lambda>a. StudentID a = Group_StudentID g)
               (filter (\<lambda>a. CompletedAt a \<noteq> None) (attemptCollection db))) = map Some ds \<and>
          AvgScore g = (\<Sum>d\<leftarrow>ds. d * 100) / real (length ds) \<and>
          TotalAttempts g = int (length ds) \<and>
          Group_TotalScore g
            = (\<Sum>a\<leftarrow>filter (\<lambda>a. StudentID a = Group_StudentID g)
                     (filter (\<lambda>a. CompletedAt a \<noteq> None) (attemptCollection db)). TotalScore a)))) \<and>
   (\<forall>a\<in>set (attemptCollection db). CompletedAt a \<noteq> None \<and> MaxScore a = 0 \<longrightarrow>
      (divide_op (TotalScore a) 0 = None \<longrightarrow>
         GetGlobalLeaderboard divide_op db
           = Inl (Failure StatusInternalServerError ''Failed to generate leaderboard'')) \<and>
      (\<exists>lb. GetQuizLeaderboard db (QuizID a) = Some (QuizLeaderboardReply (int (length lb)) lb) \<and>
            (\<forall>e\<in>set lb. Entry_MaxScore e = 0 \<longrightarrow> Percentage e = 0) \<and>
            (known_student (userCollection db) a \<longrightarrow>
               (\<exists>e\<in>set lb. Entry_StudentID e = StudentID a \<and> Entry_MaxScore e = 0 \<and>
                           Percentage e = 0))))"
proof (intro conjI impI ballI)
  show fails: "GetGlobalLeaderboard divide_op db
      = Inl (Failure StatusInternalServerError ''Failed to generate leaderboard'')
    \<longleftrightarrow> (\<exists>a\<in>set (attemptCollection db).
           CompletedAt a \<noteq> None \<and> divide_op (TotalScore a) (MaxScore a) = None)"
    unfolding GetGlobalLeaderboard_def aggregate_pipeline_None [symmetric]
    by (simp split: option.splits)
  show "GetGlobalLeaderboard divide_op db
           = Inl (Failure StatusInternalServerError ''Failed to generate leaderboard'')"
    if "a \<in> set (attemptCollection db)" "CompletedAt a \<noteq> None \<and> MaxScore a = 0"
      "divide_op (TotalScore a) 0 = None" for a
    unfolding fails using that by auto
next
  assume "\<forall>a\<in>set (attemptCollection db).
        CompletedAt a \<noteq> None \<longrightarrow> divide_op (TotalScore a) (MaxScore a) \<noteq> None"
  then have "aggregate_pipeline divide_op (attemptCollection db) \<noteq> None"
    unfolding aggregate_pipeline_None by blast
  then obtain results where r: "aggregate_pipeline divide_op (attemptCollection db) = Some results"
    by auto
  from aggregate_pipeline_Some [OF r] obtain groups where g: "results = take 50 groups"
    and rest: "sorted_wrt (\<lambda>g h. AvgScore h \<le> AvgScore g) groups"
      "distinct (map Group_StudentID groups)"
      "set (map Group_StudentID groups)
         = StudentID ` {a \<in> set (attemptCollection db). CompletedAt a \<noteq> None}"
      "\<forall>g\<in>set groups. \<exists>ds.
          map (\<lambda>a. divide_op (TotalScore a) (MaxScore a))
            (filter (\<lambda>a. StudentID a = Group_StudentID g)
               (filter (\<lambda>a. CompletedAt a \<noteq> None) (attemptCollection db))) = map Some ds \<and>
          AvgScore g = (\<Sum>d\<leftarrow>ds. d * 100) / real (length ds) \<and>
          TotalAttempts g = int (length ds) \<and>
          Group_TotalScore g
            = (\<Sum>a\<leftarrow>filter (\<lambda>a. StudentID a = Group_StudentID g)
                     (filter (\<lambda>a. CompletedAt a \<noteq> None) (attemptCollection db)). TotalScore a)"
    by blast
  let ?lb = "enrich_global (userCollection db) 1 (take 50 groups)"
  have run: "GetGlobalLeaderboard divide_op db = Inr ?lb"
    by (simp add: GetGlobalLeaderboard_def r g)
  note rows = enrich_global_rows [of "userCollection db" 1 "take 50 groups"]
  from rows have ranks: "map Global_Rank ?lb = map (\<lambda>i. 1 + int i) [0..<length ?lb]" by blast
  from rows have shown: "map global_row ?lb
         = map (group_row (userCollection db))
             (filter (\<lambda>g. student_name (userCollection db) (Group_StudentID g) \<noteq> None)
                (take 50 groups))"
    by blast
  from run ranks shown rest
  show "\<exists>groups lb.
       GetGlobalLeaderboard divide_op db = Inr lb \<and>
       map Global_Rank lb = map (\<lambda>i. 1 + int i) [0..<length lb] \<and>
       map global_row lb
         = map (group_row (userCollection db))
             (filter (\<lambda>g. student_name (userCollection db) (Group_StudentID g) \<noteq> None)
                (take 50 groups)) \<and>
       sorted_wrt (\<lambda>g h. AvgScore h \<le> AvgScore g) groups \<and>
       distinct (map Group_StudentID groups) \<and>
       set (map Group_StudentID groups)
         = StudentID ` {a \<in> set (attemptCollection db). CompletedAt a \<noteq> None} \<and>
       (\<forall>g\<in>set groups. \<exists>ds.
          map (\<lambda>a. divide_op (TotalScore a) (MaxScore a))
            (filter (\<lambda>a. StudentID a = Group_StudentID g)
               (filter (\<lambda>a. CompletedAt a \<noteq> None) (attemptCollection db))) = map Some ds \<and>
          AvgScore g = (\<Sum>d\<leftarrow>ds. d * 100) / real (length ds) \<and>
          TotalAttempts g = int (length ds) \<and>
          Group_TotalScore g
            = (\<Sum>a\<leftarrow>filter (\<lambda>a. StudentID a = Group_StudentID g)
                     (filter (\<lambda>a. CompletedAt a \<noteq> None) (attemptCollection db)). TotalScore a))"
    by (intro exI [of _ groups] exI [of _ ?lb] conjI)
next
  fix a
  assume mem: "a \<in> set (attemptCollection db)"
    and cz: "CompletedAt a \<noteq> None \<and> MaxScore a = 0"
  then have c: "CompletedAt a \<noteq> None" and z: "MaxScore a = 0" by simp_all
  let ?L = "filter (known_student (userCollection db))
                (sort_by_score_time
                   (filter (\<lambda>b. QuizID b = QuizID a \<and> CompletedAt b \<noteq> None) (attemptCollection db)))"
  from GetQuizLeaderboard_rows [of db "QuizID a"] obtain lb
    where run: "GetQuizLeaderboard db (QuizID a) = Some (QuizLeaderboardReply (int (length lb)) lb)"
      and rows: "map entry_row lb = map attempt_row ?L"
    by blast
  have zero: "\<forall>e\<in>set lb. Entry_MaxScore e = 0 \<longrightarrow> Percentage e = 0"
  proof (intro ballI impI)
    fix e assume e: "e \<in> set lb" and z: "Entry_MaxScore e = 0"
    from e have "entry_row e \<in> set (map entry_row lb)" by simp
    then have "entry_row e \<in> set (map attempt_row ?L)" by (simp only: rows)
    then obtain b where "entry_row e = attempt_row b" by auto
    from row_percentage(2,3) [OF this] z show "Percentage e = 0" by simp
  qed
  have here: "known_student (userCollection db) a \<longrightarrow>
                  (\<exists>e\<in>set lb. Entry_StudentID e = StudentID a \<and> Entry_MaxScore e = 0 \<and>
                              Percentage e = 0)"
  proof
    assume "known_student (userCollection db) a"
    with mem c have "a \<in> set ?L" by (simp add: sort_by_score_time_def)
    then have "attempt_row a \<in> set (map attempt_row ?L)" by simp
    then have "attempt_row a \<in> set (map entry_row lb)" by (simp only: rows)
    then obtain e where e: "e \<in> set lb" and row: "entry_row e = attempt_row a" by auto
    from row_percentage [OF row] z
    have "Entry_StudentID e = StudentID a \<and> Entry_MaxScore e = 0 \<and> Percentage e = 0" by simp
    with e show "\<exists>e\<in>set lb. Entry_StudentID e = StudentID a \<and> Entry_MaxScore e = 0 \<and>
                              Percentage e = 0"
      by blast
  qed
  from run zero here
  show "\<exists>lb. GetQuizLeaderboard db (QuizID a) = Some (QuizLeaderboardReply (int (length lb)) lb) \<and>
               (\<forall>e\<in>set lb. Entry_MaxScore e = 0 \<longrightarrow> Percentage e = 0) \<and>
               (known_student (userCollection db) a \<longrightarrow>
                  (\<exists>e\<in>set lb. Entry_StudentID e = StudentID a \<and> Entry_MaxScore e = 0 \<and>
                              Percentage e = 0))"
    by blast
qed

theorem GetGlobalLeaderboard_zero_max_score_witness:
  "ex_zero_attempt \<in> set (attemptCollection ex_zero_db) \<and>
   CompletedAt ex_zero_attempt = Some 4000 \<and> MaxScore ex_zero_attempt = 0 \<and>
   mongo_divide (TotalScore ex_zero_attempt) 0 = None \<and>
   known_student (userCollection ex_zero_db) ex_zero_attempt \<and>
   GetGlobalLeaderboard mongo_divide ex_zero_db
     = Inl (Failure StatusInternalServerError ''Failed to generate leaderboard'') \<and>
   GetGlobalLeaderboard (\<lambda>x y. Some (x / y)) ex_zero_db
     = Inr [\<lparr>Global_Rank = 1, Global_StudentID = 7, Global_StudentName = ''Ada Byron'',
             Global_AvgScore = 0, Global_TotalAttempts = 1, Global_TotalScore = 0\<rparr>] \<and>
   GetQuizLeaderboard ex_zero_db 6
     = Some (QuizLeaderboardReply 1
          [\<lparr>Rank = 1, Entry_StudentID = 7, StudentName = ''Ada Byron'', Score = 0,
            Entry_MaxScore = 0, Percentage = 0, Entry_TimeTaken = 3, Entry_CompletedAt = 4000\<rparr>]) \<and>
   (\<exists>lb. GetQuizLeaderboard ex_zero_db 6 = Some (QuizLeaderboardReply (int (length lb)) lb) \<and>
         list_ex (\<lambda>e. Entry_StudentID e = 7 \<and> Entry_MaxScore e = 0 \<and> Percentage e = 0) lb) \<and>
   list_all (\<lambda>a. CompletedAt a = None \<or> mongo_divide (TotalScore a) (MaxScore a) \<noteq> None)
     (attemptCollection ex_two_db) \<and>
   (\<exists>lb. GetGlobalLeaderboard mongo_divide ex_two_db = Inr lb \<and>
         map Global_Rank lb = map (\<lambda>i. 1 + int i) [0..<length lb]) \<and>
   GetGlobalLeaderboard mongo_divide ex_two_db
     = Inr [\<lparr>Global_Rank = 1, Global_StudentID = 8, Global_StudentName = ''Alan Turing'',
             Global_AvgScore = 90, Global_TotalAttempts = 1, Global_TotalScore = 9\<rparr>,
            \<lparr>Global_Rank = 2, Global_StudentID = 7, Global_StudentName = ''Ada Byron'',
             Global_AvgScore = 75, Global_TotalAttempts = 2, Global_TotalScore = 40\<rparr>]"
proof -
  have m: "ex_zero_attempt \<in> set (attemptCollection ex_zero_db)"
    by (simp add: ex_zero_db_def)
  have c: "CompletedAt ex_zero_attempt = Some 4000" and z: "MaxScore ex_zero_attempt = 0"
    and q: "QuizID ex_zero_attempt = 6" and s: "StudentID ex_zero_attempt = 7"
    by (simp_all add: ex_zero_attempt_def)
  from c have c': "CompletedAt ex_zero_attempt \<noteq> None" by simp
  have d: "mongo_divide (TotalScore ex_zero_attempt) 0 = None"
    by (simp add: mongo_divide_def)
  have k: "known_student (userCollection ex_zero_db) ex_zero_attempt"
    by (simp add: known_student_def ex_zero_db_def ex_users_def ex_zero_attempt_def)
  have lb: "GetQuizLeaderboard ex_zero_db 6
     = Some (QuizLeaderboardReply 1
          [\<lparr>Rank = 1, Entry_StudentID = 7, StudentName = ''Ada Byron'', Score = 0,
            Entry_MaxScore = 0, Percentage = 0, Entry_TimeTaken = 3, Entry_CompletedAt = 4000\<rparr>])"
    by (simp add: GetQuizLeaderboard_def sort_by_score_time_def ex_zero_db_def ex_users_def
        ex_zero_attempt_def Let_def)
  note Z = GetGlobalLeaderboard_zero_max_score [of mongo_divide ex_zero_db]
  have at_zero:
    "(mongo_divide (TotalScore ex_zero_attempt) 0 = None \<longrightarrow>
         GetGlobalLeaderboard mongo_divide ex_zero_db
           = Inl (Failure StatusInternalServerError ''Failed to generate leaderboard'')) \<and>
      (\<exists>lb. GetQuizLeaderboard ex_zero_db (QuizID ex_zero_attempt)
               = Some (QuizLeaderboardReply (int (length lb)) lb) \<and>
            (\<forall>e\<in>set lb. Entry_MaxScore e = 0 \<longrightarrow> Percentage e = 0) \<and>
            (known_student (userCollection ex_zero_db) ex_zero_attempt \<longrightarrow>
               (\<exists>e\<in>set lb. Entry_StudentID e = StudentID ex_zero_attempt \<and> Entry_MaxScore e = 0 \<and>
                           Percentage e = 0)))"
    by (rule mp [OF bspec [OF Z [THEN conjunct2, THEN conjunct2] m] conjI [OF c' z]])
  with d have g: "GetGlobalLeaderboard mongo_divide ex_zero_db
     = Inl (Failure StatusInternalServerError ''Failed to generate leaderboard'')"
    by blast
  from at_zero k obtain es where
    "GetQuizLeaderboard ex_zero_db (QuizID ex_zero_attempt)
       = Some (QuizLeaderboardReply (int (length es)) es)"
    "\<exists>e\<in>set es. Entry_StudentID e = StudentID ex_zero_attempt \<and> Entry_MaxScore e = 0 \<and> Percentage e = 0"
    by blast
  then have quiz: "\<exists>lb. GetQuizLeaderboard ex_zero_db 6 = Some (QuizLeaderboardReply (int (length lb)) lb) \<and>
         list_ex (\<lambda>e. Entry_StudentID e = 7 \<and> Entry_MaxScore e = 0 \<and> Percentage e = 0) lb"
    unfolding q s list_ex_iff by blast
  have all: "list_all (\<lambda>a. CompletedAt a = None \<or> mongo_divide (TotalScore a) (MaxScore a) \<noteq> None)
     (attemptCollection ex_two_db)"
    by (simp add: ex_two_db_def mongo_divide_def del: not_None_eq)
  then have hyp: "\<forall>a\<in>set (attemptCollection ex_two_db).
        CompletedAt a \<noteq> None \<longrightarrow> mongo_divide (TotalScore a) (MaxScore a) \<noteq> None"
    unfolding list_all_iff by auto
  note T = GetGlobalLeaderboard_zero_max_score [of mongo_divide ex_two_db]
  from mp [OF T [THEN conjunct2, THEN conjunct1] hyp] obtain lb
    where "GetGlobalLeaderboard mongo_divide ex_two_db = Inr lb"
      and "map Global_Rank lb = map (\<lambda>i. 1 + int i) [0..<length lb]"
    by (elim exE conjE) (rule that)
  then have ok: "\<exists>lb. GetGlobalLeaderboard mongo_divide ex_two_db = Inr lb \<and>
         map Global_Rank lb = map (\<lambda>i. 1 + int i) [0..<length lb]"
    by (intro exI [of _ lb] conjI)
  from m c z d k g ex_global_zero lb quiz all ok ex_global_two show ?thesis
    by (intro conjI)
qed


end
